theory Spec2Isabelle
  imports Complex_Main "HOL-Library.Sublist"
begin

section \<open>Python values and exceptions\<close>

text \<open>
  The extractors are Python. A number of the engine is a Python \<open>float\<close>; the model
  holds the finite ones, each as the \<open>real\<close> it denotes, and a stored infinity or NaN
  is outside the model. The ratios the extractors store are computed as exact quotients
  (\<open>truediv\<close> below) and compared with exact decimal bounds: their rounding is not
  modelled. The first rule of \<open>validar_coherencia\<close> reads three numbers that come
  from the parsers unchanged, divides and subtracts them and compares the result with a
  literal; whether it raises and what it records depends on the rounding, so its
  arithmetic is the arithmetic of double-precision floats, defined further down. A Python \<open>str\<close> is a
  \<open>string\<close> whose characters are the code points below 256 (Latin-1), so
  \<open>CHR 0xCD\<close> is the capital I with acute accent of the label \<open>CRITICO\<close>.
  Every \<open>raise\<close> is a value \<open>Inl e\<close> of a sum type.
\<close>

datatype py_exn =
    KeyError string
  | TypeError
  | ZeroDivisionError
  | IndexError
  | ValueError
  | OtherError string

fun bind_exn :: "py_exn + 'a \<Rightarrow> ('a \<Rightarrow> py_exn + 'b) \<Rightarrow> py_exn + 'b" where
  "bind_exn (Inl e) f = Inl e"
| "bind_exn (Inr x) f = f x"

text \<open>True division of two numbers in the extractors, as an exact quotient: \<open>a / b\<close>
  raises \<open>ZeroDivisionError\<close> when \<open>b\<close> is zero. The quotient of two floats that
  are not zero can round to zero; the division of \<open>validar_coherencia\<close>, where that
  decides a raise, is \<open>dividir\<close> below.\<close>

definition truediv :: "real \<Rightarrow> real \<Rightarrow> py_exn + real" where
  "truediv a b = (if b = 0 then Inl ZeroDivisionError else Inr (a / b))"

section \<open>Risk and performance classifiers\<close>

definition CRITICO :: string where
  "CRITICO = ''CR'' @ [CHR 0xCD] @ ''TICO''"

definition LIMITE :: string where
  "LIMITE = ''L'' @ [CHR 0xCD] @ ''MITE''"

text \<open>\<open>metrica_m001.evaluar_nivel_riesgo\<close>\<close>

definition evaluar_nivel_riesgo :: "real \<Rightarrow> string" where
  "evaluar_nivel_riesgo ratio =
     (if ratio < 0.04 then ''BAJO''
      else if ratio < 0.07 then ''MEDIO''
      else if ratio < 0.10 then ''ALTO''
      else CRITICO)"

text \<open>\<open>metrica_m002.evaluar_desempeno\<close>\<close>

definition evaluar_desempeno :: "real \<Rightarrow> string" where
  "evaluar_desempeno roe =
     (if roe < 0.05 then ''BAJO''
      else if roe < 0.10 then ''MEDIO''
      else if roe < 0.15 then ''ALTO''
      else ''EXCELENTE'')"

text \<open>\<open>metrica_m003.evaluar_calidad_cartera\<close>\<close>

definition evaluar_calidad_cartera :: "real \<Rightarrow> string" where
  "evaluar_calidad_cartera npl_ratio =
     (if npl_ratio < 0.03 then ''EXCELENTE''
      else if npl_ratio < 0.05 then ''BUENO''
      else if npl_ratio < 0.08 then ''ACEPTABLE''
      else if npl_ratio < 0.12 then ''ALTO''
      else CRITICO)"

text \<open>\<open>metrica_m004.evaluar_nivel_cobertura\<close>\<close>

definition evaluar_nivel_cobertura :: "real \<Rightarrow> string" where
  "evaluar_nivel_cobertura coverage =
     (if coverage > 1.50 then ''CONSERVADOR''
      else if coverage \<ge> 1.00 then ''ADECUADO''
      else if coverage \<ge> 0.80 then LIMITE
      else ''INSUFICIENTE'')"

text \<open>\<open>metrica_m005.evaluar_nivel_riesgo\<close>: the namesake of the M001 classifier, with
  the five bands of the NPL classifier.\<close>

definition evaluar_nivel_riesgo_m005 :: "real \<Rightarrow> string" where
  "evaluar_nivel_riesgo_m005 ratio =
     (if ratio < 0.03 then ''EXCELENTE''
      else if ratio < 0.05 then ''BUENO''
      else if ratio < 0.08 then ''ACEPTABLE''
      else if ratio < 0.12 then ''ALTO''
      else CRITICO)"

section \<open>Numeric token extractor (\<open>metrica_m002.extraer_numeros_de_linea\<close>)\<close>

text \<open>
  The pattern is \<^verbatim>\<open>\(?([\d,]+)\)?\<close>. On Latin-1 text \<^verbatim>\<open>\d\<close> is an ASCII digit, so the
  character class of the group is the ten digits and the comma.
\<close>

definition es_digito :: "char \<Rightarrow> bool" where
  "es_digito c = (c \<in> set ''0123456789'')"

definition clase_num :: "char \<Rightarrow> bool" where
  "clase_num c = (es_digito c \<or> c = CHR '','')"

text \<open>\<^verbatim>\<open>([\d,]+)\)?\<close> at the start of \<open>s\<close>: the greedy group, then an optional closing
  parenthesis. The result is the group and the text left after the match.\<close>

definition grupo :: "string \<Rightarrow> (string \<times> string) option" where
  "grupo s =
     (let g = takeWhile clase_num s; r = dropWhile clase_num s
      in if g = [] then None
         else Some (g, case r of [] \<Rightarrow> r | c # r' \<Rightarrow> if c = CHR '')'' then r' else r))"

text \<open>The whole pattern at the start of \<open>s\<close>: \<^verbatim>\<open>\(?\<close> first tries to take an opening
  parenthesis and, when the group does not follow it, backtracks to taking nothing.\<close>

definition match_patron :: "string \<Rightarrow> (string \<times> string) option" where
  "match_patron s =
     (case s of
        [] \<Rightarrow> None
      | c # r \<Rightarrow>
          if c = CHR ''('' then (case grupo r of Some m \<Rightarrow> Some m | None \<Rightarrow> grupo s)
          else grupo s)"

lemma grupo_shorter: "grupo s = Some (g, r) \<Longrightarrow> length r < length s"
proof -
  assume a: "grupo s = Some (g, r)"
  have len: "length (takeWhile clase_num s) + length (dropWhile clase_num s) = length s"
    by (metis length_append takeWhile_dropWhile_id)
  from a have ne: "takeWhile clase_num s \<noteq> []"
    by (auto simp: grupo_def Let_def split: if_splits)
  from a have "length r \<le> length (dropWhile clase_num s)"
    by (auto simp: grupo_def Let_def split: if_splits list.splits)
  moreover from ne have "0 < length (takeWhile clase_num s)" by simp
  ultimately show ?thesis using len by linarith
qed

lemma match_patron_shorter: "match_patron s = Some (g, r) \<Longrightarrow> length r < length s"
  by (cases s) (auto simp: match_patron_def split: if_splits option.splits
      dest!: grupo_shorter)

text \<open>\<open>re.findall\<close>: scan from the left; where the pattern matches, keep the group and go on
  after the match; where it does not, move one character on.\<close>

function (sequential) findall_patron :: "string \<Rightarrow> string list" where
  "findall_patron [] = []"
| "findall_patron (c # cs) =
     (case match_patron (c # cs) of
        Some (g, resto) \<Rightarrow> g # findall_patron resto
      | None \<Rightarrow> findall_patron cs)"
  by pat_completeness auto
termination
  by (relation "measure length") (auto dest: match_patron_shorter)

definition valor_digito :: "char \<Rightarrow> nat" where
  "valor_digito c = of_char c - 48"

definition valor_decimal :: "string \<Rightarrow> nat" where
  "valor_decimal s = foldl (\<lambda>acc c. 10 * acc + valor_digito c) 0 s"

text \<open>\<open>float(numero_str)\<close> on what the pattern can capture once the commas are removed: a
  string of digits. It is a number unless the string is empty, and then \<open>float\<close> raises
  \<open>ValueError\<close>.\<close>

definition py_float :: "string \<Rightarrow> py_exn + real" where
  "py_float s =
     (if s \<noteq> [] \<and> list_all es_digito s then Inr (real (valor_decimal s))
      else Inl ValueError)"

text \<open>The loop over the matches; \<open>except ValueError: continue\<close> skips a token.\<close>

fun filtrar_numeros :: "string list \<Rightarrow> real list" where
  "filtrar_numeros [] = []"
| "filtrar_numeros (m # ms) =
     (case py_float (filter (\<lambda>c. c \<noteq> CHR '','') m) of
        Inl e \<Rightarrow> filtrar_numeros ms
      | Inr numero \<Rightarrow>
          if numero > 1000 then numero # filtrar_numeros ms else filtrar_numeros ms)"

definition extraer_numeros_de_linea :: "string \<Rightarrow> real list" where
  "extraer_numeros_de_linea linea = filtrar_numeros (findall_patron linea)"

section \<open>M002: return on equity (\<open>metrica_m002\<close>)\<close>

text \<open>The dataclass. \<open>id_metrica\<close> is its field \<open>id\<close>. The constructor function below
  is the generated \<open>__init__\<close> followed by \<open>__post_init__\<close>, which overwrites the default
  of \<open>cambio_yoy\<close>.\<close>

record MetricaM002 =
  utilidad_neta_2024 :: real
  utilidad_neta_2023 :: real
  patrimonio_2024 :: real
  patrimonio_2023 :: real
  roe_2024 :: real
  roe_2023 :: real
  nivel_desempeno :: string
  pagina_fuente :: "nat option"
  fecha_extraccion :: string
  id_metrica :: string
  nombre :: string
  cambio_yoy :: real

definition nueva_MetricaM002 ::
  "real \<Rightarrow> real \<Rightarrow> real \<Rightarrow> real \<Rightarrow> real \<Rightarrow> real \<Rightarrow> string \<Rightarrow> nat option \<Rightarrow> string
    \<Rightarrow> MetricaM002" where
  "nueva_MetricaM002 un24 un23 p24 p23 r24 r23 nivel pagina fecha =
     \<lparr> MetricaM002.utilidad_neta_2024 = un24,
       MetricaM002.utilidad_neta_2023 = un23,
       MetricaM002.patrimonio_2024 = p24,
       MetricaM002.patrimonio_2023 = p23,
       MetricaM002.roe_2024 = r24,
       MetricaM002.roe_2023 = r23,
       MetricaM002.nivel_desempeno = nivel,
       MetricaM002.pagina_fuente = pagina,
       MetricaM002.fecha_extraccion = fecha,
       MetricaM002.id_metrica = ''M002'',
       MetricaM002.nombre = ''ROE (Return on Equity)'',
       MetricaM002.cambio_yoy = r24 - r23 \<rparr>"

text \<open>The dictionary \<open>datos\<close> of the scan: every value starts as \<open>None\<close>.\<close>

record datos_m002 =
  utilidad_neta_2024 :: "real option"
  utilidad_neta_2023 :: "real option"
  patrimonio_2024 :: "real option"
  patrimonio_2023 :: "real option"
  pagina_encontrada :: "nat option"

definition datos_iniciales :: datos_m002 where
  "datos_iniciales =
     \<lparr> datos_m002.utilidad_neta_2024 = None,
       datos_m002.utilidad_neta_2023 = None,
       datos_m002.patrimonio_2024 = None,
       datos_m002.patrimonio_2023 = None,
       datos_m002.pagina_encontrada = None \<rparr>"

text \<open>Truth value of an optional number: \<open>None\<close> and zero are false.\<close>

fun verdadero :: "real option \<Rightarrow> bool" where
  "verdadero None = False"
| "verdadero (Some x) = (x \<noteq> 0)"

text \<open>An operand of an arithmetic operator: \<open>None\<close> there raises \<open>TypeError\<close>.\<close>

fun numero :: "real option \<Rightarrow> py_exn + real" where
  "numero None = Inl TypeError"
| "numero (Some x) = Inr x"

text \<open>\<open>xs[i]\<close>: a negative index counts from the end, an index out of range raises.\<close>

definition indice :: "'a list \<Rightarrow> int \<Rightarrow> py_exn + 'a" where
  "indice xs i =
     (if 0 \<le> i \<and> i < int (length xs) then Inr (xs ! nat i)
      else if i < 0 \<and> - int (length xs) \<le> i then Inr (xs ! nat (int (length xs) + i))
      else Inl IndexError)"

text \<open>\<open>str.lower\<close> on Latin-1 text: the letters A to Z and the accented capitals
  (all of 0xC0 to 0xDE but the multiplication sign) move 32 code points up.\<close>

definition lower_char :: "char \<Rightarrow> char" where
  "lower_char c =
     (let n = (of_char c :: nat)
      in if (65 \<le> n \<and> n \<le> 90) \<or> (192 \<le> n \<and> n \<le> 222 \<and> n \<noteq> 215)
         then char_of (n + 32) else c)"

definition lower :: "string \<Rightarrow> string" where
  "lower s = map lower_char s"

text \<open>\<open>texto.split('\n')\<close>\<close>

fun split_lineas :: "string \<Rightarrow> string \<Rightarrow> string list" where
  "split_lineas acc [] = [acc]"
| "split_lineas acc (c # cs) =
     (if c = CHR 0x0A then acc # split_lineas [] cs else split_lineas (acc @ [c]) cs)"

text \<open>The first block of the loop body: the net income line.\<close>

definition buscar_utilidad_neta :: "nat \<Rightarrow> string \<Rightarrow> datos_m002 \<Rightarrow> py_exn + datos_m002" where
  "buscar_utilidad_neta numero_pagina linea datos =
     (let linea_lower = lower linea
      in if sublist ''utilidad neta'' linea_lower \<or> sublist ''net income'' linea_lower then
           if \<not> sublist ''total'' (take 20 linea_lower) then
             (let numeros = extraer_numeros_de_linea linea
              in if length numeros \<ge> 2 \<and> \<not> verdadero (datos_m002.utilidad_neta_2024 datos) then
                   bind_exn (indice numeros (- 2)) (\<lambda>a.
                   bind_exn (indice numeros (- 1)) (\<lambda>b.
                     Inr (datos\<lparr> datos_m002.utilidad_neta_2024 := Some \<bar>a\<bar>,
                                datos_m002.utilidad_neta_2023 := Some \<bar>b\<bar>,
                                datos_m002.pagina_encontrada := Some numero_pagina \<rparr>)))
                 else Inr datos)
           else Inr datos
         else Inr datos)"

text \<open>The second block: the total equity line.\<close>

definition buscar_patrimonio :: "string \<Rightarrow> datos_m002 \<Rightarrow> py_exn + datos_m002" where
  "buscar_patrimonio linea datos =
     (let linea_lower = lower linea
      in if sublist ''total patrimonio'' linea_lower \<or> sublist ''total equity'' linea_lower then
           (let numeros = extraer_numeros_de_linea linea
            in if length numeros \<ge> 2 \<and> \<not> verdadero (datos_m002.patrimonio_2024 datos) then
                 bind_exn (indice numeros (- 2)) (\<lambda>a.
                 bind_exn (indice numeros (- 1)) (\<lambda>b.
                   Inr (datos\<lparr> datos_m002.patrimonio_2024 := Some \<bar>a\<bar>,
                              datos_m002.patrimonio_2023 := Some \<bar>b\<bar> \<rparr>)))
               else Inr datos)
         else Inr datos)"

text \<open>The third block: with both values at hand, check the preliminary ROE; return the
  metric (\<open>Inl\<close>) when it is plausible, else forget both values and go on (\<open>Inr\<close>).\<close>

definition validar_y_salir :: "string \<Rightarrow> datos_m002 \<Rightarrow> py_exn + (MetricaM002 + datos_m002)" where
  "validar_y_salir ahora datos =
     (if verdadero (datos_m002.utilidad_neta_2024 datos)
         \<and> verdadero (datos_m002.patrimonio_2024 datos) then
        bind_exn (numero (datos_m002.utilidad_neta_2024 datos)) (\<lambda>un24.
        bind_exn (numero (datos_m002.patrimonio_2024 datos)) (\<lambda>p24.
        bind_exn (truediv un24 p24) (\<lambda>roe.
          if - 0.10 < roe \<and> roe < 0.30 then
            bind_exn (numero (datos_m002.patrimonio_2023 datos)) (\<lambda>p23.
            bind_exn (truediv (p24 + p23) 2) (\<lambda>patrimonio_prom_2024.
            bind_exn (truediv un24 patrimonio_prom_2024) (\<lambda>roe_2024.
            bind_exn (numero (datos_m002.utilidad_neta_2023 datos)) (\<lambda>un23.
            bind_exn (truediv un23 p23) (\<lambda>roe_2023.
              Inr (Inl (nueva_MetricaM002 un24 un23 p24 p23 roe_2024 roe_2023
                         (evaluar_desempeno roe_2024)
                         (datos_m002.pagina_encontrada datos) ahora)))))))
          else
            Inr (Inr (datos\<lparr> datos_m002.utilidad_neta_2024 := None,
                            datos_m002.patrimonio_2024 := None \<rparr>)))))
      else Inr (Inr datos))"

definition procesar_linea ::
  "string \<Rightarrow> nat \<Rightarrow> string \<Rightarrow> datos_m002 \<Rightarrow> py_exn + (MetricaM002 + datos_m002)" where
  "procesar_linea ahora numero_pagina linea datos =
     bind_exn (buscar_utilidad_neta numero_pagina linea datos) (\<lambda>d1.
     bind_exn (buscar_patrimonio linea d1) (\<lambda>d2.
       validar_y_salir ahora d2))"

text \<open>The inner loop, over the lines of one page.\<close>

fun scan_lineas ::
  "string \<Rightarrow> nat \<Rightarrow> string list \<Rightarrow> datos_m002 \<Rightarrow> py_exn + (MetricaM002 + datos_m002)" where
  "scan_lineas ahora n [] datos = Inr (Inr datos)"
| "scan_lineas ahora n (linea # lineas) datos =
     bind_exn (procesar_linea ahora n linea datos) (\<lambda>r.
       case r of
         Inl metrica \<Rightarrow> Inr (Inl metrica)
       | Inr datos' \<Rightarrow> scan_lineas ahora n lineas datos')"

text \<open>The outer loop, over the pages, numbered from 1. A page is what \<open>extract_text\<close>
  gives for it: \<open>None\<close> or a text; a page without text is skipped.\<close>

fun scan_paginas ::
  "string \<Rightarrow> nat \<Rightarrow> string option list \<Rightarrow> datos_m002 \<Rightarrow> py_exn + MetricaM002 option" where
  "scan_paginas ahora n [] datos = Inr None"
| "scan_paginas ahora n (pagina # paginas) datos =
     (case pagina of
        None \<Rightarrow> scan_paginas ahora (Suc n) paginas datos
      | Some texto \<Rightarrow>
          if texto = [] then scan_paginas ahora (Suc n) paginas datos
          else
            bind_exn (scan_lineas ahora n (split_lineas [] texto) datos) (\<lambda>r.
              case r of
                Inl metrica \<Rightarrow> Inr (Some metrica)
              | Inr datos' \<Rightarrow> scan_paginas ahora (Suc n) paginas datos'))"

text \<open>The file system and the PDF reader are outside the engine: \<open>archivos ruta\<close> is
  \<open>None\<close> when no file is at \<open>ruta\<close> and else the pages of the document there;
  \<open>ahora\<close> is the time stamp \<open>datetime.now()\<close> prints.\<close>

definition extraer_metrica_m002 ::
  "(string \<Rightarrow> string option list option) \<Rightarrow> string \<Rightarrow> string \<Rightarrow> py_exn + MetricaM002 option" where
  "extraer_metrica_m002 archivos ahora ruta_pdf =
     (case archivos ruta_pdf of
        None \<Rightarrow> Inr None
      | Some paginas \<Rightarrow> scan_paginas ahora 1 paginas datos_iniciales)"

section \<open>The parsers and what they return\<close>

text \<open>
  The extractors of M001, M003, M004 and M005 read the document through the modules
  \<open>parsers.extraer_tabla_inteligente\<close>, \<open>parsers.extraer_desde_pagina_95\<close> and
  \<open>parsers.extraer_calificacion_riesgo\<close>, whose code is not part of the sources at hand.
  The engine is therefore modelled over any functions in their place. A parser takes the
  path of the document and raises, or returns \<open>None\<close>, or returns a dictionary from
  keys to optional numbers, as the extractors use it. The fourth function,
  \<open>calcular_cartera_vencida_desde_cobertura\<close> of \<open>parsers.extraer_desde_pagina_95\<close>,
  takes a provision and a coverage and raises or returns a number; where the extractor
  would hand it \<open>None\<close> the model raises \<open>TypeError\<close>, as a quotient would.
\<close>

type_synonym datos = "(string \<times> real option) list"

record parsers =
  extraer_tabla_provision :: "string \<Rightarrow> py_exn + datos option"
  extraer_cobertura_vencida :: "string \<Rightarrow> py_exn + datos option"
  extraer_calificacion_riesgo :: "string \<Rightarrow> py_exn + datos option"
  calcular_cartera_vencida_desde_cobertura :: "real \<Rightarrow> real \<Rightarrow> py_exn + real"

text \<open>\<open>datos[k]\<close> and \<open>datos.get(k)\<close>.\<close>

definition clave :: "datos \<Rightarrow> string \<Rightarrow> py_exn + real option" where
  "clave d k = (case map_of d k of None \<Rightarrow> Inl (KeyError k) | Some v \<Rightarrow> Inr v)"

definition clave_get :: "datos \<Rightarrow> string \<Rightarrow> real option" where
  "clave_get d k = (case map_of d k of None \<Rightarrow> None | Some v \<Rightarrow> v)"

text \<open>A format specification for a float (\<open>:,.0f\<close>, \<open>:.2%\<close>) applied to \<open>None\<close> raises
  \<open>TypeError\<close>; what is printed is not modelled.\<close>

definition formatear :: "real option \<Rightarrow> py_exn + unit" where
  "formatear v = bind_exn (numero v) (\<lambda>_. Inr ())"

text \<open>
  Modelled from the spec: \<open>calcular_cartera_vencida_desde_cobertura\<close> is a function of the
  absent module \<open>parsers.extraer_desde_pagina_95\<close>. The specification calls it
  \<open>calcular_cartera_vencida\<close> and gives the amount in default as
  \<open>provision / coverage\<close>; a zero coverage raises, as a quotient of Python does.
\<close>

definition calcular_cartera_vencida :: "real \<Rightarrow> real \<Rightarrow> py_exn + real" where
  "calcular_cartera_vencida provision coverage = truediv provision coverage"

section \<open>Dictionaries of the report\<close>

datatype pyval =
    PyNone
  | PyNum real
  | PyStr string
  | PyDict "(string \<times> pyval) list"

fun opcional :: "real option \<Rightarrow> pyval" where
  "opcional None = PyNone"
| "opcional (Some x) = PyNum x"

text \<open>\<open>d[k]\<close> on a value of the report.\<close>

fun subscript :: "pyval \<Rightarrow> string \<Rightarrow> py_exn + pyval" where
  "subscript (PyDict kvs) k = (case map_of kvs k of None \<Rightarrow> Inl (KeyError k) | Some v \<Rightarrow> Inr v)"
| "subscript v k = Inl TypeError"

text \<open>An operand of an arithmetic operator or of an order comparison with a number:
  anything but a number raises \<open>TypeError\<close>.\<close>

fun numero_py :: "pyval \<Rightarrow> py_exn + real" where
  "numero_py (PyNum x) = Inr x"
| "numero_py v = Inl TypeError"

section \<open>M001: provision over total portfolio (\<open>metrica_m001\<close>)\<close>

record MetricaM001 =
  provision_2024 :: real
  provision_2023 :: real
  cartera_2024 :: real
  cartera_2023 :: real
  ratio_2024 :: real
  ratio_2023 :: real
  nivel_riesgo :: string
  pagina_fuente :: "real option"
  fecha_extraccion :: string
  id_metrica :: string
  nombre :: string
  cambio_yoy :: real

definition nueva_MetricaM001 ::
  "real \<Rightarrow> real \<Rightarrow> real \<Rightarrow> real \<Rightarrow> real \<Rightarrow> real \<Rightarrow> string \<Rightarrow> real option \<Rightarrow> string
    \<Rightarrow> MetricaM001" where
  "nueva_MetricaM001 p24 p23 c24 c23 r24 r23 nivel pagina fecha =
     \<lparr> MetricaM001.provision_2024 = p24,
       MetricaM001.provision_2023 = p23,
       MetricaM001.cartera_2024 = c24,
       MetricaM001.cartera_2023 = c23,
       MetricaM001.ratio_2024 = r24,
       MetricaM001.ratio_2023 = r23,
       MetricaM001.nivel_riesgo = nivel,
       MetricaM001.pagina_fuente = pagina,
       MetricaM001.fecha_extraccion = fecha,
       MetricaM001.id_metrica = ''M001'',
       MetricaM001.nombre = ''Provisi'' @ [CHR 0xF3] @ ''n/Cartera Total'',
       MetricaM001.cambio_yoy = r24 - r23 \<rparr>"

definition to_dict_m001 :: "MetricaM001 \<Rightarrow> pyval" where
  "to_dict_m001 m =
     PyDict
      [(''id'', PyStr (MetricaM001.id_metrica m)),
       (''nombre'', PyStr (MetricaM001.nombre m)),
       (''valores'', PyDict
          [(''2024'', PyDict
              [(''provision'', PyNum (MetricaM001.provision_2024 m)),
               (''cartera'', PyNum (MetricaM001.cartera_2024 m)),
               (''ratio'', PyNum (MetricaM001.ratio_2024 m))]),
           (''2023'', PyDict
              [(''provision'', PyNum (MetricaM001.provision_2023 m)),
               (''cartera'', PyNum (MetricaM001.cartera_2023 m)),
               (''ratio'', PyNum (MetricaM001.ratio_2023 m))])]),
       (''analisis'', PyDict
          [(''cambio_yoy_pp'', PyNum (MetricaM001.cambio_yoy m)),
           (''nivel_riesgo'', PyStr (MetricaM001.nivel_riesgo m))]),
       (''metadata'', PyDict
          [(''pagina_fuente'', opcional (MetricaM001.pagina_fuente m)),
           (''fecha_extraccion'', PyStr (MetricaM001.fecha_extraccion m))])]"

definition extraer_metrica_m001 ::
  "parsers \<Rightarrow> string \<Rightarrow> string \<Rightarrow> py_exn + MetricaM001 option" where
  "extraer_metrica_m001 P ahora ruta_pdf =
     bind_exn (extraer_tabla_provision P ruta_pdf) (\<lambda>r.
       case r of
         None \<Rightarrow> Inr None
       | Some datos \<Rightarrow>
           if datos = [] then Inr None
           else
             bind_exn (clave datos ''provision_2024'') (\<lambda>p24.
               if \<not> verdadero p24 then Inr None
               else
                 bind_exn (clave datos ''cartera_2024'') (\<lambda>c24.
                   if \<not> verdadero c24 then Inr None
                   else
                     bind_exn (numero p24) (\<lambda>provision_2024.
                     bind_exn (numero c24) (\<lambda>cartera_2024.
                     bind_exn (truediv provision_2024 cartera_2024) (\<lambda>ratio_2024.
                     bind_exn (clave datos ''provision_2023'') (\<lambda>p23.
                     bind_exn (clave datos ''cartera_2023'') (\<lambda>c23.
                     bind_exn (numero p23) (\<lambda>provision_2023.
                     bind_exn (numero c23) (\<lambda>cartera_2023.
                     bind_exn (truediv provision_2023 cartera_2023) (\<lambda>ratio_2023.
                     bind_exn (clave datos ''pagina_encontrada'') (\<lambda>pagina.
                       Inr (Some (nueva_MetricaM001 provision_2024 provision_2023
                                    cartera_2024 cartera_2023 ratio_2024 ratio_2023
                                    (evaluar_nivel_riesgo ratio_2024) pagina ahora))))))))))))))"

section \<open>M003: non-performing loan ratio (\<open>metrica_m003\<close>)\<close>

record MetricaM003 =
  cartera_vencida_2024 :: real
  cartera_vencida_2023 :: real
  cartera_total_2024 :: real
  cartera_total_2023 :: real
  npl_ratio_2024 :: real
  npl_ratio_2023 :: real
  calidad_cartera :: string
  provision_2024 :: real
  provision_2023 :: real
  coverage_2024 :: real
  coverage_2023 :: real
  pagina_fuente :: "real option"
  fecha_extraccion :: string
  id_metrica :: string
  nombre :: string
  cambio_yoy :: real
  cambio_absoluto_vencida :: real

definition nueva_MetricaM003 ::
  "real \<Rightarrow> real \<Rightarrow> real \<Rightarrow> real \<Rightarrow> real \<Rightarrow> real \<Rightarrow> string \<Rightarrow> real \<Rightarrow> real \<Rightarrow> real \<Rightarrow> real
    \<Rightarrow> real option \<Rightarrow> string \<Rightarrow> MetricaM003" where
  "nueva_MetricaM003 cv24 cv23 ct24 ct23 npl24 npl23 calidad p24 p23 cov24 cov23 pagina fecha =
     \<lparr> MetricaM003.cartera_vencida_2024 = cv24,
       MetricaM003.cartera_vencida_2023 = cv23,
       MetricaM003.cartera_total_2024 = ct24,
       MetricaM003.cartera_total_2023 = ct23,
       MetricaM003.npl_ratio_2024 = npl24,
       MetricaM003.npl_ratio_2023 = npl23,
       MetricaM003.calidad_cartera = calidad,
       MetricaM003.provision_2024 = p24,
       MetricaM003.provision_2023 = p23,
       MetricaM003.coverage_2024 = cov24,
       MetricaM003.coverage_2023 = cov23,
       MetricaM003.pagina_fuente = pagina,
       MetricaM003.fecha_extraccion = fecha,
       MetricaM003.id_metrica = ''M003'',
       MetricaM003.nombre = ''NPL Ratio'',
       MetricaM003.cambio_yoy = npl24 - npl23,
       MetricaM003.cambio_absoluto_vencida = cv24 - cv23 \<rparr>"

definition to_dict_m003 :: "MetricaM003 \<Rightarrow> pyval" where
  "to_dict_m003 m =
     PyDict
      [(''id'', PyStr (MetricaM003.id_metrica m)),
       (''nombre'', PyStr (MetricaM003.nombre m)),
       (''valores'', PyDict
          [(''2024'', PyDict
              [(''cartera_vencida'', PyNum (MetricaM003.cartera_vencida_2024 m)),
               (''cartera_total'', PyNum (MetricaM003.cartera_total_2024 m)),
               (''npl_ratio'', PyNum (MetricaM003.npl_ratio_2024 m))]),
           (''2023'', PyDict
              [(''cartera_vencida'', PyNum (MetricaM003.cartera_vencida_2023 m)),
               (''cartera_total'', PyNum (MetricaM003.cartera_total_2023 m)),
               (''npl_ratio'', PyNum (MetricaM003.npl_ratio_2023 m))])]),
       (''analisis'', PyDict
          [(''cambio_yoy_pp'', PyNum (MetricaM003.cambio_yoy m)),
           (''cambio_vencida_monto'', PyNum (MetricaM003.cambio_absoluto_vencida m)),
           (''calidad_cartera'', PyStr (MetricaM003.calidad_cartera m))]),
       (''calculo'', PyDict
          [(''metodo'', PyStr ''indirecto''),
           (''fuente'', PyStr (''Provisi'' @ [CHR 0xF3] @ ''n / Coverage Ratio'')),
           (''provision_2024'', PyNum (MetricaM003.provision_2024 m)),
           (''coverage_2024'', PyNum (MetricaM003.coverage_2024 m))]),
       (''metadata'', PyDict
          [(''pagina_fuente'', opcional (MetricaM003.pagina_fuente m)),
           (''fecha_extraccion'', PyStr (MetricaM003.fecha_extraccion m))])]"

definition extraer_metrica_m003 ::
  "parsers \<Rightarrow> string \<Rightarrow> string \<Rightarrow> py_exn + MetricaM003 option" where
  "extraer_metrica_m003 P ahora ruta_pdf =
     bind_exn (extraer_tabla_provision P ruta_pdf) (\<lambda>r.
       case r of
         None \<Rightarrow> Inr None
       | Some datos_provision \<Rightarrow>
           if datos_provision = [] then Inr None
           else
             bind_exn (clave datos_provision ''provision_2024'') (\<lambda>p24.
               if \<not> verdadero p24 then Inr None
               else
                 bind_exn (clave datos_provision ''provision_2023'') (\<lambda>p23.
                 bind_exn (clave datos_provision ''cartera_2024'') (\<lambda>ct24.
                 bind_exn (clave datos_provision ''cartera_2023'') (\<lambda>ct23.
                 bind_exn (formatear p24) (\<lambda>_.
                 bind_exn (formatear ct24) (\<lambda>_.
                 bind_exn (extraer_cobertura_vencida P ruta_pdf) (\<lambda>r'.
                   case r' of
                     None \<Rightarrow> Inr None
                   | Some datos_coverage \<Rightarrow>
                       if datos_coverage = [] then Inr None
                       else
                         bind_exn (clave datos_coverage ''cobertura_2024'') (\<lambda>cov24.
                           if \<not> verdadero cov24 then Inr None
                           else
                             bind_exn (clave datos_coverage ''cobertura_2023'') (\<lambda>cov23.
                             bind_exn (formatear cov24) (\<lambda>_.
                             bind_exn (formatear cov23) (\<lambda>_.
                             bind_exn (numero p24) (\<lambda>provision_2024.
                             bind_exn (numero cov24) (\<lambda>coverage_2024.
                             bind_exn (calcular_cartera_vencida_desde_cobertura P
                                         provision_2024 coverage_2024) (\<lambda>cartera_vencida_2024.
                             bind_exn (numero p23) (\<lambda>provision_2023.
                             bind_exn (numero cov23) (\<lambda>coverage_2023.
                             bind_exn (calcular_cartera_vencida_desde_cobertura P
                                         provision_2023 coverage_2023) (\<lambda>cartera_vencida_2023.
                             bind_exn (numero ct24) (\<lambda>cartera_total_2024.
                             bind_exn (truediv cartera_vencida_2024 cartera_total_2024) (\<lambda>npl_2024.
                             bind_exn (numero ct23) (\<lambda>cartera_total_2023.
                             bind_exn (truediv cartera_vencida_2023 cartera_total_2023) (\<lambda>npl_2023.
                             bind_exn (clave datos_coverage ''pagina_encontrada'') (\<lambda>pagina.
                               Inr (Some (nueva_MetricaM003 cartera_vencida_2024
                                  cartera_vencida_2023 cartera_total_2024 cartera_total_2023
                                  npl_2024 npl_2023 (evaluar_calidad_cartera npl_2024)
                                  provision_2024 provision_2023 coverage_2024 coverage_2023
                                  pagina ahora)))))))))))))))))))))))))"

section \<open>M004: coverage ratio (\<open>metrica_m004\<close>)\<close>

record MetricaM004 =
  coverage_2024 :: real
  coverage_2023 :: real
  nivel_cobertura :: string
  pagina_fuente :: "real option"
  fecha_extraccion :: string
  id_metrica :: string
  nombre :: string
  cambio_yoy :: real

definition nueva_MetricaM004 ::
  "real \<Rightarrow> real \<Rightarrow> string \<Rightarrow> real option \<Rightarrow> string \<Rightarrow> MetricaM004" where
  "nueva_MetricaM004 cov24 cov23 nivel pagina fecha =
     \<lparr> MetricaM004.coverage_2024 = cov24,
       MetricaM004.coverage_2023 = cov23,
       MetricaM004.nivel_cobertura = nivel,
       MetricaM004.pagina_fuente = pagina,
       MetricaM004.fecha_extraccion = fecha,
       MetricaM004.id_metrica = ''M004'',
       MetricaM004.nombre = ''Coverage Ratio'',
       MetricaM004.cambio_yoy = cov24 - cov23 \<rparr>"

definition obtener_implicacion :: "string \<Rightarrow> string" where
  "obtener_implicacion nivel =
     (case map_of
        [(''CONSERVADOR'', ''Provisi'' @ [CHR 0xF3] @ ''n sobrada, postura conservadora.''),
         (''ADECUADO'', ''Provisi'' @ [CHR 0xF3] @ ''n suficiente para cubrir p'' @ [CHR 0xE9]
                          @ ''rdidas.''),
         (LIMITE, ''Provisi'' @ [CHR 0xF3] @ ''n justa, poco margen de seguridad.''),
         (''INSUFICIENTE'', ''Provisi'' @ [CHR 0xF3] @ ''n insuficiente, riesgo de p''
                          @ [CHR 0xE9] @ ''rdidas.'')] nivel of
        None \<Rightarrow> ''Nivel desconocido''
      | Some texto \<Rightarrow> texto)"

text \<open>The format \<open>:.0%\<close> of a number: a hundred times the number, rounded to the nearest
  integer (a tie goes to the even one), in decimal digits, with the sign of the number
  and a percent sign.\<close>

definition redondear_par :: "real \<Rightarrow> int" where
  "redondear_par x =
     (let f = \<lfloor>x\<rfloor>; d = x - of_int f
      in if d < 1 / 2 then f
         else if 1 / 2 < d then f + 1
         else if even f then f else f + 1)"

function digitos :: "nat \<Rightarrow> string" where
  "digitos n =
     (if n < 10 then [char_of (48 + n)]
      else digitos (n div 10) @ [char_of (48 + n mod 10)])"
  by pat_completeness auto
termination
  by (relation "measure id") auto

definition formato_porcentaje_0 :: "real \<Rightarrow> string" where
  "formato_porcentaje_0 x =
     (if x < 0 then ''-'' else [])
     @ digitos (nat \<bar>redondear_par (x * 100)\<bar>) @ ''%''"

definition to_dict_m004 :: "MetricaM004 \<Rightarrow> pyval" where
  "to_dict_m004 m =
     PyDict
      [(''id'', PyStr (MetricaM004.id_metrica m)),
       (''nombre'', PyStr (MetricaM004.nombre m)),
       (''valores'', PyDict
          [(''2024'', PyDict [(''coverage_ratio'', PyNum (MetricaM004.coverage_2024 m))]),
           (''2023'', PyDict [(''coverage_ratio'', PyNum (MetricaM004.coverage_2023 m))])]),
       (''analisis'', PyDict
          [(''cambio_yoy_pp'', PyNum (MetricaM004.cambio_yoy m)),
           (''nivel_cobertura'', PyStr (MetricaM004.nivel_cobertura m))]),
       (''interpretacion'', PyDict
          [(''significado'', PyStr (''La provisi'' @ [CHR 0xF3] @ ''n cubre ''
              @ formato_porcentaje_0 (MetricaM004.coverage_2024 m)
              @ '' de la cartera vencida'')),
           (''implicacion'', PyStr (obtener_implicacion (MetricaM004.nivel_cobertura m)))]),
       (''metadata'', PyDict
          [(''pagina_fuente'', opcional (MetricaM004.pagina_fuente m)),
           (''fecha_extraccion'', PyStr (MetricaM004.fecha_extraccion m))])]"

definition extraer_metrica_m004 ::
  "parsers \<Rightarrow> string \<Rightarrow> string \<Rightarrow> py_exn + MetricaM004 option" where
  "extraer_metrica_m004 P ahora ruta_pdf =
     bind_exn (extraer_cobertura_vencida P ruta_pdf) (\<lambda>r.
       case r of
         None \<Rightarrow> Inr None
       | Some datos \<Rightarrow>
           if datos = [] then Inr None
           else
             bind_exn (clave datos ''cobertura_2024'') (\<lambda>cov24.
               if \<not> verdadero cov24 then Inr None
               else
                 bind_exn (formatear cov24) (\<lambda>_.
                 bind_exn (clave datos ''cobertura_2023'') (\<lambda>cov23.
                 bind_exn (formatear cov23) (\<lambda>_.
                 bind_exn (numero cov24) (\<lambda>coverage_2024.
                 bind_exn (numero cov23) (\<lambda>coverage_2023.
                 bind_exn (clave datos ''pagina_encontrada'') (\<lambda>pagina.
                   Inr (Some (nueva_MetricaM004 coverage_2024 coverage_2023
                                (evaluar_nivel_cobertura coverage_2024) pagina ahora))))))))))"

section \<open>M005: risky portfolio, categories C, D and E (\<open>metrica_m005\<close>)\<close>

record MetricaM005 =
  cartera_a_2024 :: real
  cartera_b_2024 :: "real option"
  cartera_c_2024 :: real
  cartera_d_2024 :: real
  cartera_e_2024 :: real
  cartera_total_2024 :: real
  cartera_a_2023 :: "real option"
  cartera_b_2023 :: "real option"
  cartera_c_2023 :: real
  cartera_d_2023 :: real
  cartera_e_2023 :: real
  cartera_total_2023 :: real
  ratio_riesgosa_2024 :: real
  ratio_riesgosa_2023 :: real
  nivel_riesgo :: string
  pagina_fuente :: "real option"
  fecha_extraccion :: string
  id_metrica :: string
  nombre :: string
  cambio_yoy :: real

definition nueva_MetricaM005 ::
  "real \<Rightarrow> real option \<Rightarrow> real \<Rightarrow> real \<Rightarrow> real \<Rightarrow> real
    \<Rightarrow> real option \<Rightarrow> real option \<Rightarrow> real \<Rightarrow> real \<Rightarrow> real \<Rightarrow> real
    \<Rightarrow> real \<Rightarrow> real \<Rightarrow> string \<Rightarrow> real option \<Rightarrow> string \<Rightarrow> MetricaM005" where
  "nueva_MetricaM005 a24 b24 c24 d24 e24 t24 a23 b23 c23 d23 e23 t23 r24 r23 nivel pagina fecha =
     \<lparr> MetricaM005.cartera_a_2024 = a24,
       MetricaM005.cartera_b_2024 = b24,
       MetricaM005.cartera_c_2024 = c24,
       MetricaM005.cartera_d_2024 = d24,
       MetricaM005.cartera_e_2024 = e24,
       MetricaM005.cartera_total_2024 = t24,
       MetricaM005.cartera_a_2023 = a23,
       MetricaM005.cartera_b_2023 = b23,
       MetricaM005.cartera_c_2023 = c23,
       MetricaM005.cartera_d_2023 = d23,
       MetricaM005.cartera_e_2023 = e23,
       MetricaM005.cartera_total_2023 = t23,
       MetricaM005.ratio_riesgosa_2024 = r24,
       MetricaM005.ratio_riesgosa_2023 = r23,
       MetricaM005.nivel_riesgo = nivel,
       MetricaM005.pagina_fuente = pagina,
       MetricaM005.fecha_extraccion = fecha,
       MetricaM005.id_metrica = ''M005'',
       MetricaM005.nombre = ''Cartera Riesgosa (C+D+E)'',
       MetricaM005.cambio_yoy = r24 - r23 \<rparr>"

text \<open>\<open>to_dict\<close> of M005 divides each category of 2024 by the total of 2024, so it can
  raise.\<close>

definition to_dict_m005 :: "MetricaM005 \<Rightarrow> py_exn + pyval" where
  "to_dict_m005 m =
     bind_exn (truediv (MetricaM005.cartera_a_2024 m) (MetricaM005.cartera_total_2024 m)) (\<lambda>a_pct.
     bind_exn (numero (MetricaM005.cartera_b_2024 m)) (\<lambda>b.
     bind_exn (truediv b (MetricaM005.cartera_total_2024 m)) (\<lambda>b_pct.
     bind_exn (truediv (MetricaM005.cartera_c_2024 m) (MetricaM005.cartera_total_2024 m)) (\<lambda>c_pct.
     bind_exn (truediv (MetricaM005.cartera_d_2024 m) (MetricaM005.cartera_total_2024 m)) (\<lambda>d_pct.
     bind_exn (truediv (MetricaM005.cartera_e_2024 m) (MetricaM005.cartera_total_2024 m)) (\<lambda>e_pct.
       Inr (PyDict
        [(''id'', PyStr (MetricaM005.id_metrica m)),
         (''nombre'', PyStr (MetricaM005.nombre m)),
         (''valores'', PyDict
            [(''2024'', PyDict
                [(''categoria_a'', PyNum (MetricaM005.cartera_a_2024 m)),
                 (''categoria_b'', opcional (MetricaM005.cartera_b_2024 m)),
                 (''categoria_c'', PyNum (MetricaM005.cartera_c_2024 m)),
                 (''categoria_d'', PyNum (MetricaM005.cartera_d_2024 m)),
                 (''categoria_e'', PyNum (MetricaM005.cartera_e_2024 m)),
                 (''total'', PyNum (MetricaM005.cartera_total_2024 m)),
                 (''ratio_riesgosa_cde'', PyNum (MetricaM005.ratio_riesgosa_2024 m))]),
             (''2023'', PyDict
                [(''categoria_a'', opcional (MetricaM005.cartera_a_2023 m)),
                 (''categoria_b'', opcional (MetricaM005.cartera_b_2023 m)),
                 (''categoria_c'', PyNum (MetricaM005.cartera_c_2023 m)),
                 (''categoria_d'', PyNum (MetricaM005.cartera_d_2023 m)),
                 (''categoria_e'', PyNum (MetricaM005.cartera_e_2023 m)),
                 (''total'', PyNum (MetricaM005.cartera_total_2023 m)),
                 (''ratio_riesgosa_cde'', PyNum (MetricaM005.ratio_riesgosa_2023 m))])]),
         (''analisis'', PyDict
            [(''cambio_yoy_pp'', PyNum (MetricaM005.cambio_yoy m)),
             (''nivel_riesgo'', PyStr (MetricaM005.nivel_riesgo m))]),
         (''composicion_2024'', PyDict
            [(''a_pct'', PyNum a_pct),
             (''b_pct'', PyNum b_pct),
             (''c_pct'', PyNum c_pct),
             (''d_pct'', PyNum d_pct),
             (''e_pct'', PyNum e_pct)]),
         (''metadata'', PyDict
            [(''pagina_fuente'', opcional (MetricaM005.pagina_fuente m)),
             (''fecha_extraccion'', PyStr (MetricaM005.fecha_extraccion m))])])))))))"

text \<open>The sum and the quotient of the three risky categories of one year.\<close>

definition ratio_riesgosa :: "datos \<Rightarrow> string \<Rightarrow> py_exn + real" where
  "ratio_riesgosa datos anio =
     bind_exn (clave datos (''c_'' @ anio)) (\<lambda>c.
     bind_exn (clave datos (''d_'' @ anio)) (\<lambda>d.
     bind_exn (numero c) (\<lambda>c'.
     bind_exn (numero d) (\<lambda>d'.
     bind_exn (clave datos (''e_'' @ anio)) (\<lambda>e.
     bind_exn (numero e) (\<lambda>e'.
     bind_exn (clave datos (''total_'' @ anio)) (\<lambda>t.
     bind_exn (numero t) (\<lambda>t'.
       truediv (c' + d' + e') t'))))))))"

definition extraer_metrica_m005 ::
  "parsers \<Rightarrow> string \<Rightarrow> string \<Rightarrow> py_exn + MetricaM005 option" where
  "extraer_metrica_m005 P ahora ruta_pdf =
     bind_exn (extraer_calificacion_riesgo P ruta_pdf) (\<lambda>r.
       case r of
         None \<Rightarrow> Inr None
       | Some datos \<Rightarrow>
           if datos = [] \<or> \<not> verdadero (clave_get datos ''a_2024'') then Inr None
           else
             bind_exn (ratio_riesgosa datos ''2024'') (\<lambda>ratio_2024.
             bind_exn (ratio_riesgosa datos ''2023'') (\<lambda>ratio_2023.
             bind_exn (clave datos ''a_2024'') (\<lambda>a24.
             bind_exn (numero a24) (\<lambda>a_2024.
             bind_exn (clave datos ''b_2024'') (\<lambda>b_2024.
             bind_exn (clave datos ''c_2024'') (\<lambda>c24.
             bind_exn (numero c24) (\<lambda>c_2024.
             bind_exn (clave datos ''d_2024'') (\<lambda>d24.
             bind_exn (numero d24) (\<lambda>d_2024.
             bind_exn (clave datos ''e_2024'') (\<lambda>e24.
             bind_exn (numero e24) (\<lambda>e_2024.
             bind_exn (clave datos ''total_2024'') (\<lambda>t24.
             bind_exn (numero t24) (\<lambda>total_2024.
             bind_exn (clave datos ''a_2023'') (\<lambda>a_2023.
             bind_exn (clave datos ''b_2023'') (\<lambda>b_2023.
             bind_exn (clave datos ''c_2023'') (\<lambda>c23.
             bind_exn (numero c23) (\<lambda>c_2023.
             bind_exn (clave datos ''d_2023'') (\<lambda>d23.
             bind_exn (numero d23) (\<lambda>d_2023.
             bind_exn (clave datos ''e_2023'') (\<lambda>e23.
             bind_exn (numero e23) (\<lambda>e_2023.
             bind_exn (clave datos ''total_2023'') (\<lambda>t23.
             bind_exn (numero t23) (\<lambda>total_2023.
               Inr (Some (nueva_MetricaM005 a_2024 b_2024 c_2024 d_2024 e_2024 total_2024
                   a_2023 b_2023 c_2023 d_2023 e_2023 total_2023 ratio_2024 ratio_2023
                   (evaluar_nivel_riesgo_m005 ratio_2024)
                   (case map_of datos ''pagina_encontrada'' of None \<Rightarrow> Some 0 | Some v \<Rightarrow> v)
                   ahora))))))))))))))))))))))))))"

section \<open>The orchestrator (\<open>extraer_todas_metricas\<close>)\<close>

text \<open>What an extractor returns: one of the four dataclasses. \<open>to_dict\<close> dispatches on
  the class.\<close>

datatype metrica =
    DeM001 MetricaM001
  | DeM003 MetricaM003
  | DeM004 MetricaM004
  | DeM005 MetricaM005

fun to_dict :: "metrica \<Rightarrow> py_exn + pyval" where
  "to_dict (DeM001 m) = Inr (to_dict_m001 m)"
| "to_dict (DeM003 m) = Inr (to_dict_m003 m)"
| "to_dict (DeM004 m) = Inr (to_dict_m004 m)"
| "to_dict (DeM005 m) = to_dict_m005 m"

type_synonym extractor = "parsers \<Rightarrow> string \<Rightarrow> string \<Rightarrow> py_exn + metrica option"

definition como :: "('a \<Rightarrow> metrica) \<Rightarrow> py_exn + 'a option \<Rightarrow> py_exn + metrica option" where
  "como clase r = bind_exn r (\<lambda>m. Inr (map_option clase m))"

record metadata =
  banco :: string
  anio :: int
  pdf_fuente :: string
  fecha_procesamiento :: string
  version_sistema :: string

record validacion =
  metricas_exitosas :: "string list"
  metricas_fallidas :: "string list"
  coherencia :: "string \<rightharpoonup> bool"

record resultados =
  metadata :: metadata
  metricas :: "string \<rightharpoonup> pyval"
  validacion :: validacion

definition resultados_iniciales :: "string \<Rightarrow> string \<Rightarrow> string \<Rightarrow> int \<Rightarrow> resultados" where
  "resultados_iniciales ahora ruta_pdf un_banco un_anio =
     \<lparr> metadata = \<lparr> banco = un_banco, anio = un_anio, pdf_fuente = ruta_pdf,
                    fecha_procesamiento = ahora, version_sistema = ''1.0.0'' \<rparr>,
       metricas = Map.empty,
       validacion = \<lparr> metricas_exitosas = [], metricas_fallidas = [],
                      coherencia = Map.empty \<rparr> \<rparr>"

definition extractores :: "(string \<times> extractor \<times> string) list" where
  "extractores =
     [(''M001'', (\<lambda>P ahora ruta. como DeM001 (extraer_metrica_m001 P ahora ruta)),
         ''Provisi'' @ [CHR 0xF3] @ ''n/Cartera Total''),
      (''M003'', (\<lambda>P ahora ruta. como DeM003 (extraer_metrica_m003 P ahora ruta)),
         ''NPL Ratio''),
      (''M004'', (\<lambda>P ahora ruta. como DeM004 (extraer_metrica_m004 P ahora ruta)),
         ''Coverage Ratio''),
      (''M005'', (\<lambda>P ahora ruta. como DeM005 (extraer_metrica_m005 P ahora ruta)),
         ''Cartera Riesgosa (C+D+E)'')]"

definition marcar_fallida :: "string \<Rightarrow> resultados \<Rightarrow> resultados" where
  "marcar_fallida metrica_id r =
     r\<lparr> validacion := (validacion r)
          \<lparr> metricas_fallidas := metricas_fallidas (validacion r) @ [metrica_id] \<rparr> \<rparr>"

definition marcar_exitosa :: "string \<Rightarrow> pyval \<Rightarrow> resultados \<Rightarrow> resultados" where
  "marcar_exitosa metrica_id d r =
     r\<lparr> metricas := (metricas r)(metrica_id \<mapsto> d),
        validacion := (validacion r)
          \<lparr> metricas_exitosas := metricas_exitosas (validacion r) @ [metrica_id] \<rparr> \<rparr>"

text \<open>The body of the \<open>try\<close>: call the extractor and, when it returns a metric, turn it
  into a dictionary. Only then is anything stored.\<close>

definition intentar :: "parsers \<Rightarrow> string \<Rightarrow> string \<Rightarrow> extractor \<Rightarrow> py_exn + pyval option" where
  "intentar P ahora ruta_pdf funcion_extractora =
     bind_exn (funcion_extractora P ahora ruta_pdf) (\<lambda>metrica.
       case metrica of
         None \<Rightarrow> Inr None
       | Some m \<Rightarrow> bind_exn (to_dict m) (\<lambda>d. Inr (Some d)))"

text \<open>One turn of the loop; \<open>except Exception\<close> turns any exception into a failure.\<close>

definition ejecutar_extractor ::
  "parsers \<Rightarrow> string \<Rightarrow> string \<Rightarrow> resultados \<Rightarrow> string \<times> extractor \<times> string \<Rightarrow> resultados" where
  "ejecutar_extractor P ahora ruta_pdf r e =
     (case e of (metrica_id, funcion_extractora, nombre_metrica) \<Rightarrow>
        (case intentar P ahora ruta_pdf funcion_extractora of
           Inl excepcion \<Rightarrow> marcar_fallida metrica_id r
         | Inr None \<Rightarrow> marcar_fallida metrica_id r
         | Inr (Some d) \<Rightarrow> marcar_exitosa metrica_id d r))"

definition ejecutar_extractores ::
  "parsers \<Rightarrow> string \<Rightarrow> string \<Rightarrow> (string \<times> extractor \<times> string) list \<Rightarrow> resultados
    \<Rightarrow> resultados" where
  "ejecutar_extractores P ahora ruta_pdf es r = foldl (ejecutar_extractor P ahora ruta_pdf) r es"

section \<open>Double-precision arithmetic\<close>

text \<open>
  The result of an operation on floats: a finite number, an infinity or NaN. The sign of
  a zero is not kept: no operation below tells the two zeros apart.
\<close>

datatype flotante = Finito real | MasInf | MenosInf | NaN

text \<open>
  The exponent of the binade of \<open>x\<close>: the largest \<open>k\<close> from -1021 to 1023 with
  \<open>2 ^ k \<le> \<bar>x\<bar>\<close>, and -1022 when there is none (the least normal binade and the
  subnormal numbers below it).
\<close>

primrec buscar_exponente :: "nat \<Rightarrow> real \<Rightarrow> int" where
  "buscar_exponente 0 x = - 1022"
| "buscar_exponente (Suc n) x =
     (if 2 powi (int n - 1021) \<le> x then int n - 1021 else buscar_exponente n x)"

definition exponente :: "real \<Rightarrow> int" where
  "exponente x = buscar_exponente 2045 \<bar>x\<bar>"

text \<open>
  Rounding of an exact result to the nearest double, a tie going to the even significand
  (IEEE 754 binary64, the arithmetic of a Python \<open>float\<close>): the doubles of the binade of
  exponent \<open>k\<close> are the multiples of \<open>2 ^ (k - 52)\<close>, and a result that rounds to
  \<open>2 ^ 1024\<close> or beyond is infinite.
\<close>

definition redondear :: "real \<Rightarrow> flotante" where
  "redondear x =
     (let cuanto = 2 powi (exponente x - 52);
          y = of_int (redondear_par (x / cuanto)) * cuanto
      in if \<bar>y\<bar> < 2 powi 1024 then Finito y
         else if 0 < x then MasInf else MenosInf)"

text \<open>\<open>a / b\<close> on two finite floats.\<close>

definition dividir :: "real \<Rightarrow> real \<Rightarrow> py_exn + flotante" where
  "dividir a b = (if b = 0 then Inl ZeroDivisionError else Inr (redondear (a / b)))"

text \<open>\<open>a - b\<close>\<close>

fun restar :: "flotante \<Rightarrow> flotante \<Rightarrow> flotante" where
  "restar (Finito a) (Finito b) = redondear (a - b)"
| "restar NaN b = NaN"
| "restar a NaN = NaN"
| "restar MasInf MasInf = NaN"
| "restar MenosInf MenosInf = NaN"
| "restar MasInf b = MasInf"
| "restar MenosInf b = MenosInf"
| "restar (Finito a) MasInf = MenosInf"
| "restar (Finito a) MenosInf = MasInf"

text \<open>\<open>abs(a)\<close>\<close>

fun valor_absoluto :: "flotante \<Rightarrow> flotante" where
  "valor_absoluto (Finito a) = Finito \<bar>a\<bar>"
| "valor_absoluto MasInf = MasInf"
| "valor_absoluto MenosInf = MasInf"
| "valor_absoluto NaN = NaN"

text \<open>\<open>a < b\<close>: a comparison with NaN is false.\<close>

fun menor :: "flotante \<Rightarrow> flotante \<Rightarrow> bool" where
  "menor (Finito a) (Finito b) = (a < b)"
| "menor NaN b = False"
| "menor a NaN = False"
| "menor MasInf b = False"
| "menor a MasInf = True"
| "menor a MenosInf = False"
| "menor MenosInf b = True"

section \<open>The coherence validator (\<open>validar_coherencia\<close>)\<close>

text \<open>\<open>metricas[id]['valores']['2024'][campo]\<close>\<close>

definition valor_2024 :: "(string \<rightharpoonup> pyval) \<Rightarrow> string \<Rightarrow> string \<Rightarrow> py_exn + pyval" where
  "valor_2024 ms metrica_id campo =
     (case ms metrica_id of
        None \<Rightarrow> Inl (KeyError metrica_id)
      | Some m \<Rightarrow>
          bind_exn (subscript m ''valores'') (\<lambda>v.
          bind_exn (subscript v ''2024'') (\<lambda>a.
            subscript a campo)))"

text \<open>Rule 1: the reported coverage against provision over overdue portfolio. The literal
  \<open>0.01\<close> is the double nearest to one hundredth.\<close>

definition regla_cobertura ::
  "(string \<rightharpoonup> pyval) \<Rightarrow> (string \<rightharpoonup> bool) \<Rightarrow> py_exn + (string \<rightharpoonup> bool)" where
  "regla_cobertura ms c =
     (if ms ''M001'' \<noteq> None \<and> ms ''M003'' \<noteq> None \<and> ms ''M004'' \<noteq> None then
        bind_exn (valor_2024 ms ''M001'' ''provision'') (\<lambda>provision.
        bind_exn (valor_2024 ms ''M003'' ''cartera_vencida'') (\<lambda>cartera_vencida.
        bind_exn (valor_2024 ms ''M004'' ''coverage_ratio'') (\<lambda>coverage_reportado.
        bind_exn (numero_py provision) (\<lambda>p.
        bind_exn (numero_py cartera_vencida) (\<lambda>cv.
        bind_exn (dividir p cv) (\<lambda>coverage_calculado.
        bind_exn (numero_py coverage_reportado) (\<lambda>cr.
          (let diferencia = valor_absoluto (restar coverage_calculado (Finito cr))
           in if menor diferencia (redondear 0.01)
              then Inr (c(''coverage_coherente'' \<mapsto> True))
              else Inr (c(''coverage_coherente'' \<mapsto> False))))))))))
      else Inr c)"

text \<open>Rule 2: the risky portfolio is larger than the non-performing one.\<close>

definition regla_riesgosa ::
  "(string \<rightharpoonup> pyval) \<Rightarrow> (string \<rightharpoonup> bool) \<Rightarrow> py_exn + (string \<rightharpoonup> bool)" where
  "regla_riesgosa ms c =
     (if ms ''M003'' \<noteq> None \<and> ms ''M005'' \<noteq> None then
        bind_exn (valor_2024 ms ''M003'' ''npl_ratio'') (\<lambda>npl.
        bind_exn (valor_2024 ms ''M005'' ''ratio_riesgosa_cde'') (\<lambda>riesgosa.
        bind_exn (numero_py riesgosa) (\<lambda>rg.
        bind_exn (numero_py npl) (\<lambda>n.
          if rg > n then Inr (c(''riesgosa_mayor_que_npl'' \<mapsto> True))
          else Inr (c(''riesgosa_mayor_que_npl'' \<mapsto> False))))))
      else Inr c)"

text \<open>Rule 3: provision over portfolio between 1 and 20 percent.\<close>

definition regla_rango ::
  "(string \<rightharpoonup> pyval) \<Rightarrow> (string \<rightharpoonup> bool) \<Rightarrow> py_exn + (string \<rightharpoonup> bool)" where
  "regla_rango ms c =
     (if ms ''M001'' \<noteq> None then
        bind_exn (valor_2024 ms ''M001'' ''ratio'') (\<lambda>ratio.
        bind_exn (numero_py ratio) (\<lambda>x.
          if 0.01 \<le> x \<and> x \<le> 0.20 then Inr (c(''provision_rango_valido'' \<mapsto> True))
          else Inr (c(''provision_rango_valido'' \<mapsto> False))))
      else Inr c)"

definition validar_coherencia :: "resultados \<Rightarrow> py_exn + resultados" where
  "validar_coherencia r =
     bind_exn (regla_cobertura (metricas r) (coherencia (validacion r))) (\<lambda>c1.
     bind_exn (regla_riesgosa (metricas r) c1) (\<lambda>c2.
     bind_exn (regla_rango (metricas r) c2) (\<lambda>c3.
       Inr (r\<lparr> validacion := (validacion r)\<lparr> coherencia := c3 \<rparr> \<rparr>))))"

text \<open>The run: the loop over the catalogue, then the validation, which is outside the
  \<open>try\<close>. What is printed is not modelled; \<open>ahora\<close> stands for the time stamps.\<close>

definition extraer_todas_metricas ::
  "parsers \<Rightarrow> string \<Rightarrow> string \<Rightarrow> string \<Rightarrow> int \<Rightarrow> py_exn + resultados" where
  "extraer_todas_metricas P ahora ruta_pdf un_banco un_anio =
     validar_coherencia
       (ejecutar_extractores P ahora ruta_pdf extractores
          (resultados_iniciales ahora ruta_pdf un_banco un_anio))"

section \<open>The numeric token extractor as the specification words it\<close>

text \<open>The substrings of digits and separators of a line, from left to right: its maximal
  runs of characters of the class.\<close>

fun trozos :: "string \<Rightarrow> string \<Rightarrow> string list" where
  "trozos acc [] = (if acc = [] then [] else [acc])"
| "trozos acc (c # cs) =
     (if clase_num c then trozos (acc @ [c]) cs
      else if acc = [] then trozos [] cs
      else acc # trozos [] cs)"

definition subcadenas_numericas :: "string \<Rightarrow> string list" where
  "subcadenas_numericas linea = trozos [] linea"

definition quitar_separadores :: "string \<Rightarrow> string" where
  "quitar_separadores t = filter (\<lambda>c. c \<noteq> CHR '','') t"

definition magnitud :: "string \<Rightarrow> real" where
  "magnitud t = real (valor_decimal (quitar_separadores t))"

definition analizable :: "string \<Rightarrow> bool" where
  "analizable t = list_ex es_digito t"

text \<open>The candidates of a line: the magnitudes of its tokens that hold a digit, in order,
  without those that do not exceed the noise floor.\<close>

definition candidatos_sobre_piso :: "string \<Rightarrow> real list" where
  "candidatos_sobre_piso linea =
     filter (\<lambda>x. x > 1000) (map magnitud (filter analizable (subcadenas_numericas linea)))"

text \<open>The same with the noise floor read as "discard what is below 1000".\<close>

definition candidatos_segun_spec :: "string \<Rightarrow> real list" where
  "candidatos_segun_spec linea =
     filter (\<lambda>x. \<not> x < 1000) (map magnitud (filter analizable (subcadenas_numericas linea)))"

section \<open>Auxiliary notions for the scan of M002\<close>

text \<open>
  These notions do not occur in the source: three documents, given as the texts of their
  pages (\<open>None\<close> for a page without text), the predicates in which the
  properties of the scan are stated, and the scan told as one pass over the lines of the
  document.
\<close>

definition documento_ejemplo :: "string option list" where
  "documento_ejemplo =
     [None,
      Some (''Utilidad neta 9,000 8,000'' @ [CHR 0x0A] @ ''Total patrimonio 10,000 9,000''),
      Some (''Utilidad neta del periodo 2,900 2,500'' @ [CHR 0x0A]
            @ ''TOTAL PATRIMONIO (10,000) 1,001'')]"

definition documento_con_huecos :: "string option list" where
  "documento_con_huecos =
     [Some (''Utilidad neta 9,000 8,000'' @ [CHR 0x0A] @ ''Total patrimonio 10,000 9,000''),
      None,
      Some [],
      Some (''Utilidad neta del periodo 2,900 2,500'' @ [CHR 0x0A]
            @ ''TOTAL PATRIMONIO (10,000) 1,001'')]"

definition documento_sin_par :: "string option list" where
  "documento_sin_par =
     [Some [], Some (''Utilidad neta 9,000 8,000'' @ [CHR 0x0A] @ ''Total patrimonio 10,000 9,000'')]"

definition candidato_utilidad :: "string \<Rightarrow> real option" where
  "candidato_utilidad linea =
     (let linea_lower = lower linea; numeros = extraer_numeros_de_linea linea
      in if (sublist ''utilidad neta'' linea_lower \<or> sublist ''net income'' linea_lower)
            \<and> \<not> sublist ''total'' (take 20 linea_lower) \<and> length numeros \<ge> 2
         then Some \<bar>numeros ! (length numeros - 2)\<bar> else None)"

definition candidato_patrimonio :: "string \<Rightarrow> real option" where
  "candidato_patrimonio linea =
     (let linea_lower = lower linea; numeros = extraer_numeros_de_linea linea
      in if (sublist ''total patrimonio'' linea_lower \<or> sublist ''total equity'' linea_lower)
            \<and> length numeros \<ge> 2
         then Some \<bar>numeros ! (length numeros - 2)\<bar> else None)"

definition lineas_documento :: "string option list \<Rightarrow> string list" where
  "lineas_documento paginas =
     concat (map (\<lambda>p. case p of None \<Rightarrow> [] | Some t \<Rightarrow> if t = [] then [] else split_lineas [] t)
       paginas)"

definition roe_plausible :: "real \<Rightarrow> bool" where
  "roe_plausible roe = (- 0.10 < roe \<and> roe < 0.30)"

definition hay_par_plausible :: "string list \<Rightarrow> bool" where
  "hay_par_plausible lineas =
     list_ex (\<lambda>lu. list_ex (\<lambda>lp.
        case (candidato_utilidad lu, candidato_patrimonio lp) of
          (Some u, Some p) \<Rightarrow> roe_plausible (u / p)
        | _ \<Rightarrow> False) lineas) lineas"

definition datos_ok :: "string set \<Rightarrow> datos_m002 \<Rightarrow> bool" where
  "datos_ok L d =
     ((\<forall>u. datos_m002.utilidad_neta_2024 d = Some u \<longrightarrow>
          1000 < u \<and> (\<exists>l\<in>L. candidato_utilidad l = Some u)
          \<and> (\<exists>v. datos_m002.utilidad_neta_2023 d = Some v \<and> 1000 < v))
      \<and> (\<forall>p. datos_m002.patrimonio_2024 d = Some p \<longrightarrow>
          1000 < p \<and> (\<exists>l\<in>L. candidato_patrimonio l = Some p)
          \<and> (\<exists>q. datos_m002.patrimonio_2023 d = Some q \<and> 1000 < q)))"

definition metrica_ok :: "string set \<Rightarrow> MetricaM002 \<Rightarrow> bool" where
  "metrica_ok L m =
     (roe_plausible (MetricaM002.utilidad_neta_2024 m / MetricaM002.patrimonio_2024 m)
      \<and> MetricaM002.roe_2024 m = MetricaM002.utilidad_neta_2024 m
            / ((MetricaM002.patrimonio_2024 m + MetricaM002.patrimonio_2023 m) / 2)
      \<and> MetricaM002.roe_2023 m = MetricaM002.utilidad_neta_2023 m / MetricaM002.patrimonio_2023 m
      \<and> (\<exists>l\<in>L. candidato_utilidad l = Some (MetricaM002.utilidad_neta_2024 m))
      \<and> (\<exists>l\<in>L. candidato_patrimonio l = Some (MetricaM002.patrimonio_2024 m)))"

text \<open>The accumulator still lacks the net income or the equity of 2024.\<close>

definition sin_par :: "datos_m002 \<Rightarrow> bool" where
  "sin_par d = (\<not> (verdadero (datos_m002.utilidad_neta_2024 d)
                    \<and> verdadero (datos_m002.patrimonio_2024 d)))"

text \<open>
  The lines of a document in reading order, each with the number of its page; pages are
  numbered from \<open>n\<close>, and a page without text has no line.
\<close>

fun lineas_numeradas :: "nat \<Rightarrow> string option list \<Rightarrow> (nat \<times> string) list" where
  "lineas_numeradas n [] = []"
| "lineas_numeradas n (pagina # paginas) =
     (case pagina of
        None \<Rightarrow> []
      | Some texto \<Rightarrow> if texto = [] then [] else map (Pair n) (split_lineas [] texto))
     @ lineas_numeradas (Suc n) paginas"

text \<open>
  The locator as the specification words it: one pass over the lines in reading order;
  the first line at which a plausible pair is complete ends the pass with the metric, and
  when the lines are exhausted nothing is found.
\<close>

fun scan_numeradas ::
  "string \<Rightarrow> (nat \<times> string) list \<Rightarrow> datos_m002 \<Rightarrow> py_exn + MetricaM002 option" where
  "scan_numeradas ahora [] datos = Inr None"
| "scan_numeradas ahora ((n, linea) # lineas) datos =
     bind_exn (procesar_linea ahora n linea datos) (\<lambda>r.
       case r of
         Inl metrica \<Rightarrow> Inr (Some metrica)
       | Inr datos' \<Rightarrow> scan_numeradas ahora lineas datos')"

text \<open>
  Two accumulators that the scan cannot tell apart: each value of 2024 is set in both or
  in neither, and where it is set it and what was stored with it are the same.
\<close>

definition mismo_par :: "datos_m002 \<Rightarrow> datos_m002 \<Rightarrow> bool" where
  "mismo_par d e =
     ((verdadero (datos_m002.utilidad_neta_2024 d) = verdadero (datos_m002.utilidad_neta_2024 e))
      \<and> (verdadero (datos_m002.utilidad_neta_2024 d) \<longrightarrow>
            datos_m002.utilidad_neta_2024 d = datos_m002.utilidad_neta_2024 e
            \<and> datos_m002.utilidad_neta_2023 d = datos_m002.utilidad_neta_2023 e
            \<and> datos_m002.pagina_encontrada d = datos_m002.pagina_encontrada e)
      \<and> (verdadero (datos_m002.patrimonio_2024 d) = verdadero (datos_m002.patrimonio_2024 e))
      \<and> (verdadero (datos_m002.patrimonio_2024 d) \<longrightarrow>
            datos_m002.patrimonio_2024 d = datos_m002.patrimonio_2024 e
            \<and> datos_m002.patrimonio_2023 d = datos_m002.patrimonio_2023 e))"

text \<open>Two outcomes of the body of the loop that the scan cannot tell apart.\<close>

definition mismo_resultado ::
  "py_exn + (MetricaM002 + datos_m002) \<Rightarrow> py_exn + (MetricaM002 + datos_m002) \<Rightarrow> bool" where
  "mismo_resultado r s =
     (case (r, s) of
        (Inl x, Inl y) \<Rightarrow> x = y
      | (Inr (Inl m), Inr (Inl m')) \<Rightarrow> m = m'
      | (Inr (Inr d), Inr (Inr e)) \<Rightarrow> mismo_par d e
      | _ \<Rightarrow> False)"

section \<open>Example parsers\<close>

text \<open>
  The parsers are parameters of the model. These are particular ones, used to run the
  extractors on concrete tables; their helper is the quotient of the specification. With
  \<open>parsers_ejemplo\<close> the parser of the risk ratings raises, so that M005 fails;
  \<open>parsers_completos\<close> gives it a table on which M005 succeeds.
\<close>

definition parsers_ejemplo :: parsers where
  "parsers_ejemplo =
     \<lparr> extraer_tabla_provision = (\<lambda>_. Inr (Some
          [(''provision_2024'', Some 1000), (''provision_2023'', Some 900),
           (''cartera_2024'', Some 20000), (''cartera_2023'', Some 18000),
           (''pagina_encontrada'', Some 12)])),
       extraer_cobertura_vencida = (\<lambda>_. Inr (Some
          [(''cobertura_2024'', Some (5 / 4)), (''cobertura_2023'', Some 1),
           (''pagina_encontrada'', Some 95)])),
       extraer_calificacion_riesgo = (\<lambda>_. Inl (OtherError ''tabla ilegible'')),
       calcular_cartera_vencida_desde_cobertura = calcular_cartera_vencida \<rparr>"

definition parsers_completos :: parsers where
  "parsers_completos =
     parsers_ejemplo \<lparr> extraer_calificacion_riesgo := (\<lambda>_. Inr (Some
          [(''a_2024'', Some 17000), (''b_2024'', Some 1600), (''c_2024'', Some 600),
           (''d_2024'', Some 500), (''e_2024'', Some 300), (''total_2024'', Some 20000),
           (''a_2023'', Some 15500), (''b_2023'', Some 1420), (''c_2023'', Some 500),
           (''d_2023'', Some 400), (''e_2023'', Some 180), (''total_2023'', Some 18000),
           (''pagina_encontrada'', Some 101)])) \<rparr>"

section \<open>Auxiliary notions for the run and the validation\<close>

text \<open>
  These notions do not occur in the source. \<open>exito\<close> is the dictionary an
  extractor yields when neither it nor \<open>to_dict\<close> raises, \<open>leer\<close>
  reads \<open>metricas[id]['valores']['2024'][campo]\<close> as a number,
  \<open>bien_formadas\<close> says that the dictionaries present have the numbers the rules
  read, \<open>divide_por_cero\<close> that the first rule applies and the overdue portfolio
  it divides by is zero, and \<open>resultado_cobertura\<close>, \<open>resultado_riesgosa\<close>
  and \<open>resultado_rango\<close> say what each rule is expected to record.
\<close>

definition exito :: "parsers \<Rightarrow> string \<Rightarrow> string \<Rightarrow> extractor \<Rightarrow> pyval option" where
  "exito P ahora ruta_pdf f =
     (case intentar P ahora ruta_pdf f of
        Inl e \<Rightarrow> None
      | Inr None \<Rightarrow> None
      | Inr (Some d) \<Rightarrow> Some d)"

definition leer :: "(string \<rightharpoonup> pyval) \<Rightarrow> string \<Rightarrow> string \<Rightarrow> real option" where
  "leer ms metrica_id campo =
     (case valor_2024 ms metrica_id campo of
        Inr (PyNum x) \<Rightarrow> Some x
      | _ \<Rightarrow> None)"

definition bien_formadas :: "(string \<rightharpoonup> pyval) \<Rightarrow> bool" where
  "bien_formadas ms =
     ((ms ''M001'' \<noteq> None \<longrightarrow>
         leer ms ''M001'' ''provision'' \<noteq> None \<and> leer ms ''M001'' ''ratio'' \<noteq> None)
      \<and> (ms ''M003'' \<noteq> None \<longrightarrow>
         leer ms ''M003'' ''cartera_vencida'' \<noteq> None
         \<and> leer ms ''M003'' ''npl_ratio'' \<noteq> None)
      \<and> (ms ''M004'' \<noteq> None \<longrightarrow> leer ms ''M004'' ''coverage_ratio'' \<noteq> None)
      \<and> (ms ''M005'' \<noteq> None \<longrightarrow> leer ms ''M005'' ''ratio_riesgosa_cde'' \<noteq> None))"

definition divide_por_cero :: "(string \<rightharpoonup> pyval) \<Rightarrow> bool" where
  "divide_por_cero ms =
     (ms ''M001'' \<noteq> None \<and> ms ''M003'' \<noteq> None \<and> ms ''M004'' \<noteq> None
      \<and> leer ms ''M003'' ''cartera_vencida'' = Some 0)"

definition resultado_cobertura :: "(string \<rightharpoonup> pyval) \<Rightarrow> bool option" where
  "resultado_cobertura ms =
     (case (leer ms ''M001'' ''provision'', leer ms ''M003'' ''cartera_vencida'',
            leer ms ''M004'' ''coverage_ratio'') of
        (Some provision, Some cartera_vencida, Some coverage_reportado) \<Rightarrow>
          Some (menor (valor_absoluto (restar (redondear (provision / cartera_vencida))
                                              (Finito coverage_reportado)))
                      (redondear 0.01))
      | _ \<Rightarrow> None)"

definition resultado_riesgosa :: "(string \<rightharpoonup> pyval) \<Rightarrow> bool option" where
  "resultado_riesgosa ms =
     (case (leer ms ''M003'' ''npl_ratio'', leer ms ''M005'' ''ratio_riesgosa_cde'') of
        (Some npl, Some riesgosa) \<Rightarrow> Some (riesgosa > npl)
      | _ \<Rightarrow> None)"

definition resultado_rango :: "(string \<rightharpoonup> pyval) \<Rightarrow> bool option" where
  "resultado_rango ms =
     (case leer ms ''M001'' ''ratio'' of
        Some ratio \<Rightarrow> Some (0.01 \<le> ratio \<and> ratio \<le> 0.20)
      | None \<Rightarrow> None)"

fun anotar :: "string \<Rightarrow> bool option \<Rightarrow> (string \<rightharpoonup> bool) \<Rightarrow> (string \<rightharpoonup> bool)" where
  "anotar k None c = c"
| "anotar k (Some b) c = c(k \<mapsto> b)"

section \<open>The state after the loop\<close>

text \<open>
  The report as the loop over the catalogue leaves it, before the validation.
\<close>

definition tras_extractores :: "parsers \<Rightarrow> string \<Rightarrow> string \<Rightarrow> string \<Rightarrow> int \<Rightarrow> resultados" where
  "tras_extractores P ahora ruta_pdf un_banco un_anio =
     ejecutar_extractores P ahora ruta_pdf extractores
       (resultados_iniciales ahora ruta_pdf un_banco un_anio)"

section \<open>Further examples\<close>

text \<open>
  Parsers whose risky portfolio lies below the overdue one, and two reports built by hand:
  one whose reported coverage disagrees with the computed one, and one whose computed
  coverage, 2808 over 450, is exactly one hundredth below the reported 6.25.
\<close>

definition parsers_anomalos :: parsers where
  "parsers_anomalos =
     parsers_ejemplo \<lparr> extraer_calificacion_riesgo := (\<lambda>_. Inr (Some
          [(''a_2024'', Some 17800), (''b_2024'', Some 1600), (''c_2024'', Some 300),
           (''d_2024'', Some 200), (''e_2024'', Some 100), (''total_2024'', Some 20000),
           (''a_2023'', Some 15500), (''b_2023'', Some 1420), (''c_2023'', Some 500),
           (''d_2023'', Some 400), (''e_2023'', Some 180), (''total_2023'', Some 18000),
           (''pagina_encontrada'', Some 101)])) \<rparr>"

definition resultados_incoherentes :: resultados where
  "resultados_incoherentes =
     (resultados_iniciales ''2025-01-01'' ''informe.pdf'' ''bancolombia'' 2024)
       \<lparr> metricas :=
           [''M001'' \<mapsto> to_dict_m001 (nueva_MetricaM001 1000 900 20000 18000 (1 / 20) (1 / 20)
               ''MEDIO'' (Some 12) ''2025-01-01''),
            ''M003'' \<mapsto> to_dict_m003 (nueva_MetricaM003 800 900 20000 18000 (1 / 25) (1 / 20)
               ''BUENO'' 1000 900 (5 / 4) 1 (Some 95) ''2025-01-01''),
            ''M004'' \<mapsto> to_dict_m004 (nueva_MetricaM004 (3 / 2) 1 ''ADECUADO'' (Some 95)
               ''2025-01-01'')] \<rparr>"

definition resultados_limite :: resultados where
  "resultados_limite =
     (resultados_iniciales ''2025-01-01'' ''informe.pdf'' ''bancolombia'' 2024)
       \<lparr> metricas :=
           [''M001'' \<mapsto> to_dict_m001 (nueva_MetricaM001 2808 2700 56160 54000 (1 / 20) (1 / 20)
               ''MEDIO'' (Some 12) ''2025-01-01''),
            ''M003'' \<mapsto> to_dict_m003 (nueva_MetricaM003 450 450 56160 54000 (450 / 56160)
               (450 / 54000) ''EXCELENTE'' 2808 2700 (25 / 4) 6 (Some 95) ''2025-01-01''),
            ''M004'' \<mapsto> to_dict_m004 (nueva_MetricaM004 (25 / 4) 6 ''CONSERVADOR'' (Some 95)
               ''2025-01-01'')] \<rparr>"





section \<open>Properties of the classifiers\<close>

lemma bandas_m001:
  "(evaluar_nivel_riesgo r = ''BAJO'') = (r < 0.04)"
  "(evaluar_nivel_riesgo r = ''MEDIO'') = (0.04 \<le> r \<and> r < 0.07)"
  "(evaluar_nivel_riesgo r = ''ALTO'') = (0.07 \<le> r \<and> r < 0.10)"
  "(evaluar_nivel_riesgo r = CRITICO) = (0.10 \<le> r)"
  by (simp_all add: evaluar_nivel_riesgo_def CRITICO_def)

lemma bandas_m002:
  "(evaluar_desempeno r = ''BAJO'') = (r < 0.05)"
  "(evaluar_desempeno r = ''MEDIO'') = (0.05 \<le> r \<and> r < 0.10)"
  "(evaluar_desempeno r = ''ALTO'') = (0.10 \<le> r \<and> r < 0.15)"
  "(evaluar_desempeno r = ''EXCELENTE'') = (0.15 \<le> r)"
  by (simp_all add: evaluar_desempeno_def)

lemma bandas_m003:
  "(evaluar_calidad_cartera r = ''EXCELENTE'') = (r < 0.03)"
  "(evaluar_calidad_cartera r = ''BUENO'') = (0.03 \<le> r \<and> r < 0.05)"
  "(evaluar_calidad_cartera r = ''ACEPTABLE'') = (0.05 \<le> r \<and> r < 0.08)"
  "(evaluar_calidad_cartera r = ''ALTO'') = (0.08 \<le> r \<and> r < 0.12)"
  "(evaluar_calidad_cartera r = CRITICO) = (0.12 \<le> r)"
  by (simp_all add: evaluar_calidad_cartera_def CRITICO_def)

lemma bandas_m004:
  "(evaluar_nivel_cobertura r = ''INSUFICIENTE'') = (r < 0.80)"
  "(evaluar_nivel_cobertura r = LIMITE) = (0.80 \<le> r \<and> r < 1.00)"
  "(evaluar_nivel_cobertura r = ''ADECUADO'') = (1.00 \<le> r \<and> r \<le> 1.50)"
  "(evaluar_nivel_cobertura r = ''CONSERVADOR'') = (1.50 < r)"
  by (auto simp add: evaluar_nivel_cobertura_def LIMITE_def)

lemma bandas_m005:
  "(evaluar_nivel_riesgo_m005 r = ''EXCELENTE'') = (r < 0.03)"
  "(evaluar_nivel_riesgo_m005 r = ''BUENO'') = (0.03 \<le> r \<and> r < 0.05)"
  "(evaluar_nivel_riesgo_m005 r = ''ACEPTABLE'') = (0.05 \<le> r \<and> r < 0.08)"
  "(evaluar_nivel_riesgo_m005 r = ''ALTO'') = (0.08 \<le> r \<and> r < 0.12)"
  "(evaluar_nivel_riesgo_m005 r = CRITICO) = (0.12 \<le> r)"
  by (simp_all add: evaluar_nivel_riesgo_m005_def CRITICO_def)

text \<open>
  Claim C2. Every classifier is total over the reals and its bands partition the real line:
  each label is returned on exactly one interval, the intervals are pairwise disjoint, they
  leave no gap, the lowest band reaches down to every negative ratio and the highest band
  up to every large one. For M001 the ratio 0.04 itself is \<open>MEDIO\<close>, because the band
  \<open>BAJO\<close> ends with a strict comparison.
\<close>

theorem clasificadores_totales:
  "((evaluar_nivel_riesgo r = ''BAJO'') = (r < 0.04)
    \<and> (evaluar_nivel_riesgo r = ''MEDIO'') = (0.04 \<le> r \<and> r < 0.07)
    \<and> (evaluar_nivel_riesgo r = ''ALTO'') = (0.07 \<le> r \<and> r < 0.10)
    \<and> (evaluar_nivel_riesgo r = CRITICO) = (0.10 \<le> r))
   \<and> ((evaluar_desempeno r = ''BAJO'') = (r < 0.05)
    \<and> (evaluar_desempeno r = ''MEDIO'') = (0.05 \<le> r \<and> r < 0.10)
    \<and> (evaluar_desempeno r = ''ALTO'') = (0.10 \<le> r \<and> r < 0.15)
    \<and> (evaluar_desempeno r = ''EXCELENTE'') = (0.15 \<le> r))
   \<and> ((evaluar_calidad_cartera r = ''EXCELENTE'') = (r < 0.03)
    \<and> (evaluar_calidad_cartera r = ''BUENO'') = (0.03 \<le> r \<and> r < 0.05)
    \<and> (evaluar_calidad_cartera r = ''ACEPTABLE'') = (0.05 \<le> r \<and> r < 0.08)
    \<and> (evaluar_calidad_cartera r = ''ALTO'') = (0.08 \<le> r \<and> r < 0.12)
    \<and> (evaluar_calidad_cartera r = CRITICO) = (0.12 \<le> r))
   \<and> ((evaluar_nivel_cobertura r = ''INSUFICIENTE'') = (r < 0.80)
    \<and> (evaluar_nivel_cobertura r = LIMITE) = (0.80 \<le> r \<and> r < 1.00)
    \<and> (evaluar_nivel_cobertura r = ''ADECUADO'') = (1.00 \<le> r \<and> r \<le> 1.50)
    \<and> (evaluar_nivel_cobertura r = ''CONSERVADOR'') = (1.50 < r))
   \<and> ((evaluar_nivel_riesgo_m005 r = ''EXCELENTE'') = (r < 0.03)
    \<and> (evaluar_nivel_riesgo_m005 r = ''BUENO'') = (0.03 \<le> r \<and> r < 0.05)
    \<and> (evaluar_nivel_riesgo_m005 r = ''ACEPTABLE'') = (0.05 \<le> r \<and> r < 0.08)
    \<and> (evaluar_nivel_riesgo_m005 r = ''ALTO'') = (0.08 \<le> r \<and> r < 0.12)
    \<and> (evaluar_nivel_riesgo_m005 r = CRITICO) = (0.12 \<le> r))
   \<and> evaluar_nivel_riesgo 0.04 = ''MEDIO''"
  using bandas_m001 [of r] bandas_m002 [of r] bandas_m003 [of r] bandas_m004 [of r]
    bandas_m005 [of r] bandas_m001(2) [of "0.04"]
  by simp

section \<open>Properties of the numeric token extractor\<close>

lemma trozos_prefijo:
  "\<forall>c\<in>set g. clase_num c \<Longrightarrow> trozos acc (g @ r) = trozos (acc @ g) r"
  by (induction g arbitrary: acc) auto

lemma trozos_take_drop:
  "trozos acc s = trozos (acc @ takeWhile clase_num s) (dropWhile clase_num s)"
proof -
  have "trozos acc (takeWhile clase_num s @ dropWhile clase_num s)
        = trozos (acc @ takeWhile clase_num s) (dropWhile clase_num s)"
    by (rule trozos_prefijo) (auto dest: set_takeWhileD)
  then show ?thesis by simp
qed

lemma no_clase_parentesis [simp]: "\<not> clase_num (CHR ''('')" "\<not> clase_num (CHR '')'')"
  by (simp_all add: clase_num_def es_digito_def)

lemma trozos_grupo:
  assumes "grupo s = Some (g, resto)"
  shows "trozos [] s = g # trozos [] resto"
proof -
  let ?r = "dropWhile clase_num s"
  from assms have g: "g = takeWhile clase_num s" and ne: "g \<noteq> []"
    by (auto simp: grupo_def Let_def split: if_splits)
  have eq: "trozos [] s = trozos g ?r"
    using trozos_take_drop [of "[]" s] g by simp
  show ?thesis
  proof (cases ?r)
    case Nil
    with assms ne have "resto = []"
      by (auto simp: grupo_def Let_def split: if_splits)
    with eq Nil ne show ?thesis by simp
  next
    case (Cons x r')
    then have nx: "\<not> clase_num x"
      by (metis hd_dropWhile list.sel(1) list.distinct(1))
    from assms Cons have resto: "resto = (if x = CHR '')'' then r' else x # r')"
      by (auto simp: grupo_def Let_def split: if_splits)
    from eq Cons nx ne have "trozos [] s = g # trozos [] r'" by simp
    moreover from resto nx have "trozos [] resto = trozos [] r'" by simp
    ultimately show ?thesis by simp
  qed
qed

lemma grupo_None: "grupo s = None \<Longrightarrow> s = [] \<or> \<not> clase_num (hd s)"
  by (cases s) (auto simp: grupo_def Let_def split: if_splits)

lemma grupo_Some_hd: "grupo (c # cs) = Some m \<Longrightarrow> clase_num c"
  by (auto simp: grupo_def Let_def split: if_splits)

lemma findall_trozos: "findall_patron s = trozos [] s"
proof (induction s rule: findall_patron.induct)
  case 1
  show ?case by simp
next
  case (2 c cs)
  show ?case
  proof (cases "match_patron (c # cs)")
    case None
    then have "\<not> clase_num c"
      by (auto simp: match_patron_def split: if_splits option.splits dest: grupo_None)
    with None 2 show ?thesis by simp
  next
    case (Some m)
    obtain g resto where m: "m = (g, resto)" by (cases m)
    from Some m 2 have ih: "findall_patron resto = trozos [] resto" by simp
    have "trozos [] (c # cs) = g # trozos [] resto"
    proof (cases "c = CHR ''(''")
      case True
      with Some m have "grupo cs = Some (g, resto)"
        by (auto simp: match_patron_def split: option.splits dest: grupo_Some_hd)
      then have "trozos [] cs = g # trozos [] resto" by (rule trozos_grupo)
      with True show ?thesis by simp
    next
      case False
      with Some m have "grupo (c # cs) = Some (g, resto)"
        by (simp add: match_patron_def)
      then show ?thesis by (rule trozos_grupo)
    qed
    with Some m ih show ?thesis by simp
  qed
qed

lemma trozos_clase:
  "list_all clase_num acc \<Longrightarrow> list_all (list_all clase_num) (trozos acc s)"
  by (induction s arbitrary: acc) simp_all

lemma py_float_token:
  assumes "\<forall>c\<in>set t. clase_num c"
  shows "py_float (filter (\<lambda>c. c \<noteq> CHR '','') t)
         = (if analizable t then Inr (magnitud t) else Inl ValueError)"
proof -
  let ?f = "filter (\<lambda>c. c \<noteq> CHR '','') t"
  from assms have dig: "list_all es_digito ?f"
    by (auto simp: list_all_iff clase_num_def)
  have coma: "\<not> es_digito (CHR '','')" by (simp add: es_digito_def)
  have "(?f \<noteq> []) = analizable t"
  proof
    assume "?f \<noteq> []"
    then obtain c where "c \<in> set ?f" by (cases ?f) auto
    with assms have "c \<in> set t" "es_digito c" by (auto simp: clase_num_def)
    then show "analizable t" by (auto simp: analizable_def list_ex_iff)
  next
    assume "analizable t"
    then obtain c where "c \<in> set t" "es_digito c" by (auto simp: analizable_def list_ex_iff)
    with coma have "c \<in> set ?f" by auto
    then show "?f \<noteq> []" by (metis empty_iff list.set(1))
  qed
  with dig show ?thesis by (simp add: py_float_def magnitud_def quitar_separadores_def)
qed

lemma filtrar_numeros_eq:
  "\<forall>t\<in>set ms. \<forall>c\<in>set t. clase_num c \<Longrightarrow>
   filtrar_numeros ms = filter (\<lambda>x. x > 1000) (map magnitud (filter analizable ms))"
  by (induction ms) (simp_all add: py_float_token)

lemma extraer_numeros_eq: "extraer_numeros_de_linea linea = candidatos_sobre_piso linea"
  unfolding extraer_numeros_de_linea_def candidatos_sobre_piso_def subcadenas_numericas_def
    findall_trozos
  by (rule filtrar_numeros_eq) (use trozos_clase [of "[]" linea] in \<open>simp add: list_all_iff\<close>)

lemma concat_trozos: "concat (trozos acc s) = acc @ filter clase_num s"
  by (induction s arbitrary: acc) simp_all

lemmas evaluar_numeros =
  extraer_numeros_de_linea_def match_patron_def grupo_def clase_num_def es_digito_def
  py_float_def valor_decimal_def valor_digito_def

text \<open>
  Claim C5, as the code has it. The numbers of a line are the magnitudes of its maximal
  substrings of digits and commas, parentheses around them ignored, in the order in which
  they stand in the line (joined together, the substrings are the digits and commas of
  the line in their order), commas stripped; a substring without a digit cannot be parsed
  and is skipped; a magnitude is kept only when it is greater than 1000, so 1000 itself
  is discarded. The two lines of the specification give \<open>[1234567, 987654]\<close> and the
  empty list.
\<close>

theorem extraer_numeros_de_linea_candidatos:
  "extraer_numeros_de_linea linea = candidatos_sobre_piso linea
   \<and> concat (subcadenas_numericas linea) = filter clase_num linea
   \<and> extraer_numeros_de_linea ''Utilidad neta (1,234,567) 987,654'' = [1234567, 987654]
   \<and> extraer_numeros_de_linea ''page 3 of 45'' = []"
proof -
  have "extraer_numeros_de_linea ''Utilidad neta (1,234,567) 987,654'' = [1234567, 987654]"
    by (simp add: evaluar_numeros)
  moreover have "extraer_numeros_de_linea ''page 3 of 45'' = []"
    by (simp add: evaluar_numeros)
  moreover have "concat (subcadenas_numericas linea) = filter clase_num linea"
    by (simp add: subcadenas_numericas_def concat_trozos)
  ultimately show ?thesis using extraer_numeros_eq [of linea] by simp
qed

text \<open>The claim as stated discards only what is below 1000, so it keeps a magnitude of
  exactly 1000; the code drops it.\<close>

theorem candidatos_segun_spec_contraejemplo:
  "extraer_numeros_de_linea ''Saldo 1,000'' \<noteq> candidatos_segun_spec ''Saldo 1,000''"
  by (simp add: evaluar_numeros candidatos_segun_spec_def subcadenas_numericas_def
      analizable_def magnitud_def quitar_separadores_def)

section \<open>Properties of the M002 extractor\<close>

lemma datos_ok_mono: "datos_ok L d \<Longrightarrow> L \<subseteq> L' \<Longrightarrow> datos_ok L' d"
  unfolding datos_ok_def by blast

lemma metrica_ok_mono: "metrica_ok L m \<Longrightarrow> L \<subseteq> L' \<Longrightarrow> metrica_ok L' m"
  unfolding metrica_ok_def by blast

lemma filtrar_numeros_mayor: "x \<in> set (filtrar_numeros ms) \<Longrightarrow> 1000 < x"
  by (induction ms) (auto split: sum.splits if_splits)

lemma extraer_numeros_mayor: "x \<in> set (extraer_numeros_de_linea l) \<Longrightarrow> 1000 < x"
  by (auto simp: extraer_numeros_de_linea_def dest: filtrar_numeros_mayor)

lemma indice_penultimo:
  "2 \<le> length xs \<Longrightarrow> indice xs (- 2) = Inr (xs ! (length xs - 2))"
  by (simp add: indice_def nat_diff_distrib' of_nat_diff)

lemma indice_ultimo:
  "2 \<le> length xs \<Longrightarrow> indice xs (- 1) = Inr (xs ! (length xs - 1))"
  by (simp add: indice_def nat_diff_distrib' of_nat_diff)

lemma numeros_cola:
  assumes "2 \<le> length (extraer_numeros_de_linea l)"
  shows "1000 < extraer_numeros_de_linea l ! (length (extraer_numeros_de_linea l) - 2)"
    and "1000 < extraer_numeros_de_linea l ! (length (extraer_numeros_de_linea l) - 1)"
  using assms by (auto intro!: extraer_numeros_mayor nth_mem)

lemma buscar_utilidad_neta_ok:
  assumes "datos_ok L d"
  shows "\<exists>d'. buscar_utilidad_neta n l d = Inr d' \<and> datos_ok (insert l L) d'"
proof (cases "buscar_utilidad_neta n l d = Inr d")
  case True
  with assms show ?thesis by (auto intro: datos_ok_mono)
next
  case False
  let ?ns = "extraer_numeros_de_linea l"
  from False have len: "2 \<le> length ?ns"
    and cand: "candidato_utilidad l = Some \<bar>?ns ! (length ?ns - 2)\<bar>"
    by (auto simp: buscar_utilidad_neta_def candidato_utilidad_def Let_def split: if_splits)
  from False len have eq: "buscar_utilidad_neta n l d =
      Inr (d\<lparr> datos_m002.utilidad_neta_2024 := Some \<bar>?ns ! (length ?ns - 2)\<bar>,
               datos_m002.utilidad_neta_2023 := Some \<bar>?ns ! (length ?ns - 1)\<bar>,
               datos_m002.pagina_encontrada := Some n \<rparr>)"
    by (auto simp: buscar_utilidad_neta_def Let_def indice_penultimo indice_ultimo
        split: if_splits)
  from numeros_cola [OF len] have "1000 < \<bar>?ns ! (length ?ns - 2)\<bar>"
    "1000 < \<bar>?ns ! (length ?ns - 1)\<bar>" by linarith+
  with assms cand have "datos_ok (insert l L)
     (d\<lparr> datos_m002.utilidad_neta_2024 := Some \<bar>?ns ! (length ?ns - 2)\<bar>,
         datos_m002.utilidad_neta_2023 := Some \<bar>?ns ! (length ?ns - 1)\<bar>,
         datos_m002.pagina_encontrada := Some n \<rparr>)"
    unfolding datos_ok_def by auto
  with eq show ?thesis by simp
qed

lemma buscar_patrimonio_ok:
  assumes "datos_ok L d"
  shows "\<exists>d'. buscar_patrimonio l d = Inr d' \<and> datos_ok (insert l L) d'"
proof (cases "buscar_patrimonio l d = Inr d")
  case True
  with assms show ?thesis by (auto intro: datos_ok_mono)
next
  case False
  let ?ns = "extraer_numeros_de_linea l"
  from False have len: "2 \<le> length ?ns"
    and cand: "candidato_patrimonio l = Some \<bar>?ns ! (length ?ns - 2)\<bar>"
    by (auto simp: buscar_patrimonio_def candidato_patrimonio_def Let_def split: if_splits)
  from False len have eq: "buscar_patrimonio l d =
      Inr (d\<lparr> datos_m002.patrimonio_2024 := Some \<bar>?ns ! (length ?ns - 2)\<bar>,
               datos_m002.patrimonio_2023 := Some \<bar>?ns ! (length ?ns - 1)\<bar> \<rparr>)"
    by (auto simp: buscar_patrimonio_def Let_def indice_penultimo indice_ultimo
        split: if_splits)
  from numeros_cola [OF len] have "1000 < \<bar>?ns ! (length ?ns - 2)\<bar>"
    "1000 < \<bar>?ns ! (length ?ns - 1)\<bar>" by linarith+
  with assms cand have "datos_ok (insert l L)
     (d\<lparr> datos_m002.patrimonio_2024 := Some \<bar>?ns ! (length ?ns - 2)\<bar>,
         datos_m002.patrimonio_2023 := Some \<bar>?ns ! (length ?ns - 1)\<bar> \<rparr>)"
    unfolding datos_ok_def by auto
  with eq show ?thesis by simp
qed

lemma validar_y_salir_ok:
  assumes "datos_ok L d"
  shows "(\<exists>m. validar_y_salir ahora d = Inr (Inl m) \<and> metrica_ok L m)
       \<or> (\<exists>d'. validar_y_salir ahora d = Inr (Inr d') \<and> datos_ok L d' \<and> sin_par d')"
proof (cases "verdadero (datos_m002.utilidad_neta_2024 d)
              \<and> verdadero (datos_m002.patrimonio_2024 d)")
  case False
  with assms show ?thesis by (auto simp: validar_y_salir_def sin_par_def)
next
  case True
  then obtain u p where u: "datos_m002.utilidad_neta_2024 d = Some u"
    and p: "datos_m002.patrimonio_2024 d = Some p"
    by (cases "datos_m002.utilidad_neta_2024 d"; cases "datos_m002.patrimonio_2024 d") auto
  from assms u obtain v lu where ubig: "1000 < u" and cu: "lu \<in> L" "candidato_utilidad lu = Some u"
    and v: "datos_m002.utilidad_neta_2023 d = Some v" "1000 < v"
    unfolding datos_ok_def by blast
  from assms p obtain q lp where pbig: "1000 < p" and cp: "lp \<in> L" "candidato_patrimonio lp = Some p"
    and q: "datos_m002.patrimonio_2023 d = Some q" "1000 < q"
    unfolding datos_ok_def by blast
  show ?thesis
  proof (cases "- 0.10 < u / p \<and> u / p < 0.30")
    case False
    with u p ubig pbig have "validar_y_salir ahora d =
        Inr (Inr (d\<lparr> datos_m002.utilidad_neta_2024 := None, datos_m002.patrimonio_2024 := None \<rparr>))"
      by (auto simp: validar_y_salir_def truediv_def)
    moreover from assms have "datos_ok L
        (d\<lparr> datos_m002.utilidad_neta_2024 := None, datos_m002.patrimonio_2024 := None \<rparr>)"
      unfolding datos_ok_def by simp
    ultimately show ?thesis by (simp add: sin_par_def)
  next
    case True
    let ?m = "nueva_MetricaM002 u v p q (u / ((p + q) / 2)) (v / q)
                (evaluar_desempeno (u / ((p + q) / 2))) (datos_m002.pagina_encontrada d) ahora"
    from True u p v q ubig pbig have "validar_y_salir ahora d = Inr (Inl ?m)"
      by (simp add: validar_y_salir_def truediv_def)
    moreover from True cu cp have "metrica_ok L ?m"
      unfolding metrica_ok_def roe_plausible_def nueva_MetricaM002_def by auto
    ultimately show ?thesis by blast
  qed
qed

lemma procesar_linea_ok:
  assumes "datos_ok L d"
  shows "(\<exists>m. procesar_linea ahora n l d = Inr (Inl m) \<and> metrica_ok (insert l L) m)
       \<or> (\<exists>d'. procesar_linea ahora n l d = Inr (Inr d') \<and> datos_ok (insert l L) d' \<and> sin_par d')"
proof -
  from buscar_utilidad_neta_ok [OF assms, of n l] obtain d1
    where d1: "buscar_utilidad_neta n l d = Inr d1" "datos_ok (insert l L) d1" by blast
  from buscar_patrimonio_ok [OF d1(2), of l] obtain d2
    where d2: "buscar_patrimonio l d1 = Inr d2" "datos_ok (insert l L) d2" by auto
  from validar_y_salir_ok [OF d2(2), of ahora] d1(1) d2(1)
  show ?thesis by (simp add: procesar_linea_def)
qed

lemma scan_lineas_ok:
  "datos_ok L d \<Longrightarrow>
   (\<exists>m. scan_lineas ahora n ls d = Inr (Inl m) \<and> metrica_ok (L \<union> set ls) m)
   \<or> (\<exists>d'. scan_lineas ahora n ls d = Inr (Inr d') \<and> datos_ok (L \<union> set ls) d')"
proof (induction ls arbitrary: L d)
  case Nil
  then show ?case by simp
next
  case (Cons l ls)
  from procesar_linea_ok [OF Cons.prems, of ahora n l]
  show ?case
  proof
    assume "\<exists>m. procesar_linea ahora n l d = Inr (Inl m) \<and> metrica_ok (insert l L) m"
    then obtain m where "procesar_linea ahora n l d = Inr (Inl m)" "metrica_ok (insert l L) m"
      by blast
    then show ?thesis by (auto intro: metrica_ok_mono)
  next
    assume "\<exists>d'. procesar_linea ahora n l d = Inr (Inr d') \<and> datos_ok (insert l L) d' \<and> sin_par d'"
    then obtain d' where d': "procesar_linea ahora n l d = Inr (Inr d')" "datos_ok (insert l L) d'"
      by blast
    from Cons.IH [OF d'(2)] d'(1) show ?thesis by simp
  qed
qed

lemma lineas_documento_simps:
  "lineas_documento [] = []"
  "lineas_documento (None # ps) = lineas_documento ps"
  "lineas_documento (Some t # ps) = (if t = [] then [] else split_lineas [] t) @ lineas_documento ps"
  by (simp_all add: lineas_documento_def)

lemma scan_paginas_ok:
  "datos_ok L d \<Longrightarrow>
   scan_paginas ahora n ps d = Inr None
   \<or> (\<exists>m. scan_paginas ahora n ps d = Inr (Some m)
           \<and> metrica_ok (L \<union> set (lineas_documento ps)) m)"
proof (induction ps arbitrary: L d n)
  case Nil
  then show ?case by simp
next
  case (Cons pg ps)
  show ?case
  proof (cases "pg = None \<or> pg = Some []")
    case True
    with Cons.IH [OF Cons.prems, of "Suc n"] show ?thesis
      by (auto simp: lineas_documento_simps)
  next
    case False
    then obtain t where t: "pg = Some t" "t \<noteq> []" by (cases pg) auto
    let ?ls = "split_lineas [] t"
    have doc: "lineas_documento (pg # ps) = ?ls @ lineas_documento ps"
      using t by (simp add: lineas_documento_simps)
    from scan_lineas_ok [OF Cons.prems, of ahora n ?ls]
    show ?thesis
    proof
      assume "\<exists>m. scan_lineas ahora n ?ls d = Inr (Inl m) \<and> metrica_ok (L \<union> set ?ls) m"
      then obtain m where m: "scan_lineas ahora n ?ls d = Inr (Inl m)" "metrica_ok (L \<union> set ?ls) m"
        by blast
      from m(2) have "metrica_ok (L \<union> set (lineas_documento (pg # ps))) m"
        by (rule metrica_ok_mono) (auto simp: doc)
      with m(1) t show ?thesis by simp
    next
      assume "\<exists>d'. scan_lineas ahora n ?ls d = Inr (Inr d') \<and> datos_ok (L \<union> set ?ls) d'"
      then obtain d' where d': "scan_lineas ahora n ?ls d = Inr (Inr d')" "datos_ok (L \<union> set ?ls) d'"
        by blast
      from Cons.IH [OF d'(2), of "Suc n"] d'(1) t doc show ?thesis
        by (auto simp: Un_assoc)
    qed
  qed
qed

lemma datos_iniciales_ok: "datos_ok {} datos_iniciales"
  by (simp add: datos_ok_def datos_iniciales_def)

lemma extraer_metrica_m002_ok:
  "extraer_metrica_m002 archivos ahora ruta = Inr None
   \<or> (\<exists>m paginas. archivos ruta = Some paginas
          \<and> extraer_metrica_m002 archivos ahora ruta = Inr (Some m)
          \<and> metrica_ok (set (lineas_documento paginas)) m)"
proof (cases "archivos ruta")
  case None
  then show ?thesis by (simp add: extraer_metrica_m002_def)
next
  case (Some paginas)
  with scan_paginas_ok [OF datos_iniciales_ok, of ahora 1 paginas]
  show ?thesis by (auto simp: extraer_metrica_m002_def)
qed


lemmas evaluar_m002 =
  procesar_linea_def buscar_utilidad_neta_def buscar_patrimonio_def validar_y_salir_def
  lower_def lower_char_def char_of_def bit_Suc_0_iff sublist_Cons_right Let_def indice_def
  truediv_def evaluar_numeros

lemma ejemplo_resultado:
  "extraer_metrica_m002 (\<lambda>_. Some documento_ejemplo) ahora ruta
   = Inr (Some (nueva_MetricaM002 2900 2500 10000 1001 (5800 / 11001) (2500 / 1001)
        ''EXCELENTE'' (Some 3) ahora))"
  unfolding numeral_3_eq_3
  by (simp add: extraer_metrica_m002_def documento_ejemplo_def datos_iniciales_def evaluar_m002
      evaluar_desempeno_def)

lemma sin_par_plausible: "\<not> hay_par_plausible (lineas_documento documento_sin_par)"
  by (simp add: hay_par_plausible_def lineas_documento_simps documento_sin_par_def
      candidato_utilidad_def candidato_patrimonio_def roe_plausible_def
      lower_def lower_char_def char_of_def bit_Suc_0_iff sublist_Cons_right Let_def
      evaluar_numeros)

lemma hay_par_plausibleI:
  "lu \<in> set ls \<Longrightarrow> lp \<in> set ls \<Longrightarrow> candidato_utilidad lu = Some u \<Longrightarrow>
   candidato_patrimonio lp = Some p \<Longrightarrow> roe_plausible (u / p) \<Longrightarrow> hay_par_plausible ls"
  unfolding hay_par_plausible_def list_ex_iff by force

lemma metrica_ok_par:
  "metrica_ok (set ls) m \<Longrightarrow> hay_par_plausible ls"
  unfolding metrica_ok_def by (blast intro: hay_par_plausibleI)

lemma scan_lineas_numeradas:
  "bind_exn (scan_lineas ahora n ls d) (\<lambda>r.
      case r of Inl m \<Rightarrow> Inr (Some m) | Inr d' \<Rightarrow> scan_numeradas ahora resto d')
   = scan_numeradas ahora (map (Pair n) ls @ resto) d"
proof (induction ls arbitrary: d)
  case Nil
  show ?case by simp
next
  case (Cons l ls)
  show ?case
  proof (cases "procesar_linea ahora n l d")
    case (Inl e)
    then show ?thesis by simp
  next
    case (Inr r)
    then show ?thesis using Cons.IH by (cases r) simp_all
  qed
qed

lemma scan_paginas_numeradas:
  "scan_paginas ahora n ps d = scan_numeradas ahora (lineas_numeradas n ps) d"
proof (induction ps arbitrary: n d)
  case Nil
  show ?case by simp
next
  case (Cons pg ps)
  show ?case
  proof (cases "pg = None \<or> pg = Some []")
    case True
    then show ?thesis using Cons.IH by auto
  next
    case False
    then obtain t where t: "pg = Some t" "t \<noteq> []" by (cases pg) auto
    have "scan_paginas ahora n (pg # ps) d
        = bind_exn (scan_lineas ahora n (split_lineas [] t) d) (\<lambda>r.
            case r of Inl m \<Rightarrow> Inr (Some m)
            | Inr d' \<Rightarrow> scan_numeradas ahora (lineas_numeradas (Suc n) ps) d')"
    proof -
      have "scan_paginas ahora (Suc n) ps
          = (\<lambda>d'. scan_numeradas ahora (lineas_numeradas (Suc n) ps) d')"
        by (rule ext) (rule Cons.IH)
      then show ?thesis using t by (simp cong: sum.case_cong)
    qed
    also have "\<dots> = scan_numeradas ahora
        (map (Pair n) (split_lineas [] t) @ lineas_numeradas (Suc n) ps) d"
      by (rule scan_lineas_numeradas)
    finally show ?thesis using t by simp
  qed
qed

lemma mismo_par_refl: "mismo_par d d"
  by (simp add: mismo_par_def)

lemma mismo_resultado_refl: "mismo_resultado r r"
  by (cases r) (auto simp: mismo_resultado_def mismo_par_refl split: sum.splits)

lemma mismo_par_reinicio:
  "mismo_par (d\<lparr> datos_m002.utilidad_neta_2024 := None, datos_m002.patrimonio_2024 := None \<rparr>)
     datos_iniciales"
  by (simp add: mismo_par_def datos_iniciales_def)

lemma buscar_utilidad_neta_eq:
  "buscar_utilidad_neta n l d =
     Inr (if candidato_utilidad l \<noteq> None \<and> \<not> verdadero (datos_m002.utilidad_neta_2024 d)
          then d\<lparr> datos_m002.utilidad_neta_2024 :=
                    Some \<bar>extraer_numeros_de_linea l ! (length (extraer_numeros_de_linea l) - 2)\<bar>,
                  datos_m002.utilidad_neta_2023 :=
                    Some \<bar>extraer_numeros_de_linea l ! (length (extraer_numeros_de_linea l) - 1)\<bar>,
                  datos_m002.pagina_encontrada := Some n \<rparr>
          else d)"
  by (simp add: buscar_utilidad_neta_def candidato_utilidad_def Let_def indice_penultimo
      indice_ultimo)

lemma buscar_patrimonio_eq:
  "buscar_patrimonio l d =
     Inr (if candidato_patrimonio l \<noteq> None \<and> \<not> verdadero (datos_m002.patrimonio_2024 d)
          then d\<lparr> datos_m002.patrimonio_2024 :=
                    Some \<bar>extraer_numeros_de_linea l ! (length (extraer_numeros_de_linea l) - 2)\<bar>,
                  datos_m002.patrimonio_2023 :=
                    Some \<bar>extraer_numeros_de_linea l ! (length (extraer_numeros_de_linea l) - 1)\<bar> \<rparr>
          else d)"
  by (simp add: buscar_patrimonio_def candidato_patrimonio_def Let_def indice_penultimo
      indice_ultimo)

lemma candidato_no_cero:
  "candidato_utilidad l \<noteq> None \<Longrightarrow>
     \<bar>extraer_numeros_de_linea l ! (length (extraer_numeros_de_linea l) - 2)\<bar> \<noteq> 0"
  "candidato_patrimonio l \<noteq> None \<Longrightarrow>
     \<bar>extraer_numeros_de_linea l ! (length (extraer_numeros_de_linea l) - 2)\<bar> \<noteq> 0"
proof -
  have "\<bar>extraer_numeros_de_linea l ! (length (extraer_numeros_de_linea l) - 2)\<bar> \<noteq> 0"
    if "2 \<le> length (extraer_numeros_de_linea l)"
    using numeros_cola(1) [OF that] by linarith
  then show "candidato_utilidad l \<noteq> None \<Longrightarrow>
     \<bar>extraer_numeros_de_linea l ! (length (extraer_numeros_de_linea l) - 2)\<bar> \<noteq> 0"
    "candidato_patrimonio l \<noteq> None \<Longrightarrow>
     \<bar>extraer_numeros_de_linea l ! (length (extraer_numeros_de_linea l) - 2)\<bar> \<noteq> 0"
    by (simp_all add: candidato_utilidad_def candidato_patrimonio_def Let_def split: if_splits)
qed

lemma mismo_par_partes:
  assumes "mismo_par d e"
  shows "verdadero (datos_m002.utilidad_neta_2024 e) = verdadero (datos_m002.utilidad_neta_2024 d)"
    and "verdadero (datos_m002.patrimonio_2024 e) = verdadero (datos_m002.patrimonio_2024 d)"
    and "verdadero (datos_m002.utilidad_neta_2024 d) \<Longrightarrow>
           datos_m002.utilidad_neta_2024 e = datos_m002.utilidad_neta_2024 d
           \<and> datos_m002.utilidad_neta_2023 e = datos_m002.utilidad_neta_2023 d
           \<and> datos_m002.pagina_encontrada e = datos_m002.pagina_encontrada d"
    and "verdadero (datos_m002.patrimonio_2024 d) \<Longrightarrow>
           datos_m002.patrimonio_2024 e = datos_m002.patrimonio_2024 d
           \<and> datos_m002.patrimonio_2023 e = datos_m002.patrimonio_2023 d"
  using assms unfolding mismo_par_def by metis+

lemma mismo_parI:
  assumes "verdadero (datos_m002.utilidad_neta_2024 e) = verdadero (datos_m002.utilidad_neta_2024 d)"
    and "verdadero (datos_m002.patrimonio_2024 e) = verdadero (datos_m002.patrimonio_2024 d)"
    and "verdadero (datos_m002.utilidad_neta_2024 d) \<Longrightarrow>
           datos_m002.utilidad_neta_2024 e = datos_m002.utilidad_neta_2024 d
           \<and> datos_m002.utilidad_neta_2023 e = datos_m002.utilidad_neta_2023 d
           \<and> datos_m002.pagina_encontrada e = datos_m002.pagina_encontrada d"
    and "verdadero (datos_m002.patrimonio_2024 d) \<Longrightarrow>
           datos_m002.patrimonio_2024 e = datos_m002.patrimonio_2024 d
           \<and> datos_m002.patrimonio_2023 e = datos_m002.patrimonio_2023 d"
  shows "mismo_par d e"
  unfolding mismo_par_def using assms by metis

lemma buscar_utilidad_neta_mismo:
  assumes "mismo_par d e"
  shows "\<exists>d' e'. buscar_utilidad_neta n l d = Inr d' \<and> buscar_utilidad_neta n l e = Inr e'
           \<and> mismo_par d' e'"
proof (cases "candidato_utilidad l \<noteq> None \<and> \<not> verdadero (datos_m002.utilidad_neta_2024 d)")
  case True
  note p = mismo_par_partes [OF assms]
  let ?a = "\<bar>extraer_numeros_de_linea l ! (length (extraer_numeros_de_linea l) - 2)\<bar>"
  let ?b = "\<bar>extraer_numeros_de_linea l ! (length (extraer_numeros_de_linea l) - 1)\<bar>"
  let ?d = "d\<lparr> datos_m002.utilidad_neta_2024 := Some ?a,
                datos_m002.utilidad_neta_2023 := Some ?b,
                datos_m002.pagina_encontrada := Some n \<rparr>"
  let ?e = "e\<lparr> datos_m002.utilidad_neta_2024 := Some ?a,
                datos_m002.utilidad_neta_2023 := Some ?b,
                datos_m002.pagina_encontrada := Some n \<rparr>"
  from True have 1: "buscar_utilidad_neta n l d = Inr ?d"
    by (simp add: buscar_utilidad_neta_eq)
  from True p(1) have 2: "buscar_utilidad_neta n l e = Inr ?e"
    by (simp add: buscar_utilidad_neta_eq)
  have "mismo_par ?d ?e"
  proof (rule mismo_parI)
    show "verdadero (datos_m002.utilidad_neta_2024 ?e) = verdadero (datos_m002.utilidad_neta_2024 ?d)"
      by simp
    show "verdadero (datos_m002.patrimonio_2024 ?e) = verdadero (datos_m002.patrimonio_2024 ?d)"
      using p(2) by simp
    show "datos_m002.utilidad_neta_2024 ?e = datos_m002.utilidad_neta_2024 ?d
           \<and> datos_m002.utilidad_neta_2023 ?e = datos_m002.utilidad_neta_2023 ?d
           \<and> datos_m002.pagina_encontrada ?e = datos_m002.pagina_encontrada ?d"
      by simp
    assume "verdadero (datos_m002.patrimonio_2024 ?d)"
    then have "verdadero (datos_m002.patrimonio_2024 d)" by simp
    from p(4) [OF this]
    show "datos_m002.patrimonio_2024 ?e = datos_m002.patrimonio_2024 ?d
           \<and> datos_m002.patrimonio_2023 ?e = datos_m002.patrimonio_2023 ?d"
      by simp
  qed
  with 1 2 show ?thesis by blast
next
  case False
  note p = mismo_par_partes [OF assms]
  from False have "(candidato_utilidad l \<noteq> None
      \<and> \<not> verdadero (datos_m002.utilidad_neta_2024 d)) = False" by blast
  then have 1: "buscar_utilidad_neta n l d = Inr d"
    by (simp only: buscar_utilidad_neta_eq if_False)
  from False p(1) have "(candidato_utilidad l \<noteq> None
      \<and> \<not> verdadero (datos_m002.utilidad_neta_2024 e)) = False" by blast
  then have 2: "buscar_utilidad_neta n l e = Inr e"
    by (simp only: buscar_utilidad_neta_eq if_False)
  from 1 2 assms show ?thesis by blast
qed

lemma buscar_patrimonio_mismo:
  assumes "mismo_par d e"
  shows "\<exists>d' e'. buscar_patrimonio l d = Inr d' \<and> buscar_patrimonio l e = Inr e'
           \<and> mismo_par d' e'"
proof (cases "candidato_patrimonio l \<noteq> None \<and> \<not> verdadero (datos_m002.patrimonio_2024 d)")
  case True
  note p = mismo_par_partes [OF assms]
  let ?a = "\<bar>extraer_numeros_de_linea l ! (length (extraer_numeros_de_linea l) - 2)\<bar>"
  let ?b = "\<bar>extraer_numeros_de_linea l ! (length (extraer_numeros_de_linea l) - 1)\<bar>"
  let ?d = "d\<lparr> datos_m002.patrimonio_2024 := Some ?a, datos_m002.patrimonio_2023 := Some ?b \<rparr>"
  let ?e = "e\<lparr> datos_m002.patrimonio_2024 := Some ?a, datos_m002.patrimonio_2023 := Some ?b \<rparr>"
  from True have 1: "buscar_patrimonio l d = Inr ?d"
    by (simp add: buscar_patrimonio_eq)
  from True p(2) have 2: "buscar_patrimonio l e = Inr ?e"
    by (simp add: buscar_patrimonio_eq)
  have "mismo_par ?d ?e"
  proof (rule mismo_parI)
    show "verdadero (datos_m002.utilidad_neta_2024 ?e) = verdadero (datos_m002.utilidad_neta_2024 ?d)"
      using p(1) by simp
    show "verdadero (datos_m002.patrimonio_2024 ?e) = verdadero (datos_m002.patrimonio_2024 ?d)"
      by simp
    show "datos_m002.patrimonio_2024 ?e = datos_m002.patrimonio_2024 ?d
           \<and> datos_m002.patrimonio_2023 ?e = datos_m002.patrimonio_2023 ?d"
      by simp
    assume "verdadero (datos_m002.utilidad_neta_2024 ?d)"
    then have "verdadero (datos_m002.utilidad_neta_2024 d)" by simp
    from p(3) [OF this]
    show "datos_m002.utilidad_neta_2024 ?e = datos_m002.utilidad_neta_2024 ?d
           \<and> datos_m002.utilidad_neta_2023 ?e = datos_m002.utilidad_neta_2023 ?d
           \<and> datos_m002.pagina_encontrada ?e = datos_m002.pagina_encontrada ?d"
      by simp
  qed
  with 1 2 show ?thesis by blast
next
  case False
  note p = mismo_par_partes [OF assms]
  from False have "(candidato_patrimonio l \<noteq> None
      \<and> \<not> verdadero (datos_m002.patrimonio_2024 d)) = False" by blast
  then have 1: "buscar_patrimonio l d = Inr d"
    by (simp only: buscar_patrimonio_eq if_False)
  from False p(2) have "(candidato_patrimonio l \<noteq> None
      \<and> \<not> verdadero (datos_m002.patrimonio_2024 e)) = False" by blast
  then have 2: "buscar_patrimonio l e = Inr e"
    by (simp only: buscar_patrimonio_eq if_False)
  from 1 2 assms show ?thesis by blast
qed

lemma validar_y_salir_mismo:
  assumes "mismo_par d e"
  shows "mismo_resultado (validar_y_salir ahora d) (validar_y_salir ahora e)"
proof (cases "verdadero (datos_m002.utilidad_neta_2024 d)
              \<and> verdadero (datos_m002.patrimonio_2024 d)")
  case False
  note q = mismo_par_partes(1,2) [OF assms]
  from False have "validar_y_salir ahora d = Inr (Inr d)"
    by (auto simp: validar_y_salir_def)
  moreover from False q have "validar_y_salir ahora e = Inr (Inr e)"
    by (auto simp: validar_y_salir_def)
  ultimately show ?thesis using assms by (simp add: mismo_resultado_def)
next
  case True
  note q = mismo_par_partes [OF assms]
  from True q(3) q(4) have eq: "datos_m002.utilidad_neta_2024 e = datos_m002.utilidad_neta_2024 d"
    "datos_m002.utilidad_neta_2023 e = datos_m002.utilidad_neta_2023 d"
    "datos_m002.pagina_encontrada e = datos_m002.pagina_encontrada d"
    "datos_m002.patrimonio_2024 e = datos_m002.patrimonio_2024 d"
    "datos_m002.patrimonio_2023 e = datos_m002.patrimonio_2023 d"
    by simp_all
  from True obtain u p where u: "datos_m002.utilidad_neta_2024 d = Some u" "u \<noteq> 0"
    and p: "datos_m002.patrimonio_2024 d = Some p" "p \<noteq> 0"
    by (cases "datos_m002.utilidad_neta_2024 d"; cases "datos_m002.patrimonio_2024 d") auto
  show ?thesis
  proof (cases "- 0.10 < u / p \<and> u / p < 0.30")
    case True
    with u p eq have "validar_y_salir ahora e = validar_y_salir ahora d"
      by (simp add: validar_y_salir_def truediv_def)
    then show ?thesis by (simp add: mismo_resultado_refl)
  next
    case False
    with u p eq have "validar_y_salir ahora d = Inr (Inr (d\<lparr> datos_m002.utilidad_neta_2024 := None,
        datos_m002.patrimonio_2024 := None \<rparr>))"
      "validar_y_salir ahora e = Inr (Inr (e\<lparr> datos_m002.utilidad_neta_2024 := None,
        datos_m002.patrimonio_2024 := None \<rparr>))"
      by (auto simp: validar_y_salir_def truediv_def)
    moreover have "mismo_par
        (d\<lparr> datos_m002.utilidad_neta_2024 := None, datos_m002.patrimonio_2024 := None \<rparr>)
        (e\<lparr> datos_m002.utilidad_neta_2024 := None, datos_m002.patrimonio_2024 := None \<rparr>)"
      by (rule mismo_parI) simp_all
    ultimately show ?thesis by (simp add: mismo_resultado_def)
  qed
qed

lemma procesar_linea_mismo:
  assumes "mismo_par d e"
  shows "mismo_resultado (procesar_linea ahora n l d) (procesar_linea ahora n l e)"
proof -
  from buscar_utilidad_neta_mismo [OF assms, of n l] obtain d1 e1
    where 1: "buscar_utilidad_neta n l d = Inr d1" "buscar_utilidad_neta n l e = Inr e1"
      "mismo_par d1 e1" by blast
  from buscar_patrimonio_mismo [OF 1(3), of l] obtain d2 e2
    where 2: "buscar_patrimonio l d1 = Inr d2" "buscar_patrimonio l e1 = Inr e2"
      "mismo_par d2 e2" by blast
  from validar_y_salir_mismo [OF 2(3), of ahora] 1(1,2) 2(1,2)
  show ?thesis by (simp add: procesar_linea_def)
qed

lemma scan_numeradas_mismo:
  "mismo_par d e \<Longrightarrow> scan_numeradas ahora ls d = scan_numeradas ahora ls e"
proof (induction ls arbitrary: d e)
  case Nil
  show ?case by simp
next
  case (Cons kl ls)
  obtain k l where kl: "kl = (k, l)" by (cases kl)
  from procesar_linea_mismo [OF Cons.prems, of ahora k l]
  show ?case unfolding kl
    by (cases "procesar_linea ahora k l d"; cases "procesar_linea ahora k l e")
      (auto simp: mismo_resultado_def split: sum.splits dest: Cons.IH)
qed

lemma extraer_metrica_m002_numeradas:
  "extraer_metrica_m002 archivos ahora ruta =
     (case archivos ruta of
        None \<Rightarrow> Inr None
      | Some paginas \<Rightarrow> scan_numeradas ahora (lineas_numeradas 1 paginas) datos_iniciales)"
  by (simp add: extraer_metrica_m002_def scan_paginas_numeradas split: option.splits)

lemma descarta_y_sigue:
  assumes "buscar_utilidad_neta n l d = Inr d1" and "buscar_patrimonio l d1 = Inr d2"
    and "datos_m002.utilidad_neta_2024 d2 = Some u" and "datos_m002.patrimonio_2024 d2 = Some p"
    and "u \<noteq> 0" and "p \<noteq> 0" and "\<not> roe_plausible (u / p)"
  shows "procesar_linea ahora n l d
           = Inr (Inr (d2\<lparr> datos_m002.utilidad_neta_2024 := None,
                           datos_m002.patrimonio_2024 := None \<rparr>))"
    and "scan_numeradas ahora ((n, l) # ls) d = scan_numeradas ahora ls datos_iniciales"
proof -
  from assms(3-7) have "validar_y_salir ahora d2
      = Inr (Inr (d2\<lparr> datos_m002.utilidad_neta_2024 := None,
                      datos_m002.patrimonio_2024 := None \<rparr>))"
    by (auto simp: validar_y_salir_def truediv_def roe_plausible_def)
  with assms(1,2) show 1: "procesar_linea ahora n l d
           = Inr (Inr (d2\<lparr> datos_m002.utilidad_neta_2024 := None,
                           datos_m002.patrimonio_2024 := None \<rparr>))"
    by (simp add: procesar_linea_def)
  have "scan_numeradas ahora ((n, l) # ls) d
      = scan_numeradas ahora ls (d2\<lparr> datos_m002.utilidad_neta_2024 := None,
                                      datos_m002.patrimonio_2024 := None \<rparr>)"
    by (simp add: 1)
  also have "\<dots> = scan_numeradas ahora ls datos_iniciales"
    by (rule scan_numeradas_mismo) (rule mismo_par_reinicio)
  finally show "scan_numeradas ahora ((n, l) # ls) d = scan_numeradas ahora ls datos_iniciales" .
qed

lemma huecos_resultado:
  "extraer_metrica_m002 (\<lambda>_. Some documento_con_huecos) ahora ruta
   = Inr (Some (nueva_MetricaM002 2900 2500 10000 1001 (5800 / 11001) (2500 / 1001)
        ''EXCELENTE'' (Some 4) ahora))"
proof -
  have f: "(4::nat) = Suc (Suc (Suc (Suc 0)))" by simp
  show ?thesis
    unfolding f
    by (simp add: extraer_metrica_m002_def documento_con_huecos_def datos_iniciales_def
        evaluar_m002 evaluar_desempeno_def)
qed

text \<open>
  Claim C7. The extractor of M002 never raises, and a metric it returns has passed the
  plausibility check, so an implausible match is never returned. The scan is one pass over
  the lines of the pages that have text, in reading order, each line with the number of
  its page: a page without text is passed over and the scan goes on. A line that completes
  a pair of values failing the check returns nothing; both values are forgotten, and the
  result of the scan is that of a scan of the lines and pages that follow, started afresh.
  When the file is missing, or no net income line and equity line of the document make a
  plausible pair, the result is \<open>None\<close>. In the document \<open>documento_con_huecos\<close> the
  first page holds an implausible pair, the second has no text, the third an empty text,
  and the metric comes from the fourth.
\<close>

theorem extraer_metrica_m002_sigue_buscando:
  "(\<exists>r. extraer_metrica_m002 archivos ahora ruta = Inr r)
   \<and> (\<forall>m. extraer_metrica_m002 archivos ahora ruta = Inr (Some m) \<longrightarrow>
         roe_plausible (MetricaM002.utilidad_neta_2024 m / MetricaM002.patrimonio_2024 m))
   \<and> extraer_metrica_m002 archivos ahora ruta =
        (case archivos ruta of
           None \<Rightarrow> Inr None
         | Some paginas \<Rightarrow> scan_numeradas ahora (lineas_numeradas 1 paginas) datos_iniciales)
   \<and> (\<forall>n l ls d d1 d2 u p.
         buscar_utilidad_neta n l d = Inr d1 \<and> buscar_patrimonio l d1 = Inr d2
         \<and> datos_m002.utilidad_neta_2024 d2 = Some u \<and> datos_m002.patrimonio_2024 d2 = Some p
         \<and> u \<noteq> 0 \<and> p \<noteq> 0 \<and> \<not> roe_plausible (u / p) \<longrightarrow>
         procesar_linea ahora n l d
           = Inr (Inr (d2\<lparr> datos_m002.utilidad_neta_2024 := None,
                           datos_m002.patrimonio_2024 := None \<rparr>))
         \<and> scan_numeradas ahora ((n, l) # ls) d = scan_numeradas ahora ls datos_iniciales)
   \<and> (\<forall>paginas. archivos ruta = Some paginas
         \<and> \<not> hay_par_plausible (lineas_documento paginas) \<longrightarrow>
         extraer_metrica_m002 archivos ahora ruta = Inr None)
   \<and> extraer_metrica_m002 (\<lambda>_. Some documento_con_huecos) ahora ruta
       = Inr (Some (nueva_MetricaM002 2900 2500 10000 1001 (5800 / 11001) (2500 / 1001)
            ''EXCELENTE'' (Some 4) ahora))"
proof -
  note ok = extraer_metrica_m002_ok [of archivos ahora ruta]
  have a: "\<exists>r. extraer_metrica_m002 archivos ahora ruta = Inr r"
    using ok by auto
  have b: "\<forall>m. extraer_metrica_m002 archivos ahora ruta = Inr (Some m) \<longrightarrow>
         roe_plausible (MetricaM002.utilidad_neta_2024 m / MetricaM002.patrimonio_2024 m)"
    using ok by (auto simp: metrica_ok_def)
  have c: "extraer_metrica_m002 archivos ahora ruta =
        (case archivos ruta of
           None \<Rightarrow> Inr None
         | Some paginas \<Rightarrow> scan_numeradas ahora (lineas_numeradas 1 paginas) datos_iniciales)"
    by (rule extraer_metrica_m002_numeradas)
  have d: "\<forall>n l ls d d1 d2 u p.
         buscar_utilidad_neta n l d = Inr d1 \<and> buscar_patrimonio l d1 = Inr d2
         \<and> datos_m002.utilidad_neta_2024 d2 = Some u \<and> datos_m002.patrimonio_2024 d2 = Some p
         \<and> u \<noteq> 0 \<and> p \<noteq> 0 \<and> \<not> roe_plausible (u / p) \<longrightarrow>
         procesar_linea ahora n l d
           = Inr (Inr (d2\<lparr> datos_m002.utilidad_neta_2024 := None,
                           datos_m002.patrimonio_2024 := None \<rparr>))
         \<and> scan_numeradas ahora ((n, l) # ls) d = scan_numeradas ahora ls datos_iniciales"
    by (intro allI impI conjI; elim conjE) (rule descarta_y_sigue; assumption)+
  have g: "\<forall>paginas. archivos ruta = Some paginas
         \<and> \<not> hay_par_plausible (lineas_documento paginas) \<longrightarrow>
         extraer_metrica_m002 archivos ahora ruta = Inr None"
    using ok by (auto dest: metrica_ok_par)
  from a b c d g huecos_resultado [of ahora ruta] show ?thesis by (intro conjI)
qed

theorem extraer_metrica_m002_sigue_buscando_ejemplo:
  "extraer_metrica_m002 (\<lambda>_. Some documento_con_huecos) ''2025-01-01 00:00:00'' ''informe.pdf''
     = Inr (Some (nueva_MetricaM002 2900 2500 10000 1001 (5800 / 11001) (2500 / 1001)
          ''EXCELENTE'' (Some 4) ''2025-01-01 00:00:00''))
   \<and> roe_plausible (2900 / 10000)
   \<and> \<not> roe_plausible (9000 / 10000)
   \<and> scan_numeradas ''2025-01-01 00:00:00''
        [(1, ''Total patrimonio 10,000 9,000''),
         (4, ''Utilidad neta del periodo 2,900 2,500''),
         (4, ''TOTAL PATRIMONIO (10,000) 1,001'')]
        (datos_iniciales\<lparr> datos_m002.utilidad_neta_2024 := Some 9000,
                           datos_m002.utilidad_neta_2023 := Some 8000,
                           datos_m002.pagina_encontrada := Some 1 \<rparr>)
     = Inr (Some (nueva_MetricaM002 2900 2500 10000 1001 (5800 / 11001) (2500 / 1001)
          ''EXCELENTE'' (Some 4) ''2025-01-01 00:00:00''))
   \<and> \<not> hay_par_plausible (lineas_documento documento_sin_par)
   \<and> extraer_metrica_m002 (\<lambda>_. Some documento_sin_par) ''2025-01-01 00:00:00'' ''informe.pdf''
     = Inr None
   \<and> extraer_metrica_m002 (\<lambda>_. None) ''2025-01-01 00:00:00'' ''informe.pdf'' = Inr None"
proof -
  let ?T = "''2025-01-01 00:00:00''" and ?R = "''informe.pdf''"
  let ?m = "nueva_MetricaM002 2900 2500 10000 1001 (5800 / 11001) (2500 / 1001)
          ''EXCELENTE'' (Some 4) ?T"
  note h = extraer_metrica_m002_sigue_buscando [of "\<lambda>_. Some documento_con_huecos" ?T ?R]
  have w1: "extraer_metrica_m002 (\<lambda>_. Some documento_con_huecos) ?T ?R = Inr (Some ?m)"
    by (rule h [THEN conjunct2, THEN conjunct2, THEN conjunct2, THEN conjunct2, THEN conjunct2])
  from h [THEN conjunct2, THEN conjunct1, rule_format, OF w1]
  have w2: "roe_plausible (2900 / 10000)" by (simp add: nueva_MetricaM002_def)
  have w3: "\<not> roe_plausible (9000 / 10000)" by (simp add: roe_plausible_def)
  let ?l = "''Total patrimonio 10,000 9,000''"
  let ?d = "datos_iniciales\<lparr> datos_m002.utilidad_neta_2024 := Some 9000,
                           datos_m002.utilidad_neta_2023 := Some 8000,
                           datos_m002.pagina_encontrada := Some 1 \<rparr>"
  let ?d2 = "?d\<lparr> datos_m002.patrimonio_2024 := Some 10000,
                   datos_m002.patrimonio_2023 := Some 9000 \<rparr>"
  let ?ls = "[(4, ''Utilidad neta del periodo 2,900 2,500''),
              (4, ''TOTAL PATRIMONIO (10,000) 1,001'')]"
  have e1: "buscar_utilidad_neta 1 ?l ?d = Inr ?d"
    by (simp add: datos_iniciales_def evaluar_m002)
  have e2: "buscar_patrimonio ?l ?d = Inr ?d2"
    by (simp add: datos_iniciales_def evaluar_m002)
  have e3: "datos_m002.utilidad_neta_2024 ?d2 = Some 9000"
    "datos_m002.patrimonio_2024 ?d2 = Some 10000" by simp_all
  have hip: "buscar_utilidad_neta 1 ?l ?d = Inr ?d \<and> buscar_patrimonio ?l ?d = Inr ?d2
         \<and> datos_m002.utilidad_neta_2024 ?d2 = Some 9000
         \<and> datos_m002.patrimonio_2024 ?d2 = Some 10000
         \<and> (9000::real) \<noteq> 0 \<and> (10000::real) \<noteq> 0 \<and> \<not> roe_plausible (9000 / 10000)"
    using e1 e2 e3 w3 by (intro conjI) simp_all
  from h [THEN conjunct2, THEN conjunct2, THEN conjunct2, THEN conjunct1, rule_format,
      of 1 ?l ?d ?d ?d2 9000 10000 ?ls, OF hip]
  have sigue: "scan_numeradas ?T ((1, ?l) # ?ls) ?d = scan_numeradas ?T ?ls datos_iniciales"
    by (rule conjunct2)
  have f: "(4::nat) = Suc (Suc (Suc (Suc 0)))" by simp
  have fresco: "scan_numeradas ?T ?ls datos_iniciales = Inr (Some ?m)"
    unfolding f by (simp add: datos_iniciales_def evaluar_m002 evaluar_desempeno_def)
  from sigue fresco have w4: "scan_numeradas ?T ((1, ?l) # ?ls) ?d = Inr (Some ?m)" by simp
  note s = extraer_metrica_m002_sigue_buscando [of "\<lambda>_. Some documento_sin_par" ?T ?R]
  have w5: "\<not> hay_par_plausible (lineas_documento documento_sin_par)"
    by (rule sin_par_plausible)
  have "(\<lambda>_. Some documento_sin_par) ?R = Some documento_sin_par
      \<and> \<not> hay_par_plausible (lineas_documento documento_sin_par)"
    using w5 by simp
  from s [THEN conjunct2, THEN conjunct2, THEN conjunct2, THEN conjunct2, THEN conjunct1,
      rule_format, OF this]
  have w6: "extraer_metrica_m002 (\<lambda>_. Some documento_sin_par) ?T ?R = Inr None" .
  from extraer_metrica_m002_sigue_buscando [of "\<lambda>_. None" ?T ?R,
      THEN conjunct2, THEN conjunct2, THEN conjunct1]
  have w7: "extraer_metrica_m002 (\<lambda>_. None) ?T ?R = Inr None" by simp
  from w1 w2 w3 w4 w5 w6 w7 show ?thesis by (intro conjI)
qed

text \<open>
  Claim C10. In a metric of M002 the ROE of 2024 is the net income of 2024 over the mean of
  the equity of 2024 and of 2023, the ROE of 2023 is the net income of 2023 over the equity
  of 2023 alone, and the plausibility check has been passed by the net income of 2024 over
  the equity of 2024, not by the stored ROE of 2024: the example document is accepted with a
  stored ROE of 2024 above 30 percent.
\<close>

theorem roe_denominadores_distintos:
  "(\<forall>m. extraer_metrica_m002 archivos ahora ruta = Inr (Some m) \<longrightarrow>
        MetricaM002.roe_2024 m = MetricaM002.utilidad_neta_2024 m
            / ((MetricaM002.patrimonio_2024 m + MetricaM002.patrimonio_2023 m) / 2)
      \<and> MetricaM002.roe_2023 m
            = MetricaM002.utilidad_neta_2023 m / MetricaM002.patrimonio_2023 m
      \<and> - 0.10 < MetricaM002.utilidad_neta_2024 m / MetricaM002.patrimonio_2024 m
      \<and> MetricaM002.utilidad_neta_2024 m / MetricaM002.patrimonio_2024 m < 0.30)
   \<and> (\<exists>m. extraer_metrica_m002 (\<lambda>_. Some documento_ejemplo) ahora ruta = Inr (Some m)
        \<and> \<not> MetricaM002.roe_2024 m < 0.30)"
proof -
  have "\<forall>m. extraer_metrica_m002 archivos ahora ruta = Inr (Some m) \<longrightarrow>
        MetricaM002.roe_2024 m = MetricaM002.utilidad_neta_2024 m
            / ((MetricaM002.patrimonio_2024 m + MetricaM002.patrimonio_2023 m) / 2)
      \<and> MetricaM002.roe_2023 m
            = MetricaM002.utilidad_neta_2023 m / MetricaM002.patrimonio_2023 m
      \<and> - 0.10 < MetricaM002.utilidad_neta_2024 m / MetricaM002.patrimonio_2024 m
      \<and> MetricaM002.utilidad_neta_2024 m / MetricaM002.patrimonio_2024 m < 0.30"
    using extraer_metrica_m002_ok [of archivos ahora ruta]
    by (auto simp: metrica_ok_def roe_plausible_def)
  moreover have "\<exists>m. extraer_metrica_m002 (\<lambda>_. Some documento_ejemplo) ahora ruta = Inr (Some m)
        \<and> \<not> MetricaM002.roe_2024 m < 0.30"
    by (simp add: ejemplo_resultado nueva_MetricaM002_def)
  ultimately show ?thesis by blast
qed

theorem roe_denominadores_distintos_ejemplo:
  "extraer_metrica_m002 (\<lambda>_. Some documento_ejemplo) ''2025-01-01 00:00:00'' ''informe.pdf''
     = Inr (Some (nueva_MetricaM002 2900 2500 10000 1001 (5800 / 11001) (2500 / 1001)
          ''EXCELENTE'' (Some 3) ''2025-01-01 00:00:00''))
   \<and> (5800 / 11001 :: real) = 2900 / ((10000 + 1001) / 2)
   \<and> - 0.10 < (2900 / 10000 :: real) \<and> (2900 / 10000 :: real) < 0.30
   \<and> \<not> (5800 / 11001 :: real) < 0.30"
  using roe_denominadores_distintos
      [of "\<lambda>_. Some documento_ejemplo" "''2025-01-01 00:00:00''" "''informe.pdf''"]
    ejemplo_resultado [of "''2025-01-01 00:00:00''" "''informe.pdf''"]
  by (simp add: nueva_MetricaM002_def)

section \<open>Properties of the extractors of M001, M003, M004 and M005\<close>

lemma bind_exn_Inr_iff: "(bind_exn m f = Inr y) = (\<exists>x. m = Inr x \<and> f x = Inr y)"
  by (cases m) auto

lemma bind_exn_InrE:
  assumes "bind_exn m f = Inr y"
  obtains x where "m = Inr x" "f x = Inr y"
  using assms by (cases m) auto

lemma numero_Inr_iff: "(numero v = Inr x) = (v = Some x)"
  by (cases v) auto

lemma formatear_Inr_iff: "(formatear v = Inr u) = (v \<noteq> None)"
  by (cases v) (auto simp: formatear_def)

lemma truediv_Inr_iff: "(truediv a b = Inr q) = (b \<noteq> 0 \<and> q = a / b)"
  by (auto simp: truediv_def)

lemma extraer_metrica_m001_exito:
  assumes "extraer_metrica_m001 P ahora ruta = Inr (Some m)"
  obtains p24 p23 c24 c23 pagina where
    "m = nueva_MetricaM001 p24 p23 c24 c23 (p24 / c24) (p23 / c23)
           (evaluar_nivel_riesgo (p24 / c24)) pagina ahora"
    "p24 \<noteq> 0" "c24 \<noteq> 0" "c23 \<noteq> 0"
  using assms unfolding extraer_metrica_m001_def
  by (auto elim!: bind_exn_InrE simp: numero_Inr_iff truediv_Inr_iff
      split: option.splits if_splits)

lemma extraer_metrica_m003_exito:
  assumes "extraer_metrica_m003 P ahora ruta = Inr (Some m)"
  obtains p24 p23 ct24 ct23 cov24 cov23 cv24 cv23 pagina where
    "m = nueva_MetricaM003 cv24 cv23 ct24 ct23 (cv24 / ct24) (cv23 / ct23)
           (evaluar_calidad_cartera (cv24 / ct24))
           p24 p23 cov24 cov23 pagina ahora"
    "calcular_cartera_vencida_desde_cobertura P p24 cov24 = Inr cv24"
    "calcular_cartera_vencida_desde_cobertura P p23 cov23 = Inr cv23"
    "p24 \<noteq> 0" "cov24 \<noteq> 0" "ct24 \<noteq> 0" "ct23 \<noteq> 0"
  using assms unfolding extraer_metrica_m003_def
  by (auto elim!: bind_exn_InrE simp: numero_Inr_iff truediv_Inr_iff formatear_Inr_iff
      split: option.splits if_splits)

lemma extraer_metrica_m004_exito:
  assumes "extraer_metrica_m004 P ahora ruta = Inr (Some m)"
  obtains cov24 cov23 pagina where
    "m = nueva_MetricaM004 cov24 cov23 (evaluar_nivel_cobertura cov24) pagina ahora"
    "cov24 \<noteq> 0"
  using assms unfolding extraer_metrica_m004_def
  by (auto elim!: bind_exn_InrE simp: numero_Inr_iff formatear_Inr_iff
      split: option.splits if_splits)

lemma ratio_riesgosa_Inr:
  assumes "ratio_riesgosa datos a = Inr q"
  obtains c d e t where "map_of datos (''c_'' @ a) = Some (Some c)"
    "map_of datos (''d_'' @ a) = Some (Some d)" "map_of datos (''e_'' @ a) = Some (Some e)"
    "map_of datos (''total_'' @ a) = Some (Some t)" "t \<noteq> 0" "q = (c + d + e) / t"
  using assms unfolding ratio_riesgosa_def clave_def
  by (auto elim!: bind_exn_InrE simp: numero_Inr_iff truediv_Inr_iff split: option.splits)

lemma extraer_metrica_m005_exito:
  assumes "extraer_metrica_m005 P ahora ruta = Inr (Some m)"
  obtains a24 b24 c24 d24 e24 t24 a23 b23 c23 d23 e23 t23 pagina where
    "m = nueva_MetricaM005 a24 b24 c24 d24 e24 t24 a23 b23 c23 d23 e23 t23
           ((c24 + d24 + e24) / t24) ((c23 + d23 + e23) / t23)
           (evaluar_nivel_riesgo_m005 ((c24 + d24 + e24) / t24)) pagina ahora"
    "a24 \<noteq> 0" "t24 \<noteq> 0" "t23 \<noteq> 0"
proof -
  from assms obtain datos r24 r23 where
    r24: "ratio_riesgosa datos ''2024'' = Inr r24" and r23: "ratio_riesgosa datos ''2023'' = Inr r23"
    and a: "verdadero (clave_get datos ''a_2024'')"
    and rest: "bind_exn (clave datos ''a_2024'') (\<lambda>a24.
             bind_exn (numero a24) (\<lambda>a_2024.
             bind_exn (clave datos ''b_2024'') (\<lambda>b_2024.
             bind_exn (clave datos ''c_2024'') (\<lambda>c24.
             bind_exn (numero c24) (\<lambda>c_2024.
             bind_exn (clave datos ''d_2024'') (\<lambda>d24.
             bind_exn (numero d24) (\<lambda>d_2024.
             bind_exn (clave datos ''e_2024'') (\<lambda>e24.
             bind_exn (numero e24) (\<lambda>e_2024.
             bind_exn (clave datos ''total_2024'') (\<lambda>t24.
             bind_exn (numero t24) (\<lambda>total_2024.
             bind_exn (clave datos ''a_2023'') (\<lambda>a_2023.
             bind_exn (clave datos ''b_2023'') (\<lambda>b_2023.
             bind_exn (clave datos ''c_2023'') (\<lambda>c23.
             bind_exn (numero c23) (\<lambda>c_2023.
             bind_exn (clave datos ''d_2023'') (\<lambda>d23.
             bind_exn (numero d23) (\<lambda>d_2023.
             bind_exn (clave datos ''e_2023'') (\<lambda>e23.
             bind_exn (numero e23) (\<lambda>e_2023.
             bind_exn (clave datos ''total_2023'') (\<lambda>t23.
             bind_exn (numero t23) (\<lambda>total_2023.
               Inr (Some (nueva_MetricaM005 a_2024 b_2024 c_2024 d_2024 e_2024 total_2024
                   a_2023 b_2023 c_2023 d_2023 e_2023 total_2023 r24 r23
                   (evaluar_nivel_riesgo_m005 r24)
                   (case map_of datos ''pagina_encontrada'' of None \<Rightarrow> Some 0 | Some v \<Rightarrow> v)
                   ahora))))))))))))))))))))))) = Inr (Some m)"
    unfolding extraer_metrica_m005_def
    by (auto elim!: bind_exn_InrE split: option.splits if_splits)
  obtain c d e t where
    k24: "map_of datos ''c_2024'' = Some (Some c)" "map_of datos ''d_2024'' = Some (Some d)"
      "map_of datos ''e_2024'' = Some (Some e)" "map_of datos ''total_2024'' = Some (Some t)"
      "t \<noteq> 0" "r24 = (c + d + e) / t"
    by (rule ratio_riesgosa_Inr [OF r24]) auto
  obtain c' d' e' t' where
    k23: "map_of datos ''c_2023'' = Some (Some c')" "map_of datos ''d_2023'' = Some (Some d')"
      "map_of datos ''e_2023'' = Some (Some e')" "map_of datos ''total_2023'' = Some (Some t')"
      "t' \<noteq> 0" "r23 = (c' + d' + e') / t'"
    by (rule ratio_riesgosa_Inr [OF r23]) auto
  from a obtain a24 where ka: "map_of datos ''a_2024'' = Some (Some a24)" "a24 \<noteq> 0"
    by (cases "map_of datos ''a_2024''"; cases "clave_get datos ''a_2024''")
      (auto simp: clave_get_def)
  from rest k24 k23 ka show ?thesis
    by (auto simp: clave_def elim!: bind_exn_InrE split: option.splits intro: that)
qed

section \<open>Year-over-year change and the derived overdue portfolio\<close>

lemmas evaluar_extractores =
  clave_def clave_get_def formatear_def truediv_def calcular_cartera_vencida_def

lemma ejemplo_m001:
  "extraer_metrica_m001 parsers_ejemplo ahora ruta
   = Inr (Some (nueva_MetricaM001 1000 900 20000 18000 (1 / 20) (1 / 20) ''MEDIO''
        (Some 12) ahora))"
  by (simp add: extraer_metrica_m001_def parsers_ejemplo_def evaluar_extractores
      evaluar_nivel_riesgo_def)

lemma ejemplo_m003:
  "extraer_metrica_m003 parsers_ejemplo ahora ruta
   = Inr (Some (nueva_MetricaM003 800 900 20000 18000 (1 / 25) (1 / 20) ''BUENO''
        1000 900 (5 / 4) 1 (Some 95) ahora))"
  by (simp add: extraer_metrica_m003_def parsers_ejemplo_def evaluar_extractores
      evaluar_calidad_cartera_def)

lemma ejemplo_m004:
  "extraer_metrica_m004 parsers_ejemplo ahora ruta
   = Inr (Some (nueva_MetricaM004 (5 / 4) 1 ''ADECUADO'' (Some 95) ahora))"
  by (simp add: extraer_metrica_m004_def parsers_ejemplo_def evaluar_extractores
      evaluar_nivel_cobertura_def)

lemma ejemplo_m005:
  "extraer_metrica_m005 parsers_ejemplo ahora ruta = Inl (OtherError ''tabla ilegible'')"
  by (simp add: extraer_metrica_m005_def parsers_ejemplo_def)

lemma completos_m001:
  "extraer_metrica_m001 parsers_completos ahora ruta
   = Inr (Some (nueva_MetricaM001 1000 900 20000 18000 (1 / 20) (1 / 20) ''MEDIO''
        (Some 12) ahora))"
  by (simp add: extraer_metrica_m001_def parsers_completos_def parsers_ejemplo_def
      evaluar_extractores evaluar_nivel_riesgo_def)

lemma completos_m003:
  "extraer_metrica_m003 parsers_completos ahora ruta
   = Inr (Some (nueva_MetricaM003 800 900 20000 18000 (1 / 25) (1 / 20) ''BUENO''
        1000 900 (5 / 4) 1 (Some 95) ahora))"
  by (simp add: extraer_metrica_m003_def parsers_completos_def parsers_ejemplo_def
      evaluar_extractores evaluar_calidad_cartera_def)

lemma completos_m004:
  "extraer_metrica_m004 parsers_completos ahora ruta
   = Inr (Some (nueva_MetricaM004 (5 / 4) 1 ''ADECUADO'' (Some 95) ahora))"
  by (simp add: extraer_metrica_m004_def parsers_completos_def parsers_ejemplo_def
      evaluar_extractores evaluar_nivel_cobertura_def)

lemma completos_m005:
  "extraer_metrica_m005 parsers_completos ahora ruta
   = Inr (Some (nueva_MetricaM005 17000 (Some 1600) 600 500 300 20000
        (Some 15500) (Some 1420) 500 400 180 18000 (7 / 100) (3 / 50) ''ACEPTABLE''
        (Some 101) ahora))"
  by (simp add: extraer_metrica_m005_def parsers_completos_def parsers_ejemplo_def
      evaluar_extractores ratio_riesgosa_def evaluar_nivel_riesgo_m005_def)

text \<open>
  Claim C8. A metric built by the extractor of M001, M003, M004 or M005 stores as its
  year-over-year change the primary ratio of 2024 minus the primary ratio of 2023: the
  provision ratio, the NPL ratio, the coverage ratio and the risky ratio. The change is set
  by the constructor and appears unchanged in the dictionary of the metric.
\<close>

theorem cambio_yoy_es_diferencia:
  "(\<forall>m. extraer_metrica_m001 P ahora ruta = Inr (Some m) \<longrightarrow>
        MetricaM001.cambio_yoy m = MetricaM001.ratio_2024 m - MetricaM001.ratio_2023 m
      \<and> MetricaM001.ratio_2024 m = MetricaM001.provision_2024 m / MetricaM001.cartera_2024 m
      \<and> MetricaM001.ratio_2023 m = MetricaM001.provision_2023 m / MetricaM001.cartera_2023 m)
   \<and> (\<forall>m. extraer_metrica_m003 P ahora ruta = Inr (Some m) \<longrightarrow>
        MetricaM003.cambio_yoy m = MetricaM003.npl_ratio_2024 m - MetricaM003.npl_ratio_2023 m)
   \<and> (\<forall>m. extraer_metrica_m004 P ahora ruta = Inr (Some m) \<longrightarrow>
        MetricaM004.cambio_yoy m = MetricaM004.coverage_2024 m - MetricaM004.coverage_2023 m)
   \<and> (\<forall>m. extraer_metrica_m005 P ahora ruta = Inr (Some m) \<longrightarrow>
        MetricaM005.cambio_yoy m
          = MetricaM005.ratio_riesgosa_2024 m - MetricaM005.ratio_riesgosa_2023 m
      \<and> MetricaM005.ratio_riesgosa_2024 m
          = (MetricaM005.cartera_c_2024 m + MetricaM005.cartera_d_2024 m
             + MetricaM005.cartera_e_2024 m) / MetricaM005.cartera_total_2024 m
      \<and> MetricaM005.ratio_riesgosa_2023 m
          = (MetricaM005.cartera_c_2023 m + MetricaM005.cartera_d_2023 m
             + MetricaM005.cartera_e_2023 m) / MetricaM005.cartera_total_2023 m)"
proof (intro conjI allI impI)
  fix m assume "extraer_metrica_m001 P ahora ruta = Inr (Some m)"
  then obtain p24 p23 c24 c23 pagina where
    m: "m = nueva_MetricaM001 p24 p23 c24 c23 (p24 / c24) (p23 / c23)
           (evaluar_nivel_riesgo (p24 / c24)) pagina ahora"
    by (rule extraer_metrica_m001_exito)
  show "MetricaM001.cambio_yoy m = MetricaM001.ratio_2024 m - MetricaM001.ratio_2023 m"
    "MetricaM001.ratio_2024 m = MetricaM001.provision_2024 m / MetricaM001.cartera_2024 m"
    "MetricaM001.ratio_2023 m = MetricaM001.provision_2023 m / MetricaM001.cartera_2023 m"
    by (simp_all add: m nueva_MetricaM001_def)
next
  fix m assume "extraer_metrica_m003 P ahora ruta = Inr (Some m)"
  then obtain p24 p23 ct24 ct23 cov24 cov23 cv24 cv23 pagina where
    m: "m = nueva_MetricaM003 cv24 cv23 ct24 ct23 (cv24 / ct24) (cv23 / ct23)
           (evaluar_calidad_cartera (cv24 / ct24))
           p24 p23 cov24 cov23 pagina ahora"
    by (rule extraer_metrica_m003_exito)
  show "MetricaM003.cambio_yoy m = MetricaM003.npl_ratio_2024 m - MetricaM003.npl_ratio_2023 m"
    by (simp add: m nueva_MetricaM003_def)
next
  fix m assume "extraer_metrica_m004 P ahora ruta = Inr (Some m)"
  then obtain cov24 cov23 pagina where
    m: "m = nueva_MetricaM004 cov24 cov23 (evaluar_nivel_cobertura cov24) pagina ahora"
    by (rule extraer_metrica_m004_exito)
  show "MetricaM004.cambio_yoy m = MetricaM004.coverage_2024 m - MetricaM004.coverage_2023 m"
    by (simp add: m nueva_MetricaM004_def)
next
  fix m assume "extraer_metrica_m005 P ahora ruta = Inr (Some m)"
  then obtain a24 b24 c24 d24 e24 t24 a23 b23 c23 d23 e23 t23 pagina where
    m: "m = nueva_MetricaM005 a24 b24 c24 d24 e24 t24 a23 b23 c23 d23 e23 t23
           ((c24 + d24 + e24) / t24) ((c23 + d23 + e23) / t23)
           (evaluar_nivel_riesgo_m005 ((c24 + d24 + e24) / t24)) pagina ahora"
    by (rule extraer_metrica_m005_exito)
  show "MetricaM005.cambio_yoy m
          = MetricaM005.ratio_riesgosa_2024 m - MetricaM005.ratio_riesgosa_2023 m"
    "MetricaM005.ratio_riesgosa_2024 m
          = (MetricaM005.cartera_c_2024 m + MetricaM005.cartera_d_2024 m
             + MetricaM005.cartera_e_2024 m) / MetricaM005.cartera_total_2024 m"
    "MetricaM005.ratio_riesgosa_2023 m
          = (MetricaM005.cartera_c_2023 m + MetricaM005.cartera_d_2023 m
             + MetricaM005.cartera_e_2023 m) / MetricaM005.cartera_total_2023 m"
    by (simp_all add: m nueva_MetricaM005_def)
qed

theorem cambio_yoy_es_diferencia_ejemplo:
  "extraer_metrica_m001 parsers_completos ''2025-01-01'' ''informe.pdf''
     = Inr (Some (nueva_MetricaM001 1000 900 20000 18000 (1 / 20) (1 / 20) ''MEDIO''
          (Some 12) ''2025-01-01''))
   \<and> MetricaM001.cambio_yoy (nueva_MetricaM001 1000 900 20000 18000 (1 / 20) (1 / 20)
          ''MEDIO'' (Some 12) ''2025-01-01'') = 1 / 20 - 1 / 20
   \<and> extraer_metrica_m003 parsers_completos ''2025-01-01'' ''informe.pdf''
     = Inr (Some (nueva_MetricaM003 800 900 20000 18000 (1 / 25) (1 / 20) ''BUENO''
          1000 900 (5 / 4) 1 (Some 95) ''2025-01-01''))
   \<and> MetricaM003.cambio_yoy (nueva_MetricaM003 800 900 20000 18000 (1 / 25) (1 / 20)
          ''BUENO'' 1000 900 (5 / 4) 1 (Some 95) ''2025-01-01'') = 1 / 25 - 1 / 20
   \<and> extraer_metrica_m004 parsers_completos ''2025-01-01'' ''informe.pdf''
     = Inr (Some (nueva_MetricaM004 (5 / 4) 1 ''ADECUADO'' (Some 95) ''2025-01-01''))
   \<and> MetricaM004.cambio_yoy (nueva_MetricaM004 (5 / 4) 1 ''ADECUADO'' (Some 95)
          ''2025-01-01'') = 5 / 4 - 1
   \<and> extraer_metrica_m005 parsers_completos ''2025-01-01'' ''informe.pdf''
     = Inr (Some (nueva_MetricaM005 17000 (Some 1600) 600 500 300 20000
          (Some 15500) (Some 1420) 500 400 180 18000 (7 / 100) (3 / 50) ''ACEPTABLE''
          (Some 101) ''2025-01-01''))
   \<and> MetricaM005.cambio_yoy (nueva_MetricaM005 17000 (Some 1600) 600 500 300 20000
          (Some 15500) (Some 1420) 500 400 180 18000 (7 / 100) (3 / 50) ''ACEPTABLE''
          (Some 101) ''2025-01-01'') = 7 / 100 - 3 / 50"
  using cambio_yoy_es_diferencia [of parsers_completos "''2025-01-01''" "''informe.pdf''"]
  by (simp add: completos_m001 completos_m003 completos_m004 completos_m005
      nueva_MetricaM001_def nueva_MetricaM003_def nueva_MetricaM004_def nueva_MetricaM005_def)

text \<open>
  Claim C1. The derived overdue portfolio of the specification is the provision over the
  coverage wherever the coverage is above zero, and for a valid pair, whose provision is an
  amount and so not negative, it is not negative. In a metric of M003 the overdue
  portfolio of each period is what the helper returned for the provision and the coverage
  of that period, so, with the helper of the specification, the provision over the
  coverage; and the NPL ratio of the period is the overdue portfolio over the total
  portfolio of the period, which is not zero.
\<close>

theorem cartera_vencida_derivada:
  "(0 < coverage \<longrightarrow>
      calcular_cartera_vencida provision coverage = Inr (provision / coverage)
      \<and> (0 \<le> provision \<longrightarrow> 0 \<le> provision / coverage))
   \<and> (\<forall>m. extraer_metrica_m003 P ahora ruta = Inr (Some m) \<longrightarrow>
        calcular_cartera_vencida_desde_cobertura P
            (MetricaM003.provision_2024 m) (MetricaM003.coverage_2024 m)
          = Inr (MetricaM003.cartera_vencida_2024 m)
      \<and> calcular_cartera_vencida_desde_cobertura P
            (MetricaM003.provision_2023 m) (MetricaM003.coverage_2023 m)
          = Inr (MetricaM003.cartera_vencida_2023 m)
      \<and> MetricaM003.cartera_total_2024 m \<noteq> 0 \<and> MetricaM003.cartera_total_2023 m \<noteq> 0
      \<and> MetricaM003.npl_ratio_2024 m
          = MetricaM003.cartera_vencida_2024 m / MetricaM003.cartera_total_2024 m
      \<and> MetricaM003.npl_ratio_2023 m
          = MetricaM003.cartera_vencida_2023 m / MetricaM003.cartera_total_2023 m
      \<and> (calcular_cartera_vencida_desde_cobertura P = calcular_cartera_vencida \<longrightarrow>
            MetricaM003.cartera_vencida_2024 m
              = MetricaM003.provision_2024 m / MetricaM003.coverage_2024 m
          \<and> MetricaM003.cartera_vencida_2023 m
              = MetricaM003.provision_2023 m / MetricaM003.coverage_2023 m
          \<and> MetricaM003.npl_ratio_2024 m
              = MetricaM003.provision_2024 m / MetricaM003.coverage_2024 m
                  / MetricaM003.cartera_total_2024 m
          \<and> MetricaM003.npl_ratio_2023 m
              = MetricaM003.provision_2023 m / MetricaM003.coverage_2023 m
                  / MetricaM003.cartera_total_2023 m))"
proof (intro conjI allI impI)
  assume "0 < coverage"
  then show "calcular_cartera_vencida provision coverage = Inr (provision / coverage)"
    by (simp add: calcular_cartera_vencida_def truediv_def)
next
  assume "0 < coverage" "0 \<le> provision"
  then show "0 \<le> provision / coverage" by simp
next
  fix m assume "extraer_metrica_m003 P ahora ruta = Inr (Some m)"
  then obtain p24 p23 ct24 ct23 cov24 cov23 cv24 cv23 pagina where
    m: "m = nueva_MetricaM003 cv24 cv23 ct24 ct23 (cv24 / ct24) (cv23 / ct23)
           (evaluar_calidad_cartera (cv24 / ct24))
           p24 p23 cov24 cov23 pagina ahora"
    and h: "calcular_cartera_vencida_desde_cobertura P p24 cov24 = Inr cv24"
      "calcular_cartera_vencida_desde_cobertura P p23 cov23 = Inr cv23"
    and nz: "ct24 \<noteq> 0" "ct23 \<noteq> 0"
    by (rule extraer_metrica_m003_exito)
  from h show "calcular_cartera_vencida_desde_cobertura P
            (MetricaM003.provision_2024 m) (MetricaM003.coverage_2024 m)
          = Inr (MetricaM003.cartera_vencida_2024 m)"
    "calcular_cartera_vencida_desde_cobertura P
            (MetricaM003.provision_2023 m) (MetricaM003.coverage_2023 m)
          = Inr (MetricaM003.cartera_vencida_2023 m)"
    by (simp_all add: m nueva_MetricaM003_def)
  from nz show "MetricaM003.cartera_total_2024 m \<noteq> 0" "MetricaM003.cartera_total_2023 m \<noteq> 0"
    "MetricaM003.npl_ratio_2024 m
          = MetricaM003.cartera_vencida_2024 m / MetricaM003.cartera_total_2024 m"
    "MetricaM003.npl_ratio_2023 m
          = MetricaM003.cartera_vencida_2023 m / MetricaM003.cartera_total_2023 m"
    by (simp_all add: m nueva_MetricaM003_def)
  assume "calcular_cartera_vencida_desde_cobertura P = calcular_cartera_vencida"
  with h have cv: "cv24 = p24 / cov24" "cv23 = p23 / cov23"
    by (auto simp: calcular_cartera_vencida_def truediv_def split: if_splits)
  then show "MetricaM003.cartera_vencida_2024 m
              = MetricaM003.provision_2024 m / MetricaM003.coverage_2024 m"
    "MetricaM003.cartera_vencida_2023 m
              = MetricaM003.provision_2023 m / MetricaM003.coverage_2023 m"
    "MetricaM003.npl_ratio_2024 m
              = MetricaM003.provision_2024 m / MetricaM003.coverage_2024 m
                  / MetricaM003.cartera_total_2024 m"
    "MetricaM003.npl_ratio_2023 m
              = MetricaM003.provision_2023 m / MetricaM003.coverage_2023 m
                  / MetricaM003.cartera_total_2023 m"
    by (simp_all add: m nueva_MetricaM003_def)
qed

theorem cartera_vencida_derivada_ejemplo:
  "(0::real) < 5 / 4 \<and> (0::real) \<le> 1000
   \<and> calcular_cartera_vencida 1000 (5 / 4) = Inr 800
   \<and> (0::real) \<le> 1000 / (5 / 4)
   \<and> extraer_metrica_m003 parsers_ejemplo ''2025-01-01'' ''informe.pdf''
     = Inr (Some (nueva_MetricaM003 800 900 20000 18000 (1 / 25) (1 / 20) ''BUENO''
          1000 900 (5 / 4) 1 (Some 95) ''2025-01-01''))
   \<and> calcular_cartera_vencida_desde_cobertura parsers_ejemplo = calcular_cartera_vencida
   \<and> (800 :: real) = 1000 / (5 / 4) \<and> (900 :: real) = 900 / 1
   \<and> (1 / 25 :: real) = 800 / 20000 \<and> (1 / 20 :: real) = 900 / 18000"
proof -
  have h: "calcular_cartera_vencida_desde_cobertura parsers_ejemplo = calcular_cartera_vencida"
    by (simp add: parsers_ejemplo_def)
  from cartera_vencida_derivada
    [of "5 / 4" 1000 parsers_ejemplo "''2025-01-01''" "''informe.pdf''"] h
  show ?thesis by (simp add: ejemplo_m003 nueva_MetricaM003_def)
qed

section \<open>Properties of the loop over the catalogue\<close>

lemma ejecutar_extractor_exito:
  "ejecutar_extractor P ahora ruta s (i, f, n) =
     (case exito P ahora ruta f of
        None \<Rightarrow> marcar_fallida i s
      | Some d \<Rightarrow> marcar_exitosa i d s)"
  by (simp add: ejecutar_extractor_def exito_def split: sum.splits option.splits)

lemma paso_campos:
  "metricas (ejecutar_extractor P ahora ruta s (i, f, n)) =
     (case exito P ahora ruta f of None \<Rightarrow> metricas s | Some d \<Rightarrow> (metricas s)(i \<mapsto> d))"
  "metricas_exitosas (validacion (ejecutar_extractor P ahora ruta s (i, f, n))) =
     metricas_exitosas (validacion s) @ (if exito P ahora ruta f = None then [] else [i])"
  "metricas_fallidas (validacion (ejecutar_extractor P ahora ruta s (i, f, n))) =
     metricas_fallidas (validacion s) @ (if exito P ahora ruta f = None then [i] else [])"
  "coherencia (validacion (ejecutar_extractor P ahora ruta s (i, f, n))) =
     coherencia (validacion s)"
  "metadata (ejecutar_extractor P ahora ruta s (i, f, n)) = metadata s"
  by (simp_all add: ejecutar_extractor_exito marcar_fallida_def marcar_exitosa_def
      split: option.splits)

lemma bucle_Nil: "ejecutar_extractores P ahora ruta [] s = s"
  by (simp add: ejecutar_extractores_def)

lemma bucle_Cons:
  "ejecutar_extractores P ahora ruta (e # es) s =
     ejecutar_extractores P ahora ruta es (ejecutar_extractor P ahora ruta s e)"
  by (simp add: ejecutar_extractores_def)

lemma bucle_exitosas:
  "metricas_exitosas (validacion (ejecutar_extractores P ahora ruta es s)) =
     metricas_exitosas (validacion s)
     @ map fst (filter (\<lambda>e. exito P ahora ruta (fst (snd e)) \<noteq> None) es)"
proof (induction es arbitrary: s)
  case Nil
  show ?case by (simp add: bucle_Nil)
next
  case (Cons e es)
  obtain i f n where e: "e = (i, f, n)" by (cases e)
  show ?case by (simp add: bucle_Cons Cons.IH e paso_campos)
qed

lemma bucle_fallidas:
  "metricas_fallidas (validacion (ejecutar_extractores P ahora ruta es s)) =
     metricas_fallidas (validacion s)
     @ map fst (filter (\<lambda>e. exito P ahora ruta (fst (snd e)) = None) es)"
proof (induction es arbitrary: s)
  case Nil
  show ?case by (simp add: bucle_Nil)
next
  case (Cons e es)
  obtain i f n where e: "e = (i, f, n)" by (cases e)
  show ?case by (simp add: bucle_Cons Cons.IH e paso_campos)
qed

lemma bucle_coherencia:
  "coherencia (validacion (ejecutar_extractores P ahora ruta es s)) = coherencia (validacion s)"
proof (induction es arbitrary: s)
  case Nil
  show ?case by (simp add: bucle_Nil)
next
  case (Cons e es)
  obtain i f n where e: "e = (i, f, n)" by (cases e)
  show ?case by (simp add: bucle_Cons Cons.IH e paso_campos)
qed

lemma bucle_metricas_fuera:
  "i \<notin> fst ` set es \<Longrightarrow>
   metricas (ejecutar_extractores P ahora ruta es s) i = metricas s i"
proof (induction es arbitrary: s)
  case Nil
  show ?case by (simp add: bucle_Nil)
next
  case (Cons e es)
  obtain j f n where e: "e = (j, f, n)" by (cases e)
  with Cons.prems have "i \<noteq> j" "i \<notin> fst ` set es" by auto
  with Cons.IH show ?case by (simp add: bucle_Cons e paso_campos split: option.splits)
qed

lemma bucle_metricas_dentro:
  "distinct (map fst es) \<Longrightarrow> (i, f, n) \<in> set es \<Longrightarrow>
   metricas (ejecutar_extractores P ahora ruta es s) i =
     (case exito P ahora ruta f of None \<Rightarrow> metricas s i | Some d \<Rightarrow> Some d)"
proof (induction es arbitrary: s)
  case Nil
  then show ?case by simp
next
  case (Cons e es)
  obtain j g k where e: "e = (j, g, k)" by (cases e)
  show ?case
  proof (cases "(i, f, n) = e")
    case True
    with Cons.prems e have "i \<notin> fst ` set es" "j = i" "g = f" by auto
    then show ?thesis
      by (simp add: bucle_Cons e bucle_metricas_fuera paso_campos split: option.splits)
  next
    case False
    with Cons.prems have mem: "(i, f, n) \<in> set es" and d: "distinct (map fst es)" by auto
    from Cons.prems e mem have "i \<noteq> j" by force
    with Cons.IH [OF d mem] show ?thesis
      by (simp add: bucle_Cons e paso_campos split: option.splits)
  qed
qed

lemma bucle_dom:
  "dom (metricas (ejecutar_extractores P ahora ruta es s)) =
     dom (metricas s) \<union> set (map fst (filter (\<lambda>e. exito P ahora ruta (fst (snd e)) \<noteq> None) es))"
proof (induction es arbitrary: s)
  case Nil
  show ?case by (simp add: bucle_Nil)
next
  case (Cons e es)
  obtain i f n where e: "e = (i, f, n)" by (cases e)
  show ?case by (auto simp: bucle_Cons Cons.IH e paso_campos split: option.splits)
qed

section \<open>Properties of the double-precision arithmetic\<close>

lemma buscar_exponente_bajo:
  "x < 2 powi (- 1021) \<Longrightarrow> buscar_exponente n x = - 1022"
proof (induction n)
  case 0
  show ?case by simp
next
  case (Suc n)
  have "(2::real) powi (- 1021) \<le> 2 powi (int n - 1021)"
    by (rule power_int_increasing) simp_all
  with Suc.prems have "\<not> 2 powi (int n - 1021) \<le> x" by linarith
  with Suc show ?case by simp
qed

lemma buscar_exponente_normal:
  "2 powi k \<le> x \<Longrightarrow> x < 2 powi (k + 1) \<Longrightarrow> - 1021 \<le> k \<Longrightarrow> k + 1022 \<le> int n \<Longrightarrow>
   buscar_exponente n x = k"
proof (induction n)
  case 0
  then show ?case by simp
next
  case (Suc n)
  show ?case
  proof (cases "int n - 1021 = k")
    case True
    with Suc.prems show ?thesis by simp
  next
    case False
    with Suc.prems have lt: "k + 1 \<le> int n - 1021" by simp
    have "(2::real) powi (k + 1) \<le> 2 powi (int n - 1021)"
      using lt by (rule power_int_increasing) simp
    with Suc.prems have "\<not> 2 powi (int n - 1021) \<le> x" by linarith
    moreover from lt have "k + 1022 \<le> int n" by simp
    ultimately show ?thesis using Suc by simp
  qed
qed

lemma exponente_normal:
  "2 powi k \<le> \<bar>x\<bar> \<Longrightarrow> \<bar>x\<bar> < 2 powi (k + 1) \<Longrightarrow> - 1021 \<le> k \<Longrightarrow> k \<le> 1023 \<Longrightarrow>
   exponente x = k"
  unfolding exponente_def by (rule buscar_exponente_normal) simp_all

lemma exponente_bajo: "\<bar>x\<bar> < 2 powi (- 1021) \<Longrightarrow> exponente x = - 1022"
  unfolding exponente_def by (rule buscar_exponente_bajo)

text \<open>The rounding of a number whose binade is known; these two facts evaluate
  \<open>redondear\<close> on a concrete number.\<close>

lemma redondear_normal:
  assumes "2 powi k \<le> \<bar>x\<bar>" "\<bar>x\<bar> < 2 powi (k + 1)" "- 1021 \<le> k" "k \<le> 1023"
  shows "redondear x =
     (let cuanto = 2 powi (k - 52);
          y = of_int (redondear_par (x / cuanto)) * cuanto
      in if \<bar>y\<bar> < 2 powi 1024 then Finito y
         else if 0 < x then MasInf else MenosInf)"
  unfolding redondear_def exponente_normal [OF assms] ..

lemma redondear_bajo:
  assumes "\<bar>x\<bar> < 2 powi (- 1021)"
  shows "redondear x =
     (let cuanto = 2 powi (- 1022 - 52);
          y = of_int (redondear_par (x / cuanto)) * cuanto
      in if \<bar>y\<bar> < 2 powi 1024 then Finito y
         else if 0 < x then MasInf else MenosInf)"
  unfolding redondear_def exponente_bajo [OF assms] ..

lemmas evaluar_redondeo = power_int_minus redondear_par_def Let_def

lemma redondear_cero: "redondear 0 = Finito 0"
  by (subst redondear_bajo) (simp_all add: evaluar_redondeo)

lemma redondear_centesimo: "redondear 0.01 = Finito (5764607523034235 / 2 ^ 59)"
  by (subst redondear_normal [of "- 7"]) (simp_all add: evaluar_redondeo)

lemma dividir_Inr_iff: "(dividir a b = Inr q) = (b \<noteq> 0 \<and> q = redondear (a / b))"
  by (auto simp: dividir_def)



section \<open>Properties of the coherence rules\<close>

lemma valores_m001:
  assumes "ms ''M001'' = Some (to_dict_m001 m)"
  shows "leer ms ''M001'' ''provision'' = Some (MetricaM001.provision_2024 m)"
    and "leer ms ''M001'' ''ratio'' = Some (MetricaM001.ratio_2024 m)"
  using assms by (simp_all add: leer_def valor_2024_def to_dict_m001_def)

lemma valores_m003:
  assumes "ms ''M003'' = Some (to_dict_m003 m)"
  shows "leer ms ''M003'' ''cartera_vencida'' = Some (MetricaM003.cartera_vencida_2024 m)"
    and "leer ms ''M003'' ''npl_ratio'' = Some (MetricaM003.npl_ratio_2024 m)"
  using assms by (simp_all add: leer_def valor_2024_def to_dict_m003_def)

lemma valores_m004:
  assumes "ms ''M004'' = Some (to_dict_m004 m)"
  shows "leer ms ''M004'' ''coverage_ratio'' = Some (MetricaM004.coverage_2024 m)"
  using assms by (simp add: leer_def valor_2024_def to_dict_m004_def)

lemma valores_m005:
  assumes "ms ''M005'' = Some d" and "to_dict_m005 m = Inr d"
  shows "leer ms ''M005'' ''ratio_riesgosa_cde'' = Some (MetricaM005.ratio_riesgosa_2024 m)"
  using assms unfolding to_dict_m005_def
  by (auto elim!: bind_exn_InrE simp: leer_def valor_2024_def)

lemma exito_como:
  assumes "exito P ahora ruta (\<lambda>P ahora ruta. como clase (g P ahora ruta)) = Some d"
  obtains m where "g P ahora ruta = Inr (Some m)" "to_dict (clase m) = Inr d"
  using assms unfolding exito_def intentar_def como_def
  by (auto elim!: bind_exn_InrE split: sum.splits option.splits)

lemma leer_Some_valor:
  "(leer ms i campo = Some x) = (valor_2024 ms i campo = Inr (PyNum x))"
  by (auto simp: leer_def split: sum.splits pyval.splits)

lemma leer_presente: "leer ms i campo = Some x \<Longrightarrow> ms i \<noteq> None"
  by (auto simp: leer_def valor_2024_def split: option.splits)

lemma regla_cobertura_ausente:
  "ms ''M001'' = None \<or> ms ''M003'' = None \<or> ms ''M004'' = None \<Longrightarrow>
   regla_cobertura ms c = Inr c"
  by (auto simp: regla_cobertura_def)

lemma regla_cobertura_presente:
  assumes "leer ms ''M001'' ''provision'' = Some p"
    and "leer ms ''M003'' ''cartera_vencida'' = Some cv" and "cv \<noteq> 0"
    and "leer ms ''M004'' ''coverage_ratio'' = Some cr"
  shows "regla_cobertura ms c = Inr (c(''coverage_coherente'' \<mapsto>
           menor (valor_absoluto (restar (redondear (p / cv)) (Finito cr))) (redondear 0.01)))"
proof -
  from assms have pres: "ms ''M001'' \<noteq> None" "ms ''M003'' \<noteq> None" "ms ''M004'' \<noteq> None"
    by (auto dest: leer_presente)
  from assms have v: "valor_2024 ms ''M001'' ''provision'' = Inr (PyNum p)"
    "valor_2024 ms ''M003'' ''cartera_vencida'' = Inr (PyNum cv)"
    "valor_2024 ms ''M004'' ''coverage_ratio'' = Inr (PyNum cr)"
    by (simp_all add: leer_Some_valor)
  show ?thesis
    unfolding regla_cobertura_def using pres \<open>cv \<noteq> 0\<close>
    by (auto simp: v dividir_def Let_def)
qed

lemma regla_cobertura_cero:
  assumes "leer ms ''M001'' ''provision'' = Some p"
    and "leer ms ''M003'' ''cartera_vencida'' = Some 0"
    and "leer ms ''M004'' ''coverage_ratio'' = Some cr"
  shows "regla_cobertura ms c = Inl ZeroDivisionError"
proof -
  from assms have pres: "ms ''M001'' \<noteq> None" "ms ''M003'' \<noteq> None" "ms ''M004'' \<noteq> None"
    by (auto dest: leer_presente)
  from assms have v: "valor_2024 ms ''M001'' ''provision'' = Inr (PyNum p)"
    "valor_2024 ms ''M003'' ''cartera_vencida'' = Inr (PyNum 0)"
    "valor_2024 ms ''M004'' ''coverage_ratio'' = Inr (PyNum cr)"
    by (simp_all add: leer_Some_valor)
  show ?thesis
    unfolding regla_cobertura_def using pres by (simp add: v dividir_def)
qed

lemma regla_riesgosa_ausente:
  "ms ''M003'' = None \<or> ms ''M005'' = None \<Longrightarrow> regla_riesgosa ms c = Inr c"
  by (auto simp: regla_riesgosa_def)

lemma regla_riesgosa_presente:
  assumes "leer ms ''M003'' ''npl_ratio'' = Some npl"
    and "leer ms ''M005'' ''ratio_riesgosa_cde'' = Some rg"
  shows "regla_riesgosa ms c = Inr (c(''riesgosa_mayor_que_npl'' \<mapsto> (rg > npl)))"
proof -
  from assms have pres: "ms ''M003'' \<noteq> None" "ms ''M005'' \<noteq> None"
    by (auto dest: leer_presente)
  from assms have v: "valor_2024 ms ''M003'' ''npl_ratio'' = Inr (PyNum npl)"
    "valor_2024 ms ''M005'' ''ratio_riesgosa_cde'' = Inr (PyNum rg)"
    by (simp_all add: leer_Some_valor)
  show ?thesis unfolding regla_riesgosa_def using pres by (auto simp: v)
qed

lemma regla_rango_ausente: "ms ''M001'' = None \<Longrightarrow> regla_rango ms c = Inr c"
  by (simp add: regla_rango_def)

lemma regla_rango_presente:
  assumes "leer ms ''M001'' ''ratio'' = Some x"
  shows "regla_rango ms c = Inr (c(''provision_rango_valido'' \<mapsto> (0.01 \<le> x \<and> x \<le> 0.20)))"
proof -
  from assms have pres: "ms ''M001'' \<noteq> None" by (auto dest: leer_presente)
  from assms have v: "valor_2024 ms ''M001'' ''ratio'' = Inr (PyNum x)"
    by (simp add: leer_Some_valor)
  show ?thesis unfolding regla_rango_def using pres by (auto simp: v)
qed

lemma leer_ausente: "ms i = None \<Longrightarrow> leer ms i campo = None"
  by (simp add: leer_def valor_2024_def)

lemma regla_cobertura_bien:
  assumes "bien_formadas ms"
  shows "\<not> divide_por_cero ms \<Longrightarrow>
         regla_cobertura ms c = Inr (anotar ''coverage_coherente'' (resultado_cobertura ms) c)"
    and "(resultado_cobertura ms \<noteq> None)
         = (ms ''M001'' \<noteq> None \<and> ms ''M003'' \<noteq> None \<and> ms ''M004'' \<noteq> None)"
    and "divide_por_cero ms \<Longrightarrow> regla_cobertura ms c = Inl ZeroDivisionError"
proof -
  show "regla_cobertura ms c = Inr (anotar ''coverage_coherente'' (resultado_cobertura ms) c)"
    if nz: "\<not> divide_por_cero ms"
  proof (cases "ms ''M001'' \<noteq> None \<and> ms ''M003'' \<noteq> None \<and> ms ''M004'' \<noteq> None")
    case True
    with assms obtain p cv cr where l: "leer ms ''M001'' ''provision'' = Some p"
      "leer ms ''M003'' ''cartera_vencida'' = Some cv"
      "leer ms ''M004'' ''coverage_ratio'' = Some cr"
      unfolding bien_formadas_def by auto
    from True nz l(2) have "cv \<noteq> 0" by (auto simp: divide_por_cero_def)
    from regla_cobertura_presente [OF l(1,2) this l(3)] l show ?thesis
      by (simp add: resultado_cobertura_def)
  next
    case False
    then have "resultado_cobertura ms = None"
      by (auto simp: resultado_cobertura_def leer_ausente split: option.splits)
    with False regla_cobertura_ausente [of ms c] show ?thesis by auto
  qed
  show "(resultado_cobertura ms \<noteq> None)
         = (ms ''M001'' \<noteq> None \<and> ms ''M003'' \<noteq> None \<and> ms ''M004'' \<noteq> None)"
    using assms unfolding bien_formadas_def resultado_cobertura_def
    by (auto simp: leer_ausente split: option.splits dest: leer_presente)
  show "regla_cobertura ms c = Inl ZeroDivisionError" if z: "divide_por_cero ms"
  proof -
    from z assms obtain p cr where l: "leer ms ''M001'' ''provision'' = Some p"
      "leer ms ''M003'' ''cartera_vencida'' = Some 0"
      "leer ms ''M004'' ''coverage_ratio'' = Some cr"
      unfolding bien_formadas_def divide_por_cero_def by auto
    then show ?thesis by (rule regla_cobertura_cero)
  qed
qed

lemma regla_riesgosa_bien:
  assumes "bien_formadas ms"
  shows "regla_riesgosa ms c = Inr (anotar ''riesgosa_mayor_que_npl'' (resultado_riesgosa ms) c)"
    and "(resultado_riesgosa ms \<noteq> None) = (ms ''M003'' \<noteq> None \<and> ms ''M005'' \<noteq> None)"
proof -
  show "regla_riesgosa ms c = Inr (anotar ''riesgosa_mayor_que_npl'' (resultado_riesgosa ms) c)"
  proof (cases "ms ''M003'' \<noteq> None \<and> ms ''M005'' \<noteq> None")
    case True
    with assms obtain npl rg where l: "leer ms ''M003'' ''npl_ratio'' = Some npl"
      "leer ms ''M005'' ''ratio_riesgosa_cde'' = Some rg"
      unfolding bien_formadas_def by auto
    from regla_riesgosa_presente [OF l] l show ?thesis
      by (simp add: resultado_riesgosa_def)
  next
    case False
    then have "resultado_riesgosa ms = None"
      by (auto simp: resultado_riesgosa_def leer_ausente split: option.splits)
    with False regla_riesgosa_ausente [of ms c] show ?thesis by auto
  qed
  show "(resultado_riesgosa ms \<noteq> None) = (ms ''M003'' \<noteq> None \<and> ms ''M005'' \<noteq> None)"
    using assms unfolding bien_formadas_def resultado_riesgosa_def
    by (auto simp: leer_ausente split: option.splits dest: leer_presente)
qed

lemma regla_rango_bien:
  assumes "bien_formadas ms"
  shows "regla_rango ms c = Inr (anotar ''provision_rango_valido'' (resultado_rango ms) c)"
    and "(resultado_rango ms \<noteq> None) = (ms ''M001'' \<noteq> None)"
proof -
  show "regla_rango ms c = Inr (anotar ''provision_rango_valido'' (resultado_rango ms) c)"
  proof (cases "ms ''M001'' \<noteq> None")
    case True
    with assms obtain x where l: "leer ms ''M001'' ''ratio'' = Some x"
      unfolding bien_formadas_def by auto
    from regla_rango_presente [OF l] l show ?thesis
      by (simp add: resultado_rango_def)
  next
    case False
    then have "resultado_rango ms = None"
      by (auto simp: resultado_rango_def leer_ausente split: option.splits)
    with False regla_rango_ausente [of ms c] show ?thesis by auto
  qed
  show "(resultado_rango ms \<noteq> None) = (ms ''M001'' \<noteq> None)"
    using assms unfolding bien_formadas_def resultado_rango_def
    by (auto simp: leer_ausente split: option.splits dest: leer_presente)
qed

lemma validar_coherencia_bien:
  assumes "bien_formadas (metricas r)" and "\<not> divide_por_cero (metricas r)"
  shows "validar_coherencia r =
     Inr (r\<lparr> validacion := (validacion r)\<lparr> coherencia :=
        anotar ''provision_rango_valido'' (resultado_rango (metricas r))
          (anotar ''riesgosa_mayor_que_npl'' (resultado_riesgosa (metricas r))
            (anotar ''coverage_coherente'' (resultado_cobertura (metricas r))
              (coherencia (validacion r)))) \<rparr> \<rparr>)"
  unfolding validar_coherencia_def
  by (simp add: regla_cobertura_bien(1) [OF assms] regla_riesgosa_bien(1) [OF assms(1)]
      regla_rango_bien(1) [OF assms(1)])

lemma validar_coherencia_cero:
  assumes "bien_formadas (metricas r)" and "divide_por_cero (metricas r)"
  shows "validar_coherencia r = Inl ZeroDivisionError"
  unfolding validar_coherencia_def
  by (simp add: regla_cobertura_bien(3) [OF assms])

section \<open>Properties of the whole run\<close>

lemma extractores_ids:
  "map fst extractores = [''M001'', ''M003'', ''M004'', ''M005'']"
  "distinct (map fst extractores)"
  by (simp_all add: extractores_def)

lemma metricas_tras_extractores:
  "metricas (tras_extractores P a ruta b y) ''M001''
     = exito P a ruta (\<lambda>P ahora ruta. como DeM001 (extraer_metrica_m001 P ahora ruta))"
  "metricas (tras_extractores P a ruta b y) ''M003''
     = exito P a ruta (\<lambda>P ahora ruta. como DeM003 (extraer_metrica_m003 P ahora ruta))"
  "metricas (tras_extractores P a ruta b y) ''M004''
     = exito P a ruta (\<lambda>P ahora ruta. como DeM004 (extraer_metrica_m004 P ahora ruta))"
  "metricas (tras_extractores P a ruta b y) ''M005''
     = exito P a ruta (\<lambda>P ahora ruta. como DeM005 (extraer_metrica_m005 P ahora ruta))"
proof -
  have ini: "metricas (resultados_iniciales a ruta b y) = Map.empty"
    by (simp add: resultados_iniciales_def)
  have m: "\<And>i f n. (i, f, n) \<in> set extractores \<Longrightarrow>
      metricas (tras_extractores P a ruta b y) i = exito P a ruta f"
    unfolding tras_extractores_def
    by (simp add: bucle_metricas_dentro [OF extractores_ids(2)] ini split: option.splits)
  show "metricas (tras_extractores P a ruta b y) ''M001''
     = exito P a ruta (\<lambda>P ahora ruta. como DeM001 (extraer_metrica_m001 P ahora ruta))"
    by (rule m) (simp add: extractores_def)
  show "metricas (tras_extractores P a ruta b y) ''M003''
     = exito P a ruta (\<lambda>P ahora ruta. como DeM003 (extraer_metrica_m003 P ahora ruta))"
    by (rule m) (simp add: extractores_def)
  show "metricas (tras_extractores P a ruta b y) ''M004''
     = exito P a ruta (\<lambda>P ahora ruta. como DeM004 (extraer_metrica_m004 P ahora ruta))"
    by (rule m) (simp add: extractores_def)
  show "metricas (tras_extractores P a ruta b y) ''M005''
     = exito P a ruta (\<lambda>P ahora ruta. como DeM005 (extraer_metrica_m005 P ahora ruta))"
    by (rule m) (simp add: extractores_def)
qed

lemma bien_formadas_tras_extractores:
  "bien_formadas (metricas (tras_extractores P a ruta b y))"
proof -
  let ?ms = "metricas (tras_extractores P a ruta b y)"
  have m1: "leer ?ms ''M001'' ''provision'' \<noteq> None \<and> leer ?ms ''M001'' ''ratio'' \<noteq> None"
    if "?ms ''M001'' \<noteq> None"
  proof -
    from that obtain d where d: "?ms ''M001'' = Some d" by auto
    then have "exito P a ruta (\<lambda>P ahora ruta. como DeM001 (extraer_metrica_m001 P ahora ruta))
        = Some d" by (simp add: metricas_tras_extractores)
    then obtain m where "to_dict (DeM001 m) = Inr d" by (rule exito_como)
    with d have "?ms ''M001'' = Some (to_dict_m001 m)" by simp
    then show ?thesis using valores_m001 [of ?ms m] by simp
  qed
  have m3: "leer ?ms ''M003'' ''cartera_vencida'' \<noteq> None
      \<and> leer ?ms ''M003'' ''npl_ratio'' \<noteq> None"
    if "?ms ''M003'' \<noteq> None"
  proof -
    from that obtain d where d: "?ms ''M003'' = Some d" by auto
    then have "exito P a ruta (\<lambda>P ahora ruta. como DeM003 (extraer_metrica_m003 P ahora ruta))
        = Some d" by (simp add: metricas_tras_extractores)
    then obtain m where "to_dict (DeM003 m) = Inr d" by (rule exito_como)
    with d have "?ms ''M003'' = Some (to_dict_m003 m)" by simp
    then show ?thesis using valores_m003 [of ?ms m] by simp
  qed
  have m4: "leer ?ms ''M004'' ''coverage_ratio'' \<noteq> None" if "?ms ''M004'' \<noteq> None"
  proof -
    from that obtain d where d: "?ms ''M004'' = Some d" by auto
    then have "exito P a ruta (\<lambda>P ahora ruta. como DeM004 (extraer_metrica_m004 P ahora ruta))
        = Some d" by (simp add: metricas_tras_extractores)
    then obtain m where "to_dict (DeM004 m) = Inr d" by (rule exito_como)
    with d have "?ms ''M004'' = Some (to_dict_m004 m)" by simp
    then show ?thesis using valores_m004 [of ?ms m] by simp
  qed
  have m5: "leer ?ms ''M005'' ''ratio_riesgosa_cde'' \<noteq> None" if "?ms ''M005'' \<noteq> None"
  proof -
    from that obtain d where d: "?ms ''M005'' = Some d" by auto
    then have "exito P a ruta (\<lambda>P ahora ruta. como DeM005 (extraer_metrica_m005 P ahora ruta))
        = Some d" by (simp add: metricas_tras_extractores)
    then obtain m where "to_dict (DeM005 m) = Inr d" by (rule exito_como)
    then have "to_dict_m005 m = Inr d" by simp
    with d show ?thesis using valores_m005 [of ?ms d m] by simp
  qed
  from m1 m3 m4 m5 show ?thesis unfolding bien_formadas_def by blast
qed

text \<open>The run returns a report unless the first rule divides by zero, and then it raises
  \<open>ZeroDivisionError\<close>.\<close>

lemma extraer_todas_metricas_eq:
  assumes "\<not> divide_por_cero (metricas (tras_extractores P a ruta b y))"
  shows "extraer_todas_metricas P a ruta b y =
     Inr ((tras_extractores P a ruta b y)
       \<lparr> validacion := (validacion (tras_extractores P a ruta b y))\<lparr> coherencia :=
           anotar ''provision_rango_valido''
             (resultado_rango (metricas (tras_extractores P a ruta b y)))
             (anotar ''riesgosa_mayor_que_npl''
               (resultado_riesgosa (metricas (tras_extractores P a ruta b y)))
               (anotar ''coverage_coherente''
                 (resultado_cobertura (metricas (tras_extractores P a ruta b y)))
                 Map.empty)) \<rparr> \<rparr>)"
proof -
  have c: "coherencia (validacion (tras_extractores P a ruta b y)) = Map.empty"
    by (simp add: tras_extractores_def bucle_coherencia resultados_iniciales_def)
  have "extraer_todas_metricas P a ruta b y = validar_coherencia (tras_extractores P a ruta b y)"
    by (simp add: extraer_todas_metricas_def tras_extractores_def)
  then show ?thesis
    by (simp add: validar_coherencia_bien [OF bien_formadas_tras_extractores assms] c)
qed

lemma extraer_todas_metricas_cero:
  assumes "divide_por_cero (metricas (tras_extractores P a ruta b y))"
  shows "extraer_todas_metricas P a ruta b y = Inl ZeroDivisionError"
proof -
  have "extraer_todas_metricas P a ruta b y = validar_coherencia (tras_extractores P a ruta b y)"
    by (simp add: extraer_todas_metricas_def tras_extractores_def)
  then show ?thesis
    by (simp add: validar_coherencia_cero [OF bien_formadas_tras_extractores assms])
qed

lemma extraer_todas_metricas_campos:
  assumes "extraer_todas_metricas P a ruta b y = Inr r"
  shows "metricas r = metricas (tras_extractores P a ruta b y)"
    and "metricas_exitosas (validacion r)
         = map fst (filter (\<lambda>e. exito P a ruta (fst (snd e)) \<noteq> None) extractores)"
    and "metricas_fallidas (validacion r)
         = map fst (filter (\<lambda>e. exito P a ruta (fst (snd e)) = None) extractores)"
    and "coherencia (validacion r) ''coverage_coherente'' = resultado_cobertura (metricas r)"
    and "coherencia (validacion r) ''riesgosa_mayor_que_npl'' = resultado_riesgosa (metricas r)"
    and "coherencia (validacion r) ''provision_rango_valido'' = resultado_rango (metricas r)"
    and "dom (coherencia (validacion r))
         \<subseteq> {''coverage_coherente'', ''riesgosa_mayor_que_npl'', ''provision_rango_valido''}"
    and "bien_formadas (metricas r)"
    and "\<not> divide_por_cero (metricas r)"
proof -
  let ?t = "tras_extractores P a ruta b y"
  have nz: "\<not> divide_por_cero (metricas ?t)"
  proof
    assume "divide_por_cero (metricas ?t)"
    then have "extraer_todas_metricas P a ruta b y = Inl ZeroDivisionError"
      by (rule extraer_todas_metricas_cero)
    with assms show False by simp
  qed
  from assms have r: "r = ?t\<lparr> validacion := (validacion ?t)\<lparr> coherencia :=
           anotar ''provision_rango_valido'' (resultado_rango (metricas ?t))
             (anotar ''riesgosa_mayor_que_npl'' (resultado_riesgosa (metricas ?t))
               (anotar ''coverage_coherente'' (resultado_cobertura (metricas ?t))
                 Map.empty)) \<rparr> \<rparr>"
    by (simp add: extraer_todas_metricas_eq [OF nz])
  show ms: "metricas r = metricas ?t" by (subst r) simp
  show "metricas_exitosas (validacion r)
         = map fst (filter (\<lambda>e. exito P a ruta (fst (snd e)) \<noteq> None) extractores)"
    by (subst r) (simp add: tras_extractores_def bucle_exitosas resultados_iniciales_def)
  show "metricas_fallidas (validacion r)
         = map fst (filter (\<lambda>e. exito P a ruta (fst (snd e)) = None) extractores)"
    by (subst r) (simp add: tras_extractores_def bucle_fallidas resultados_iniciales_def)
  have co: "coherencia (validacion r) =
           anotar ''provision_rango_valido'' (resultado_rango (metricas r))
             (anotar ''riesgosa_mayor_que_npl'' (resultado_riesgosa (metricas r))
               (anotar ''coverage_coherente'' (resultado_cobertura (metricas r))
                 Map.empty))"
    unfolding ms by (subst r) simp
  show "coherencia (validacion r) ''coverage_coherente'' = resultado_cobertura (metricas r)"
    unfolding co
    by (cases "resultado_rango (metricas r)"; cases "resultado_riesgosa (metricas r)";
        cases "resultado_cobertura (metricas r)") simp_all
  show "coherencia (validacion r) ''riesgosa_mayor_que_npl'' = resultado_riesgosa (metricas r)"
    unfolding co
    by (cases "resultado_rango (metricas r)"; cases "resultado_riesgosa (metricas r)";
        cases "resultado_cobertura (metricas r)") simp_all
  show "coherencia (validacion r) ''provision_rango_valido'' = resultado_rango (metricas r)"
    unfolding co
    by (cases "resultado_rango (metricas r)"; cases "resultado_riesgosa (metricas r)";
        cases "resultado_cobertura (metricas r)") simp_all
  show "dom (coherencia (validacion r))
         \<subseteq> {''coverage_coherente'', ''riesgosa_mayor_que_npl'', ''provision_rango_valido''}"
    unfolding co
    by (cases "resultado_rango (metricas r)"; cases "resultado_riesgosa (metricas r)";
        cases "resultado_cobertura (metricas r)") auto
  show "bien_formadas (metricas r)"
    unfolding ms by (rule bien_formadas_tras_extractores)
  show "\<not> divide_por_cero (metricas r)"
    unfolding ms by (rule nz)
qed

lemma exito_Inl:
  "f P a ruta = Inl e \<Longrightarrow> exito P a ruta f = None"
  by (simp add: exito_def intentar_def)

lemma exito_Some:
  "f P a ruta = Inr (Some m) \<Longrightarrow> to_dict m = Inr d \<Longrightarrow> exito P a ruta f = Some d"
  by (simp add: exito_def intentar_def)

lemma en_filtrados:
  assumes "distinct (map fst es)" and "(i, f, n) \<in> set es"
  shows "(i \<in> set (map fst (filter (\<lambda>e. Q (fst (snd e))) es))) = Q f"
proof
  assume "i \<in> set (map fst (filter (\<lambda>e. Q (fst (snd e))) es))"
  then obtain e where e: "e \<in> set es" "fst e = i" "Q (fst (snd e))" by auto
  then have "(i, snd e) \<in> set es" by (metis prod.collapse)
  with assms have "snd e = (f, n)" by (rule_tac eq_key_imp_eq_value)
  with e(3) show "Q f" by simp
next
  assume "Q f"
  with assms(2) have "(i, f, n) \<in> set (filter (\<lambda>e. Q (fst (snd e))) es)" by simp
  then have "fst (i, f, n) \<in> fst ` set (filter (\<lambda>e. Q (fst (snd e))) es)" by (rule imageI)
  then show "i \<in> set (map fst (filter (\<lambda>e. Q (fst (snd e))) es))" by simp
qed

lemma en_exitosas:
  assumes "extraer_todas_metricas P a ruta b y = Inr r" and "(i, f, n) \<in> set extractores"
  shows "(i \<in> set (metricas_exitosas (validacion r))) = (exito P a ruta f \<noteq> None)"
    and "(i \<in> set (metricas_fallidas (validacion r))) = (exito P a ruta f = None)"
    and "metricas r i = exito P a ruta f"
proof -
  show "(i \<in> set (metricas_exitosas (validacion r))) = (exito P a ruta f \<noteq> None)"
    unfolding extraer_todas_metricas_campos(2) [OF assms(1)]
    by (rule en_filtrados [OF extractores_ids(2) assms(2)])
  show "(i \<in> set (metricas_fallidas (validacion r))) = (exito P a ruta f = None)"
    unfolding extraer_todas_metricas_campos(3) [OF assms(1)]
    by (rule en_filtrados [OF extractores_ids(2) assms(2)])
  have ini: "metricas (resultados_iniciales a ruta b y) = Map.empty"
    by (simp add: resultados_iniciales_def)
  show "metricas r i = exito P a ruta f"
    unfolding extraer_todas_metricas_campos(1) [OF assms(1)] tras_extractores_def
    by (simp add: bucle_metricas_dentro [OF extractores_ids(2) assms(2)] ini
        split: option.splits)
qed

lemma cuenta_particion:
  "distinct (map fst es) \<Longrightarrow>
   count_list (map fst (filter Q es) @ map fst (filter (\<lambda>e. \<not> Q e) es)) i
     = (if i \<in> fst ` set es then 1 else 0)"
proof (induction es)
  case Nil
  show ?case by simp
next
  case (Cons e es)
  then have d: "distinct (map fst es)" and n: "fst e \<notin> fst ` set es" by auto
  show ?case
  proof (cases "i = fst e")
    case True
    with n have "i \<notin> fst ` set es" by simp
    with Cons.IH [OF d] True show ?thesis by (cases "Q e") simp_all
  next
    case False
    with Cons.IH [OF d] show ?thesis by (cases "Q e") simp_all
  qed
qed

section \<open>Resilience of the run\<close>

lemma exito_ejemplo:
  "exito parsers_ejemplo a ruta (\<lambda>P ahora ruta. como DeM001 (extraer_metrica_m001 P ahora ruta))
     = Some (to_dict_m001 (nueva_MetricaM001 1000 900 20000 18000 (1 / 20) (1 / 20) ''MEDIO''
          (Some 12) a))"
  "exito parsers_ejemplo a ruta (\<lambda>P ahora ruta. como DeM003 (extraer_metrica_m003 P ahora ruta))
     = Some (to_dict_m003 (nueva_MetricaM003 800 900 20000 18000 (1 / 25) (1 / 20) ''BUENO''
          1000 900 (5 / 4) 1 (Some 95) a))"
  "exito parsers_ejemplo a ruta (\<lambda>P ahora ruta. como DeM004 (extraer_metrica_m004 P ahora ruta))
     = Some (to_dict_m004 (nueva_MetricaM004 (5 / 4) 1 ''ADECUADO'' (Some 95) a))"
  "exito parsers_ejemplo a ruta (\<lambda>P ahora ruta. como DeM005 (extraer_metrica_m005 P ahora ruta))
     = None"
  by (simp_all add: exito_def intentar_def como_def ejemplo_m001 ejemplo_m003 ejemplo_m004
      ejemplo_m005)

lemma en_catalogo:
  "(''M001'', (\<lambda>P ahora ruta. como DeM001 (extraer_metrica_m001 P ahora ruta)),
      ''Provisi'' @ [CHR 0xF3] @ ''n/Cartera Total'') \<in> set extractores"
  "(''M003'', (\<lambda>P ahora ruta. como DeM003 (extraer_metrica_m003 P ahora ruta)),
      ''NPL Ratio'') \<in> set extractores"
  "(''M004'', (\<lambda>P ahora ruta. como DeM004 (extraer_metrica_m004 P ahora ruta)),
      ''Coverage Ratio'') \<in> set extractores"
  "(''M005'', (\<lambda>P ahora ruta. como DeM005 (extraer_metrica_m005 P ahora ruta)),
      ''Cartera Riesgosa (C+D+E)'') \<in> set extractores"
  by (simp_all add: extractores_def)

lemma corrida_ejemplo:
  assumes "extraer_todas_metricas parsers_ejemplo a ruta b y = Inr r"
  shows "metricas r ''M001''
           = Some (to_dict_m001 (nueva_MetricaM001 1000 900 20000 18000 (1 / 20) (1 / 20)
               ''MEDIO'' (Some 12) a))"
    and "metricas r ''M003''
           = Some (to_dict_m003 (nueva_MetricaM003 800 900 20000 18000 (1 / 25) (1 / 20)
               ''BUENO'' 1000 900 (5 / 4) 1 (Some 95) a))"
    and "metricas r ''M004''
           = Some (to_dict_m004 (nueva_MetricaM004 (5 / 4) 1 ''ADECUADO'' (Some 95) a))"
    and "metricas r ''M005'' = None"
    and "metricas_exitosas (validacion r) = [''M001'', ''M003'', ''M004'']"
    and "metricas_fallidas (validacion r) = [''M005'']"
proof -
  show "metricas r ''M001''
           = Some (to_dict_m001 (nueva_MetricaM001 1000 900 20000 18000 (1 / 20) (1 / 20)
               ''MEDIO'' (Some 12) a))"
    by (simp add: en_exitosas(3) [OF assms en_catalogo(1)] exito_ejemplo)
  show "metricas r ''M003''
           = Some (to_dict_m003 (nueva_MetricaM003 800 900 20000 18000 (1 / 25) (1 / 20)
               ''BUENO'' 1000 900 (5 / 4) 1 (Some 95) a))"
    by (simp add: en_exitosas(3) [OF assms en_catalogo(2)] exito_ejemplo)
  show "metricas r ''M004''
           = Some (to_dict_m004 (nueva_MetricaM004 (5 / 4) 1 ''ADECUADO'' (Some 95) a))"
    by (simp add: en_exitosas(3) [OF assms en_catalogo(3)] exito_ejemplo)
  show "metricas r ''M005'' = None"
    by (simp add: en_exitosas(3) [OF assms en_catalogo(4)] exito_ejemplo)
  show "metricas_exitosas (validacion r) = [''M001'', ''M003'', ''M004'']"
    unfolding extraer_todas_metricas_campos(2) [OF assms]
    by (simp add: extractores_def exito_ejemplo)
  show "metricas_fallidas (validacion r) = [''M005'']"
    unfolding extraer_todas_metricas_campos(3) [OF assms]
    by (simp add: extractores_def exito_ejemplo)
qed

lemma lecturas_ejemplo:
  assumes "extraer_todas_metricas parsers_ejemplo a ruta b y = Inr r"
  shows "leer (metricas r) ''M001'' ''provision'' = Some 1000"
    and "leer (metricas r) ''M001'' ''ratio'' = Some (1 / 20)"
    and "leer (metricas r) ''M003'' ''cartera_vencida'' = Some 800"
    and "leer (metricas r) ''M003'' ''npl_ratio'' = Some (1 / 25)"
    and "leer (metricas r) ''M004'' ''coverage_ratio'' = Some (5 / 4)"
    and "leer (metricas r) ''M005'' ''ratio_riesgosa_cde'' = None"
proof -
  note c = corrida_ejemplo [OF assms]
  show "leer (metricas r) ''M001'' ''provision'' = Some 1000"
    "leer (metricas r) ''M001'' ''ratio'' = Some (1 / 20)"
    using c(1) valores_m001 [of "metricas r" "nueva_MetricaM001 1000 900 20000 18000 (1 / 20)
        (1 / 20) ''MEDIO'' (Some 12) a"]
    by (simp_all add: nueva_MetricaM001_def)
  show "leer (metricas r) ''M003'' ''cartera_vencida'' = Some 800"
    "leer (metricas r) ''M003'' ''npl_ratio'' = Some (1 / 25)"
    using c(2) valores_m003 [of "metricas r" "nueva_MetricaM003 800 900 20000 18000 (1 / 25)
        (1 / 20) ''BUENO'' 1000 900 (5 / 4) 1 (Some 95) a"]
    by (simp_all add: nueva_MetricaM003_def)
  show "leer (metricas r) ''M004'' ''coverage_ratio'' = Some (5 / 4)"
    using c(3) valores_m004 [of "metricas r" "nueva_MetricaM004 (5 / 4) 1 ''ADECUADO''
        (Some 95) a"]
    by (simp add: nueva_MetricaM004_def)
  show "leer (metricas r) ''M005'' ''ratio_riesgosa_cde'' = None"
    using c(4) by (rule leer_ausente)
qed

lemma listas_tras_extractores:
  "metricas_exitosas (validacion (tras_extractores P a ruta b y))
     = map fst (filter (\<lambda>e. exito P a ruta (fst (snd e)) \<noteq> None) extractores)"
  "metricas_fallidas (validacion (tras_extractores P a ruta b y))
     = map fst (filter (\<lambda>e. exito P a ruta (fst (snd e)) = None) extractores)"
  by (simp_all add: tras_extractores_def bucle_exitosas bucle_fallidas resultados_iniciales_def)

lemma en_bucle:
  assumes "(i, f, n) \<in> set extractores"
  shows "(i \<in> set (metricas_exitosas (validacion (tras_extractores P a ruta b y))))
           = (exito P a ruta f \<noteq> None)"
    and "(i \<in> set (metricas_fallidas (validacion (tras_extractores P a ruta b y))))
           = (exito P a ruta f = None)"
    and "metricas (tras_extractores P a ruta b y) i = exito P a ruta f"
proof -
  show "(i \<in> set (metricas_exitosas (validacion (tras_extractores P a ruta b y))))
           = (exito P a ruta f \<noteq> None)"
    unfolding listas_tras_extractores by (rule en_filtrados [OF extractores_ids(2) assms])
  show "(i \<in> set (metricas_fallidas (validacion (tras_extractores P a ruta b y))))
           = (exito P a ruta f = None)"
    unfolding listas_tras_extractores by (rule en_filtrados [OF extractores_ids(2) assms])
  have ini: "metricas (resultados_iniciales a ruta b y) = Map.empty"
    by (simp add: resultados_iniciales_def)
  show "metricas (tras_extractores P a ruta b y) i = exito P a ruta f"
    unfolding tras_extractores_def
    by (simp add: bucle_metricas_dentro [OF extractores_ids(2) assms] ini split: option.splits)
qed

text \<open>
  The loop over the catalogue never raises, whatever the parsers do. An extractor that
  raises has its id among the failed metrics, not among the successful ones, and leaves no
  entry in \<open>metricas\<close>; so has one that returns \<open>None\<close> or whose metric cannot be
  turned into a dictionary. Every extractor that returns a metric whose dictionary can be
  built has that dictionary, unchanged, under its id and its id among the successful
  metrics, whatever happened to the other extractors.
\<close>

lemma bucle_resiste:
  assumes "(i, f, n) \<in> set extractores"
  shows "(\<exists>e. f P a ruta = Inl e) \<or> f P a ruta = Inr None
             \<or> (\<exists>m e. f P a ruta = Inr (Some m) \<and> to_dict m = Inl e) \<Longrightarrow>
         i \<in> set (metricas_fallidas (validacion (tras_extractores P a ruta b y)))
         \<and> i \<notin> set (metricas_exitosas (validacion (tras_extractores P a ruta b y)))
         \<and> metricas (tras_extractores P a ruta b y) i = None"
    and "f P a ruta = Inr (Some m) \<Longrightarrow> to_dict m = Inr d \<Longrightarrow>
         metricas (tras_extractores P a ruta b y) i = Some d
         \<and> i \<in> set (metricas_exitosas (validacion (tras_extractores P a ruta b y)))
         \<and> i \<notin> set (metricas_fallidas (validacion (tras_extractores P a ruta b y)))"
proof -
  assume "(\<exists>e. f P a ruta = Inl e) \<or> f P a ruta = Inr None
             \<or> (\<exists>m e. f P a ruta = Inr (Some m) \<and> to_dict m = Inl e)"
  then have "exito P a ruta f = None"
    by (auto simp: exito_def intentar_def)
  with en_bucle [OF assms, of P a ruta b y]
  show "i \<in> set (metricas_fallidas (validacion (tras_extractores P a ruta b y)))
         \<and> i \<notin> set (metricas_exitosas (validacion (tras_extractores P a ruta b y)))
         \<and> metricas (tras_extractores P a ruta b y) i = None"
    by simp
next
  assume "f P a ruta = Inr (Some m)" "to_dict m = Inr d"
  then have "exito P a ruta f = Some d" by (simp add: exito_Some)
  with en_bucle [OF assms, of P a ruta b y]
  show "metricas (tras_extractores P a ruta b y) i = Some d
         \<and> i \<in> set (metricas_exitosas (validacion (tras_extractores P a ruta b y)))
         \<and> i \<notin> set (metricas_fallidas (validacion (tras_extractores P a ruta b y)))"
    by simp
qed

text \<open>
  After the loop the run returns the report of the loop with the outcomes of the rules, or
  it raises: the validation is outside the \<open>try\<close>, and its first rule divides by the
  overdue portfolio of 2024 that M003 stored.
\<close>

lemma corrida_o_cero:
  "(divide_por_cero (metricas (tras_extractores P a ruta b y))
      \<and> extraer_todas_metricas P a ruta b y = Inl ZeroDivisionError)
   \<or> (\<not> divide_por_cero (metricas (tras_extractores P a ruta b y))
      \<and> (\<exists>r. extraer_todas_metricas P a ruta b y = Inr r
            \<and> metricas r = metricas (tras_extractores P a ruta b y)
            \<and> metricas_exitosas (validacion r)
                = metricas_exitosas (validacion (tras_extractores P a ruta b y))
            \<and> metricas_fallidas (validacion r)
                = metricas_fallidas (validacion (tras_extractores P a ruta b y))))"
proof (cases "divide_por_cero (metricas (tras_extractores P a ruta b y))")
  case True
  then show ?thesis by (simp add: extraer_todas_metricas_cero)
next
  case False
  then show ?thesis by (simp add: extraer_todas_metricas_eq)
qed

lemma no_cero_ejemplo:
  "\<not> divide_por_cero (metricas (tras_extractores parsers_ejemplo a ruta b y))"
proof -
  let ?ms = "metricas (tras_extractores parsers_ejemplo a ruta b y)"
  have "?ms ''M003'' = Some (to_dict_m003 (nueva_MetricaM003 800 900 20000 18000 (1 / 25)
      (1 / 20) ''BUENO'' 1000 900 (5 / 4) 1 (Some 95) a))"
    by (simp add: metricas_tras_extractores exito_ejemplo)
  then have "leer ?ms ''M003'' ''cartera_vencida'' = Some 800"
    using valores_m003(1) [of ?ms "nueva_MetricaM003 800 900 20000 18000 (1 / 25)
      (1 / 20) ''BUENO'' 1000 900 (5 / 4) 1 (Some 95) a"]
    by (simp add: nueva_MetricaM003_def)
  then show ?thesis by (simp add: divide_por_cero_def)
qed

lemma corrida_ejemplo_existe:
  "\<exists>r. extraer_todas_metricas parsers_ejemplo a ruta b y = Inr r"
  by (simp add: extraer_todas_metricas_eq [OF no_cero_ejemplo])










section \<open>The two lists of the report\<close>

lemma anotar_otro: "k \<noteq> k' \<Longrightarrow> anotar k v c k' = c k'"
  by (cases v) simp_all

lemma anotar_mismo: "anotar k v c k = (case v of None \<Rightarrow> c k | Some b \<Rightarrow> Some b)"
  by (cases v) simp_all

lemma union_filtrados:
  "set (map fst (filter Q es)) \<union> set (map fst (filter (\<lambda>e. \<not> Q e) es)) = fst ` set es"
  by (induction es) auto

text \<open>
  Claim C9. In the report a run returns every id of the catalogue stands exactly once in
  the two lists \<open>metricas_exitosas\<close> and \<open>metricas_fallidas\<close> taken together, so in
  exactly one of them; the two lists hold nothing else; and the keys of \<open>metricas\<close>
  are exactly the ids of \<open>metricas_exitosas\<close>.
\<close>

theorem exitosas_y_fallidas_particion:
  "map fst extractores = [''M001'', ''M003'', ''M004'', ''M005'']
   \<and> (\<forall>r. extraer_todas_metricas P a ruta b y = Inr r \<longrightarrow>
        (\<forall>i \<in> {''M001'', ''M003'', ''M004'', ''M005''}.
           count_list (metricas_exitosas (validacion r) @ metricas_fallidas (validacion r)) i = 1)
        \<and> set (metricas_exitosas (validacion r)) \<union> set (metricas_fallidas (validacion r))
            = {''M001'', ''M003'', ''M004'', ''M005''}
        \<and> set (metricas_exitosas (validacion r)) \<inter> set (metricas_fallidas (validacion r)) = {}
        \<and> dom (metricas r) = set (metricas_exitosas (validacion r)))"
proof (intro conjI allI impI)
  show "map fst extractores = [''M001'', ''M003'', ''M004'', ''M005'']"
    by (rule extractores_ids(1))
next
  fix r assume r: "extraer_todas_metricas P a ruta b y = Inr r"
  let ?Q = "\<lambda>e. exito P a ruta (fst (snd e)) \<noteq> None"
  have ex: "metricas_exitosas (validacion r) = map fst (filter ?Q extractores)"
    by (rule extraer_todas_metricas_campos(2) [OF r])
  have fa: "metricas_fallidas (validacion r) = map fst (filter (\<lambda>e. \<not> ?Q e) extractores)"
    by (simp add: extraer_todas_metricas_campos(3) [OF r])
  have ids: "fst ` set extractores = {''M001'', ''M003'', ''M004'', ''M005''}"
    using extractores_ids(1) by (metis list.set_map list.simps(15) empty_set)
  have cuenta: "count_list (metricas_exitosas (validacion r) @ metricas_fallidas (validacion r)) i
      = (if i \<in> {''M001'', ''M003'', ''M004'', ''M005''} then 1 else 0)" for i
    unfolding ex fa cuenta_particion [OF extractores_ids(2)] ids ..
  show "\<forall>i \<in> {''M001'', ''M003'', ''M004'', ''M005''}.
           count_list (metricas_exitosas (validacion r) @ metricas_fallidas (validacion r)) i = 1"
    using cuenta by simp
  have un: "set (map fst (filter ?Q extractores)) \<union> set (map fst (filter (\<lambda>e. \<not> ?Q e) extractores))
      = fst ` set extractores" by (rule union_filtrados)
  show "set (metricas_exitosas (validacion r)) \<union> set (metricas_fallidas (validacion r))
            = {''M001'', ''M003'', ''M004'', ''M005''}"
    unfolding ex fa un ids ..
  show "set (metricas_exitosas (validacion r)) \<inter> set (metricas_fallidas (validacion r)) = {}"
  proof (rule ccontr)
    assume "set (metricas_exitosas (validacion r)) \<inter> set (metricas_fallidas (validacion r)) \<noteq> {}"
    then obtain i where i: "i \<in> set (metricas_exitosas (validacion r))"
      "i \<in> set (metricas_fallidas (validacion r))" by blast
    then have "2 \<le> count_list (metricas_exitosas (validacion r)
        @ metricas_fallidas (validacion r)) i"
      using count_list_0_iff [of "metricas_exitosas (validacion r)" i]
        count_list_0_iff [of "metricas_fallidas (validacion r)" i] by simp
    with cuenta [of i] show False by (simp split: if_splits)
  qed
  have "dom (metricas r) = set (map fst (filter ?Q extractores))"
    unfolding extraer_todas_metricas_campos(1) [OF r] tras_extractores_def bucle_dom
    by (simp add: resultados_iniciales_def)
  then show "dom (metricas r) = set (metricas_exitosas (validacion r))"
    by (simp only: ex)
qed

theorem exitosas_y_fallidas_particion_ejemplo:
  "\<exists>r. extraer_todas_metricas parsers_ejemplo ''2025-01-01'' ''informe.pdf''
            ''bancolombia'' 2024 = Inr r
     \<and> metricas_exitosas (validacion r) = [''M001'', ''M003'', ''M004'']
     \<and> metricas_fallidas (validacion r) = [''M005'']
     \<and> dom (metricas r) = {''M001'', ''M003'', ''M004''}
     \<and> count_list ([''M001'', ''M003'', ''M004''] @ [''M005'']) ''M005'' = 1"
proof -
  note t = exitosas_y_fallidas_particion
    [of parsers_ejemplo "''2025-01-01''" "''informe.pdf''" "''bancolombia''" 2024]
  from corrida_ejemplo_existe obtain r where r: "extraer_todas_metricas parsers_ejemplo
      ''2025-01-01'' ''informe.pdf'' ''bancolombia'' 2024 = Inr r" ..
  note u = t [THEN conjunct2, rule_format, OF r]
  have d: "dom (metricas r) = set (metricas_exitosas (validacion r))"
    by (rule u [THEN conjunct2, THEN conjunct2, THEN conjunct2])
  have e: "metricas_exitosas (validacion r) = [''M001'', ''M003'', ''M004'']"
    by (rule corrida_ejemplo(5) [OF r])
  have f: "metricas_fallidas (validacion r) = [''M005'']"
    by (rule corrida_ejemplo(6) [OF r])
  have d': "dom (metricas r) = {''M001'', ''M003'', ''M004''}"
    unfolding d e by simp
  have c: "count_list ([''M001'', ''M003'', ''M004''] @ [''M005'']) ''M005'' = 1"
    by simp
  from r e f d' c show ?thesis by blast
qed

section \<open>Independence of the coherence rules\<close>

lemma exito_anomalos:
  "exito parsers_anomalos a ruta (\<lambda>P ahora ruta. como DeM001 (extraer_metrica_m001 P ahora ruta))
     = Some (to_dict_m001 (nueva_MetricaM001 1000 900 20000 18000 (1 / 20) (1 / 20) ''MEDIO''
          (Some 12) a))"
  "exito parsers_anomalos a ruta (\<lambda>P ahora ruta. como DeM003 (extraer_metrica_m003 P ahora ruta))
     = Some (to_dict_m003 (nueva_MetricaM003 800 900 20000 18000 (1 / 25) (1 / 20) ''BUENO''
          1000 900 (5 / 4) 1 (Some 95) a))"
  "exito parsers_anomalos a ruta (\<lambda>P ahora ruta. como DeM004 (extraer_metrica_m004 P ahora ruta))
     = Some (to_dict_m004 (nueva_MetricaM004 (5 / 4) 1 ''ADECUADO'' (Some 95) a))"
proof -
  have m1: "extraer_metrica_m001 parsers_anomalos a ruta
     = Inr (Some (nueva_MetricaM001 1000 900 20000 18000 (1 / 20) (1 / 20) ''MEDIO''
          (Some 12) a))"
    by (simp add: extraer_metrica_m001_def parsers_anomalos_def parsers_ejemplo_def
        evaluar_extractores evaluar_nivel_riesgo_def)
  have m3: "extraer_metrica_m003 parsers_anomalos a ruta
     = Inr (Some (nueva_MetricaM003 800 900 20000 18000 (1 / 25) (1 / 20) ''BUENO''
          1000 900 (5 / 4) 1 (Some 95) a))"
    by (simp add: extraer_metrica_m003_def parsers_anomalos_def parsers_ejemplo_def
        evaluar_extractores evaluar_calidad_cartera_def)
  have m4: "extraer_metrica_m004 parsers_anomalos a ruta
     = Inr (Some (nueva_MetricaM004 (5 / 4) 1 ''ADECUADO'' (Some 95) a))"
    by (simp add: extraer_metrica_m004_def parsers_anomalos_def parsers_ejemplo_def
        evaluar_extractores evaluar_nivel_cobertura_def)
  show "exito parsers_anomalos a ruta
      (\<lambda>P ahora ruta. como DeM001 (extraer_metrica_m001 P ahora ruta))
     = Some (to_dict_m001 (nueva_MetricaM001 1000 900 20000 18000 (1 / 20) (1 / 20) ''MEDIO''
          (Some 12) a))"
    by (simp add: exito_def intentar_def como_def m1)
  show "exito parsers_anomalos a ruta
      (\<lambda>P ahora ruta. como DeM003 (extraer_metrica_m003 P ahora ruta))
     = Some (to_dict_m003 (nueva_MetricaM003 800 900 20000 18000 (1 / 25) (1 / 20) ''BUENO''
          1000 900 (5 / 4) 1 (Some 95) a))"
    by (simp add: exito_def intentar_def como_def m3)
  show "exito parsers_anomalos a ruta
      (\<lambda>P ahora ruta. como DeM004 (extraer_metrica_m004 P ahora ruta))
     = Some (to_dict_m004 (nueva_MetricaM004 (5 / 4) 1 ''ADECUADO'' (Some 95) a))"
    by (simp add: exito_def intentar_def como_def m4)
qed

lemma anomalos_m005:
  "extraer_metrica_m005 parsers_anomalos a ruta
   = Inr (Some (nueva_MetricaM005 17800 (Some 1600) 300 200 100 20000
        (Some 15500) (Some 1420) 500 400 180 18000 (3 / 100) (3 / 50) ''BUENO''
        (Some 101) a))"
  by (simp add: extraer_metrica_m005_def parsers_anomalos_def parsers_ejemplo_def
      evaluar_extractores ratio_riesgosa_def evaluar_nivel_riesgo_m005_def)

lemma anomalos_to_dict_m005:
  "\<exists>d. to_dict_m005 (nueva_MetricaM005 17800 (Some 1600) 300 200 100 20000
        (Some 15500) (Some 1420) 500 400 180 18000 (3 / 100) (3 / 50) ''BUENO''
        (Some 101) a) = Inr d"
  by (simp add: to_dict_m005_def nueva_MetricaM005_def truediv_def)

lemma lecturas_anomalos:
  assumes "extraer_todas_metricas parsers_anomalos a ruta b y = Inr r"
  shows "leer (metricas r) ''M001'' ''provision'' = Some 1000"
    and "leer (metricas r) ''M001'' ''ratio'' = Some (1 / 20)"
    and "leer (metricas r) ''M003'' ''cartera_vencida'' = Some 800"
    and "leer (metricas r) ''M003'' ''npl_ratio'' = Some (1 / 25)"
    and "leer (metricas r) ''M004'' ''coverage_ratio'' = Some (5 / 4)"
    and "leer (metricas r) ''M005'' ''ratio_riesgosa_cde'' = Some (3 / 100)"
proof -
  have c1: "metricas r ''M001''
      = Some (to_dict_m001 (nueva_MetricaM001 1000 900 20000 18000 (1 / 20) (1 / 20) ''MEDIO''
          (Some 12) a))"
    by (simp add: en_exitosas(3) [OF assms en_catalogo(1)] exito_anomalos)
  have c3: "metricas r ''M003''
      = Some (to_dict_m003 (nueva_MetricaM003 800 900 20000 18000 (1 / 25) (1 / 20) ''BUENO''
          1000 900 (5 / 4) 1 (Some 95) a))"
    by (simp add: en_exitosas(3) [OF assms en_catalogo(2)] exito_anomalos)
  have c4: "metricas r ''M004''
      = Some (to_dict_m004 (nueva_MetricaM004 (5 / 4) 1 ''ADECUADO'' (Some 95) a))"
    by (simp add: en_exitosas(3) [OF assms en_catalogo(3)] exito_anomalos)
  obtain d where d: "to_dict_m005 (nueva_MetricaM005 17800 (Some 1600) 300 200 100 20000
        (Some 15500) (Some 1420) 500 400 180 18000 (3 / 100) (3 / 50) ''BUENO''
        (Some 101) a) = Inr d"
    using anomalos_to_dict_m005 [of a] ..
  have "exito parsers_anomalos a ruta
      (\<lambda>P ahora ruta. como DeM005 (extraer_metrica_m005 P ahora ruta)) = Some d"
    by (simp add: exito_def intentar_def como_def anomalos_m005 d)
  then have c5: "metricas r ''M005'' = Some d"
    by (simp add: en_exitosas(3) [OF assms en_catalogo(4)])
  show "leer (metricas r) ''M001'' ''provision'' = Some 1000"
    "leer (metricas r) ''M001'' ''ratio'' = Some (1 / 20)"
    using c1 valores_m001 [of "metricas r" "nueva_MetricaM001 1000 900 20000 18000 (1 / 20)
        (1 / 20) ''MEDIO'' (Some 12) a"]
    by (simp_all add: nueva_MetricaM001_def)
  show "leer (metricas r) ''M003'' ''cartera_vencida'' = Some 800"
    "leer (metricas r) ''M003'' ''npl_ratio'' = Some (1 / 25)"
    using c3 valores_m003 [of "metricas r" "nueva_MetricaM003 800 900 20000 18000 (1 / 25)
        (1 / 20) ''BUENO'' 1000 900 (5 / 4) 1 (Some 95) a"]
    by (simp_all add: nueva_MetricaM003_def)
  show "leer (metricas r) ''M004'' ''coverage_ratio'' = Some (5 / 4)"
    using c4 valores_m004 [of "metricas r" "nueva_MetricaM004 (5 / 4) 1 ''ADECUADO''
        (Some 95) a"]
    by (simp add: nueva_MetricaM004_def)
  show "leer (metricas r) ''M005'' ''ratio_riesgosa_cde'' = Some (3 / 100)"
    using c5 d valores_m005 [of "metricas r" d "nueva_MetricaM005 17800 (Some 1600) 300 200 100
        20000 (Some 15500) (Some 1420) 500 400 180 18000 (3 / 100) (3 / 50) ''BUENO''
        (Some 101) a"]
    by (simp add: nueva_MetricaM005_def)
qed

text \<open>
  In the report a run returns each rule whose metrics are all present has its boolean
  recorded under its own name, and a rule with a metric missing records nothing. The
  three outcomes are functions of the metrics alone, each of the fields its rule reads:
  the outcome of one rule, true or false, has no part in whether another is recorded nor
  in what it records. Nothing else is recorded.
\<close>

lemma reglas_independientes:
  assumes "extraer_todas_metricas P a ruta b y = Inr r"
  shows "coherencia (validacion r) ''coverage_coherente'' = resultado_cobertura (metricas r)"
    and "coherencia (validacion r) ''riesgosa_mayor_que_npl'' = resultado_riesgosa (metricas r)"
    and "coherencia (validacion r) ''provision_rango_valido'' = resultado_rango (metricas r)"
    and "dom (coherencia (validacion r))
            \<subseteq> {''coverage_coherente'', ''riesgosa_mayor_que_npl'', ''provision_rango_valido''}"
    and "(resultado_cobertura (metricas r) \<noteq> None)
            = (metricas r ''M001'' \<noteq> None \<and> metricas r ''M003'' \<noteq> None
               \<and> metricas r ''M004'' \<noteq> None)"
    and "(resultado_riesgosa (metricas r) \<noteq> None)
            = (metricas r ''M003'' \<noteq> None \<and> metricas r ''M005'' \<noteq> None)"
    and "(resultado_rango (metricas r) \<noteq> None) = (metricas r ''M001'' \<noteq> None)"
proof -
  note c = extraer_todas_metricas_campos [OF assms]
  show "coherencia (validacion r) ''coverage_coherente'' = resultado_cobertura (metricas r)"
    by (rule c(4))
  show "coherencia (validacion r) ''riesgosa_mayor_que_npl'' = resultado_riesgosa (metricas r)"
    by (rule c(5))
  show "coherencia (validacion r) ''provision_rango_valido'' = resultado_rango (metricas r)"
    by (rule c(6))
  show "dom (coherencia (validacion r))
            \<subseteq> {''coverage_coherente'', ''riesgosa_mayor_que_npl'', ''provision_rango_valido''}"
    by (rule c(7))
  show "(resultado_cobertura (metricas r) \<noteq> None)
            = (metricas r ''M001'' \<noteq> None \<and> metricas r ''M003'' \<noteq> None
               \<and> metricas r ''M004'' \<noteq> None)"
    by (rule regla_cobertura_bien(2) [OF c(8)])
  show "(resultado_riesgosa (metricas r) \<noteq> None)
            = (metricas r ''M003'' \<noteq> None \<and> metricas r ''M005'' \<noteq> None)"
    by (rule regla_riesgosa_bien(2) [OF c(8)])
  show "(resultado_rango (metricas r) \<noteq> None) = (metricas r ''M001'' \<noteq> None)"
    by (rule regla_rango_bien(2) [OF c(8)])
qed







section \<open>The coverage rule\<close>

text \<open>The test of the first rule on three triples of numbers, in double precision.\<close>

lemma prueba_coherente:
  "menor (valor_absoluto (restar (redondear (1000 / 800)) (Finito (5 / 4)))) (redondear 0.01)"
proof -
  have q: "redondear (1000 / 800) = Finito (5 / 4)"
    by (subst redondear_normal [of 0]) (simp_all add: evaluar_redondeo)
  have d: "restar (Finito (5 / 4)) (Finito (5 / 4)) = Finito 0"
    by (simp add: redondear_cero)
  show ?thesis unfolding q d redondear_centesimo by simp
qed

lemma prueba_incoherente:
  "\<not> menor (valor_absoluto (restar (redondear (1000 / 800)) (Finito (3 / 2)))) (redondear 0.01)"
proof -
  have q: "redondear (1000 / 800) = Finito (5 / 4)"
    by (subst redondear_normal [of 0]) (simp_all add: evaluar_redondeo)
  have "redondear (5 / 4 - 3 / 2) = Finito (- (1 / 4))"
    by (subst redondear_normal [of "- 2"]) (simp_all add: evaluar_redondeo)
  then have d: "restar (Finito (5 / 4)) (Finito (3 / 2)) = Finito (- (1 / 4))"
    by simp
  show ?thesis unfolding q d redondear_centesimo by simp
qed

text \<open>The quotient of 2808 and 450 rounds to a double above 6.24, and its distance to 6.25,
  which is a double, is below the double nearest to one hundredth.\<close>

lemma prueba_limite:
  "redondear (2808 / 450) = Finito (7025615418697974 / 2 ^ 50)"
  "restar (Finito (7025615418697974 / 2 ^ 50)) (Finito (25 / 4))
     = Finito (- (11258999068426 / 2 ^ 50))"
  "menor (valor_absoluto (restar (redondear (2808 / 450)) (Finito (25 / 4)))) (redondear 0.01)"
proof -
  show q: "redondear (2808 / 450) = Finito (7025615418697974 / 2 ^ 50)"
    by (subst redondear_normal [of 2]) (simp_all add: evaluar_redondeo)
  have "redondear (7025615418697974 / 2 ^ 50 - 25 / 4) = Finito (- (11258999068426 / 2 ^ 50))"
    by (subst redondear_normal [of "- 7"]) (simp_all add: evaluar_redondeo)
  then show d: "restar (Finito (7025615418697974 / 2 ^ 50)) (Finito (25 / 4))
     = Finito (- (11258999068426 / 2 ^ 50))" by simp
  show "menor (valor_absoluto (restar (redondear (2808 / 450)) (Finito (25 / 4))))
      (redondear 0.01)"
    unfolding q d redondear_centesimo by simp
qed

lemma lecturas_incoherentes:
  "leer (metricas resultados_incoherentes) ''M001'' ''provision'' = Some 1000"
  "leer (metricas resultados_incoherentes) ''M001'' ''ratio'' = Some (1 / 20)"
  "leer (metricas resultados_incoherentes) ''M003'' ''cartera_vencida'' = Some 800"
  "leer (metricas resultados_incoherentes) ''M003'' ''npl_ratio'' = Some (1 / 25)"
  "leer (metricas resultados_incoherentes) ''M004'' ''coverage_ratio'' = Some (3 / 2)"
  "metricas resultados_incoherentes ''M005'' = None"
proof -
  let ?ms = "metricas resultados_incoherentes"
  have c1: "?ms ''M001''
      = Some (to_dict_m001 (nueva_MetricaM001 1000 900 20000 18000 (1 / 20) (1 / 20) ''MEDIO''
          (Some 12) ''2025-01-01''))"
    by (simp add: resultados_incoherentes_def)
  have c3: "?ms ''M003''
      = Some (to_dict_m003 (nueva_MetricaM003 800 900 20000 18000 (1 / 25) (1 / 20) ''BUENO''
          1000 900 (5 / 4) 1 (Some 95) ''2025-01-01''))"
    by (simp add: resultados_incoherentes_def)
  have c4: "?ms ''M004''
      = Some (to_dict_m004 (nueva_MetricaM004 (3 / 2) 1 ''ADECUADO'' (Some 95)
          ''2025-01-01''))"
    by (simp add: resultados_incoherentes_def)
  show "leer ?ms ''M001'' ''provision'' = Some 1000" "leer ?ms ''M001'' ''ratio'' = Some (1 / 20)"
    using c1 valores_m001 [of ?ms "nueva_MetricaM001 1000 900 20000 18000 (1 / 20)
        (1 / 20) ''MEDIO'' (Some 12) ''2025-01-01''"]
    by (simp_all add: nueva_MetricaM001_def)
  show "leer ?ms ''M003'' ''cartera_vencida'' = Some 800"
    "leer ?ms ''M003'' ''npl_ratio'' = Some (1 / 25)"
    using c3 valores_m003 [of ?ms "nueva_MetricaM003 800 900 20000 18000 (1 / 25)
        (1 / 20) ''BUENO'' 1000 900 (5 / 4) 1 (Some 95) ''2025-01-01''"]
    by (simp_all add: nueva_MetricaM003_def)
  show "leer ?ms ''M004'' ''coverage_ratio'' = Some (3 / 2)"
    using c4 valores_m004 [of ?ms "nueva_MetricaM004 (3 / 2) 1 ''ADECUADO''
        (Some 95) ''2025-01-01''"]
    by (simp add: nueva_MetricaM004_def)
  show "?ms ''M005'' = None" by (simp add: resultados_incoherentes_def)
qed

lemma lecturas_limite:
  "leer (metricas resultados_limite) ''M001'' ''provision'' = Some 2808"
  "leer (metricas resultados_limite) ''M001'' ''ratio'' = Some (1 / 20)"
  "leer (metricas resultados_limite) ''M003'' ''cartera_vencida'' = Some 450"
  "leer (metricas resultados_limite) ''M003'' ''npl_ratio'' = Some (450 / 56160)"
  "leer (metricas resultados_limite) ''M004'' ''coverage_ratio'' = Some (25 / 4)"
  "metricas resultados_limite ''M005'' = None"
proof -
  let ?ms = "metricas resultados_limite"
  have c1: "?ms ''M001''
      = Some (to_dict_m001 (nueva_MetricaM001 2808 2700 56160 54000 (1 / 20) (1 / 20) ''MEDIO''
          (Some 12) ''2025-01-01''))"
    by (simp add: resultados_limite_def)
  have c3: "?ms ''M003''
      = Some (to_dict_m003 (nueva_MetricaM003 450 450 56160 54000 (450 / 56160)
          (450 / 54000) ''EXCELENTE'' 2808 2700 (25 / 4) 6 (Some 95) ''2025-01-01''))"
    by (simp add: resultados_limite_def)
  have c4: "?ms ''M004''
      = Some (to_dict_m004 (nueva_MetricaM004 (25 / 4) 6 ''CONSERVADOR'' (Some 95)
          ''2025-01-01''))"
    by (simp add: resultados_limite_def)
  show "leer ?ms ''M001'' ''provision'' = Some 2808" "leer ?ms ''M001'' ''ratio'' = Some (1 / 20)"
    using c1 valores_m001 [of ?ms "nueva_MetricaM001 2808 2700 56160 54000 (1 / 20)
        (1 / 20) ''MEDIO'' (Some 12) ''2025-01-01''"]
    by (simp_all add: nueva_MetricaM001_def)
  show "leer ?ms ''M003'' ''cartera_vencida'' = Some 450"
    "leer ?ms ''M003'' ''npl_ratio'' = Some (450 / 56160)"
    using c3 valores_m003 [of ?ms "nueva_MetricaM003 450 450 56160 54000 (450 / 56160)
        (450 / 54000) ''EXCELENTE'' 2808 2700 (25 / 4) 6 (Some 95) ''2025-01-01''"]
    by (simp_all add: nueva_MetricaM003_def)
  show "leer ?ms ''M004'' ''coverage_ratio'' = Some (25 / 4)"
    using c4 valores_m004 [of ?ms "nueva_MetricaM004 (25 / 4) 6 ''CONSERVADOR''
        (Some 95) ''2025-01-01''"]
    by (simp add: nueva_MetricaM004_def)
  show "?ms ''M005'' = None" by (simp add: resultados_limite_def)
qed

lemma bien_formadas_incoherentes:
  "bien_formadas (metricas resultados_incoherentes)
   \<and> \<not> divide_por_cero (metricas resultados_incoherentes)"
  unfolding bien_formadas_def divide_por_cero_def by (simp add: lecturas_incoherentes)

lemma bien_formadas_vacias: "bien_formadas Map.empty \<and> \<not> divide_por_cero Map.empty"
  by (simp add: bien_formadas_def divide_por_cero_def)

lemma resultado_cobertura_Some:
  assumes "resultado_cobertura ms = Some v"
  obtains p cv cr where "leer ms ''M001'' ''provision'' = Some p"
    "leer ms ''M003'' ''cartera_vencida'' = Some cv" "leer ms ''M004'' ''coverage_ratio'' = Some cr"
    "v = menor (valor_absoluto (restar (redondear (p / cv)) (Finito cr))) (redondear 0.01)"
  using assms unfolding resultado_cobertura_def
  by (auto split: option.splits)

text \<open>
  Claim C6, as amended. Given metrics as the extractors build them, and unless the three
  metrics are present with an overdue portfolio of zero, the coverage rule of
  \<open>validar_coherencia\<close> raises nothing; it records nothing when one of M001, M003 and
  M004 is absent; when the three are present it records under \<open>coverage_coherente\<close> the
  outcome of the test in double precision: the provision of 2024 of M001 is divided by the
  overdue portfolio of 2024 of M003 and the quotient rounded, the coverage ratio of 2024
  of M004 is subtracted and the difference rounded, and its absolute value is compared,
  strictly, with the double nearest to 0.01. In the report a run returns the entry is there
  exactly when the three metrics are, and the overdue portfolio it divided by is not zero.
\<close>

theorem regla_cobertura_coherente:
  "(bien_formadas (metricas r) \<and> \<not> divide_por_cero (metricas r) \<longrightarrow>
      (\<exists>r'. validar_coherencia r = Inr r'
         \<and> (metricas r ''M001'' = None \<or> metricas r ''M003'' = None \<or> metricas r ''M004'' = None
              \<longrightarrow> coherencia (validacion r') ''coverage_coherente''
                    = coherencia (validacion r) ''coverage_coherente'')
         \<and> (metricas r ''M001'' \<noteq> None \<and> metricas r ''M003'' \<noteq> None \<and> metricas r ''M004'' \<noteq> None
              \<longrightarrow> (\<exists>p cv cr. leer (metricas r) ''M001'' ''provision'' = Some p
                     \<and> leer (metricas r) ''M003'' ''cartera_vencida'' = Some cv
                     \<and> leer (metricas r) ''M004'' ''coverage_ratio'' = Some cr
                     \<and> coherencia (validacion r') ''coverage_coherente''
                         = Some (menor (valor_absoluto (restar (redondear (p / cv)) (Finito cr)))
                                       (redondear 0.01))))))
   \<and> (\<forall>r'. extraer_todas_metricas P a ruta b y = Inr r' \<longrightarrow>
         (coherencia (validacion r') ''coverage_coherente'' \<noteq> None)
             = (metricas r' ''M001'' \<noteq> None \<and> metricas r' ''M003'' \<noteq> None
                \<and> metricas r' ''M004'' \<noteq> None)
         \<and> (\<forall>p cv cr. leer (metricas r') ''M001'' ''provision'' = Some p
                \<and> leer (metricas r') ''M003'' ''cartera_vencida'' = Some cv
                \<and> leer (metricas r') ''M004'' ''coverage_ratio'' = Some cr
              \<longrightarrow> cv \<noteq> 0
                  \<and> coherencia (validacion r') ''coverage_coherente''
                    = Some (menor (valor_absoluto (restar (redondear (p / cv)) (Finito cr)))
                                  (redondear 0.01))))"
proof (intro conjI impI allI)
  assume "bien_formadas (metricas r) \<and> \<not> divide_por_cero (metricas r)"
  then have bf: "bien_formadas (metricas r)" and nz: "\<not> divide_por_cero (metricas r)"
    by simp_all
  let ?ms = "metricas r"
  let ?c = "anotar ''provision_rango_valido'' (resultado_rango ?ms)
          (anotar ''riesgosa_mayor_que_npl'' (resultado_riesgosa ?ms)
            (anotar ''coverage_coherente'' (resultado_cobertura ?ms)
              (coherencia (validacion r))))"
  let ?r' = "r\<lparr> validacion := (validacion r)\<lparr> coherencia := ?c \<rparr> \<rparr>"
  have v: "validar_coherencia r = Inr ?r'" by (rule validar_coherencia_bien [OF bf nz])
  have k: "coherencia (validacion ?r') ''coverage_coherente''
      = (case resultado_cobertura ?ms of
           None \<Rightarrow> coherencia (validacion r) ''coverage_coherente''
         | Some b \<Rightarrow> Some b)"
    by (simp add: anotar_otro anotar_mismo)
  have a: "coherencia (validacion ?r') ''coverage_coherente''
      = coherencia (validacion r) ''coverage_coherente''"
    if "?ms ''M001'' = None \<or> ?ms ''M003'' = None \<or> ?ms ''M004'' = None"
  proof -
    from that regla_cobertura_bien(2) [OF bf] have "resultado_cobertura ?ms = None" by auto
    with k show ?thesis by simp
  qed
  have b: "\<exists>p cv cr. leer ?ms ''M001'' ''provision'' = Some p
        \<and> leer ?ms ''M003'' ''cartera_vencida'' = Some cv
        \<and> leer ?ms ''M004'' ''coverage_ratio'' = Some cr
        \<and> coherencia (validacion ?r') ''coverage_coherente''
            = Some (menor (valor_absoluto (restar (redondear (p / cv)) (Finito cr)))
                          (redondear 0.01))"
    if "?ms ''M001'' \<noteq> None \<and> ?ms ''M003'' \<noteq> None \<and> ?ms ''M004'' \<noteq> None"
  proof -
    from that regla_cobertura_bien(2) [OF bf] obtain w where w: "resultado_cobertura ?ms = Some w"
      by auto
    then obtain p cv cr where l: "leer ?ms ''M001'' ''provision'' = Some p"
      "leer ?ms ''M003'' ''cartera_vencida'' = Some cv" "leer ?ms ''M004'' ''coverage_ratio'' = Some cr"
      "w = menor (valor_absoluto (restar (redondear (p / cv)) (Finito cr))) (redondear 0.01)"
      by (rule resultado_cobertura_Some)
    from k w l(4) have "coherencia (validacion ?r') ''coverage_coherente''
        = Some (menor (valor_absoluto (restar (redondear (p / cv)) (Finito cr)))
                      (redondear 0.01))" by simp
    with l(1,2,3) show ?thesis by blast
  qed
  from v a b show "\<exists>r'. validar_coherencia r = Inr r'
         \<and> (metricas r ''M001'' = None \<or> metricas r ''M003'' = None \<or> metricas r ''M004'' = None
              \<longrightarrow> coherencia (validacion r') ''coverage_coherente''
                    = coherencia (validacion r) ''coverage_coherente'')
         \<and> (metricas r ''M001'' \<noteq> None \<and> metricas r ''M003'' \<noteq> None \<and> metricas r ''M004'' \<noteq> None
              \<longrightarrow> (\<exists>p cv cr. leer (metricas r) ''M001'' ''provision'' = Some p
                     \<and> leer (metricas r) ''M003'' ''cartera_vencida'' = Some cv
                     \<and> leer (metricas r) ''M004'' ''coverage_ratio'' = Some cr
                     \<and> coherencia (validacion r') ''coverage_coherente''
                         = Some (menor (valor_absoluto (restar (redondear (p / cv)) (Finito cr)))
                                       (redondear 0.01))))"
    by (intro exI [of _ ?r'] conjI impI)
next
  fix r' assume r: "extraer_todas_metricas P a ruta b y = Inr r'"
  note c = extraer_todas_metricas_campos [OF r]
  show "(coherencia (validacion r') ''coverage_coherente'' \<noteq> None)
             = (metricas r' ''M001'' \<noteq> None \<and> metricas r' ''M003'' \<noteq> None
                \<and> metricas r' ''M004'' \<noteq> None)"
    unfolding c(4) by (rule regla_cobertura_bien(2) [OF c(8)])
  fix p cv cr
  assume l: "leer (metricas r') ''M001'' ''provision'' = Some p
                \<and> leer (metricas r') ''M003'' ''cartera_vencida'' = Some cv
                \<and> leer (metricas r') ''M004'' ''coverage_ratio'' = Some cr"
  with c(9) show "cv \<noteq> 0"
    by (auto simp: divide_por_cero_def dest: leer_presente)
  from l show "coherencia (validacion r') ''coverage_coherente''
      = Some (menor (valor_absoluto (restar (redondear (p / cv)) (Finito cr))) (redondear 0.01))"
    unfolding c(4) by (simp add: resultado_cobertura_def)
qed

lemma presentes_incoherentes:
  "metricas resultados_incoherentes ''M001'' \<noteq> None
   \<and> metricas resultados_incoherentes ''M003'' \<noteq> None
   \<and> metricas resultados_incoherentes ''M004'' \<noteq> None"
  by (simp add: resultados_incoherentes_def)

theorem regla_cobertura_coherente_ejemplo:
  "(\<exists>r'. validar_coherencia resultados_incoherentes = Inr r'
       \<and> coherencia (validacion r') ''coverage_coherente'' = Some False)
   \<and> \<not> menor (valor_absoluto (restar (redondear (1000 / 800)) (Finito (3 / 2))))
              (redondear 0.01)
   \<and> (\<exists>r'. validar_coherencia
              (resultados_iniciales ''2025-01-01'' ''informe.pdf'' ''bancolombia'' 2024) = Inr r'
       \<and> coherencia (validacion r') ''coverage_coherente'' = None)
   \<and> (\<exists>r. extraer_todas_metricas parsers_ejemplo ''2025-01-01'' ''informe.pdf''
              ''bancolombia'' 2024 = Inr r
       \<and> coherencia (validacion r) ''coverage_coherente'' = Some True)
   \<and> menor (valor_absoluto (restar (redondear (1000 / 800)) (Finito (5 / 4)))) (redondear 0.01)"
proof -
  have w1:
      "\<exists>r'. validar_coherencia resultados_incoherentes = Inr r'
         \<and> coherencia (validacion r') ''coverage_coherente'' = Some False"
  proof -
    note t = regla_cobertura_coherente [of resultados_incoherentes, THEN conjunct1, rule_format,
        OF bien_formadas_incoherentes]
    from t obtain r' where all: "validar_coherencia resultados_incoherentes = Inr r'
        \<and> (metricas resultados_incoherentes ''M001'' = None
            \<or> metricas resultados_incoherentes ''M003'' = None
            \<or> metricas resultados_incoherentes ''M004'' = None
          \<longrightarrow> coherencia (validacion r') ''coverage_coherente''
              = coherencia (validacion resultados_incoherentes) ''coverage_coherente'')
        \<and> (metricas resultados_incoherentes ''M001'' \<noteq> None
          \<and> metricas resultados_incoherentes ''M003'' \<noteq> None
          \<and> metricas resultados_incoherentes ''M004'' \<noteq> None
        \<longrightarrow> (\<exists>p cv cr. leer (metricas resultados_incoherentes) ''M001'' ''provision'' = Some p
               \<and> leer (metricas resultados_incoherentes) ''M003'' ''cartera_vencida'' = Some cv
               \<and> leer (metricas resultados_incoherentes) ''M004'' ''coverage_ratio'' = Some cr
               \<and> coherencia (validacion r') ''coverage_coherente''
                   = Some (menor (valor_absoluto (restar (redondear (p / cv)) (Finito cr)))
                                 (redondear 0.01))))" ..
    note v = all [THEN conjunct1]
    from all [THEN conjunct2, THEN conjunct2, THEN mp, OF presentes_incoherentes]
    obtain p cv cr where l: "leer (metricas resultados_incoherentes) ''M001'' ''provision'' = Some p
         \<and> leer (metricas resultados_incoherentes) ''M003'' ''cartera_vencida'' = Some cv
         \<and> leer (metricas resultados_incoherentes) ''M004'' ''coverage_ratio'' = Some cr
         \<and> coherencia (validacion r') ''coverage_coherente''
             = Some (menor (valor_absoluto (restar (redondear (p / cv)) (Finito cr)))
                           (redondear 0.01))"
      by (elim exE) (rule that)
    from l have "p = 1000" "cv = 800" "cr = 3 / 2"
      by (simp_all add: lecturas_incoherentes(1,3,5))
    with l prueba_incoherente
    have "coherencia (validacion r') ''coverage_coherente'' = Some False" by simp
    with v show ?thesis by (intro exI [of _ r'] conjI)
  qed
  have w2:
      "\<exists>r'. validar_coherencia
                (resultados_iniciales ''2025-01-01'' ''informe.pdf'' ''bancolombia'' 2024) = Inr r'
         \<and> coherencia (validacion r') ''coverage_coherente'' = None"
  proof -
    let ?r = "resultados_iniciales ''2025-01-01'' ''informe.pdf'' ''bancolombia'' 2024"
    have ms: "metricas ?r = Map.empty" and co: "coherencia (validacion ?r) = Map.empty"
      by (simp_all add: resultados_iniciales_def)
    have bf: "bien_formadas (metricas ?r) \<and> \<not> divide_por_cero (metricas ?r)"
      unfolding ms by (rule bien_formadas_vacias)
    note t = regla_cobertura_coherente [of ?r, THEN conjunct1, rule_format, OF bf]
    from t obtain r' where all: "validar_coherencia ?r = Inr r'
        \<and> (metricas ?r ''M001'' = None \<or> metricas ?r ''M003'' = None
            \<or> metricas ?r ''M004'' = None
          \<longrightarrow> coherencia (validacion r') ''coverage_coherente''
              = coherencia (validacion ?r) ''coverage_coherente'')
        \<and> (metricas ?r ''M001'' \<noteq> None \<and> metricas ?r ''M003'' \<noteq> None
            \<and> metricas ?r ''M004'' \<noteq> None
        \<longrightarrow> (\<exists>p cv cr. leer (metricas ?r) ''M001'' ''provision'' = Some p
               \<and> leer (metricas ?r) ''M003'' ''cartera_vencida'' = Some cv
               \<and> leer (metricas ?r) ''M004'' ''coverage_ratio'' = Some cr
               \<and> coherencia (validacion r') ''coverage_coherente''
                   = Some (menor (valor_absoluto (restar (redondear (p / cv)) (Finito cr)))
                                 (redondear 0.01))))" ..
    have aus: "metricas ?r ''M001'' = None \<or> metricas ?r ''M003'' = None
        \<or> metricas ?r ''M004'' = None" by (simp add: ms)
    from all [THEN conjunct2, THEN conjunct1, THEN mp, OF aus]
    have "coherencia (validacion r') ''coverage_coherente'' = None" by (simp add: co)
    with all [THEN conjunct1] show ?thesis by (intro exI [of _ r'] conjI)
  qed
  have w3:
      "\<exists>r. extraer_todas_metricas parsers_ejemplo ''2025-01-01'' ''informe.pdf''
                ''bancolombia'' 2024 = Inr r
         \<and> coherencia (validacion r) ''coverage_coherente'' = Some True"
  proof -
    from corrida_ejemplo_existe
    obtain r where r: "extraer_todas_metricas parsers_ejemplo ''2025-01-01'' ''informe.pdf''
        ''bancolombia'' 2024 = Inr r" ..
    note t = regla_cobertura_coherente [of _ parsers_ejemplo "''2025-01-01''" "''informe.pdf''"
        "''bancolombia''" 2024, THEN conjunct2, rule_format, OF r]
    note l = lecturas_ejemplo [OF r]
    have "leer (metricas r) ''M001'' ''provision'' = Some 1000
        \<and> leer (metricas r) ''M003'' ''cartera_vencida'' = Some 800
        \<and> leer (metricas r) ''M004'' ''coverage_ratio'' = Some (5 / 4)"
      using l(1,3,5) by (intro conjI)
    from t [THEN conjunct2, rule_format, OF this, THEN conjunct2] prueba_coherente
    have "coherencia (validacion r) ''coverage_coherente'' = Some True" by simp
    with r show ?thesis by (intro exI [of _ r] conjI)
  qed
  from w1 prueba_incoherente w2 w3 prueba_coherente show ?thesis by (intro conjI)
qed

text \<open>
  The claim as stated compares the exact distance with one hundredth. The provision 2808,
  the overdue portfolio 450 and the coverage ratio 6.25 are doubles whose exact distance,
  \<open>\<bar>2808 / 450 - 6.25\<bar>\<close>, is one hundredth and so not below it, while the rule records
  that the coverage is coherent.
\<close>

theorem cobertura_limite_contraejemplo:
  "leer (metricas resultados_limite) ''M001'' ''provision'' = Some 2808
   \<and> leer (metricas resultados_limite) ''M003'' ''cartera_vencida'' = Some 450
   \<and> leer (metricas resultados_limite) ''M004'' ''coverage_ratio'' = Some (25 / 4)
   \<and> regla_cobertura (metricas resultados_limite) Map.empty
       = Inr [''coverage_coherente'' \<mapsto> True]
   \<and> validar_coherencia resultados_limite
       = Inr (resultados_limite\<lparr> validacion := (validacion resultados_limite)
            \<lparr> coherencia := [''coverage_coherente'' \<mapsto> True,
                              ''provision_rango_valido'' \<mapsto> True] \<rparr> \<rparr>)
   \<and> \<not> \<bar>(2808::real) / 450 - 25 / 4\<bar> < 0.01"
proof -
  note l = lecturas_limite
  have r1: "regla_cobertura (metricas resultados_limite) Map.empty
       = Inr [''coverage_coherente'' \<mapsto> True]"
    using regla_cobertura_presente [OF l(1) l(3) _ l(5), of Map.empty] prueba_limite(3)
    by simp
  have bf: "bien_formadas (metricas resultados_limite)"
    and nz: "\<not> divide_por_cero (metricas resultados_limite)"
    unfolding bien_formadas_def divide_por_cero_def by (simp_all add: l)
  have co: "coherencia (validacion resultados_limite) = Map.empty"
    by (simp add: resultados_limite_def resultados_iniciales_def)
  have rc: "resultado_cobertura (metricas resultados_limite) = Some True"
    using prueba_limite(3) by (simp add: resultado_cobertura_def l)
  have rr: "resultado_riesgosa (metricas resultados_limite) = None"
    by (simp add: resultado_riesgosa_def l leer_ausente)
  have rg: "resultado_rango (metricas resultados_limite) = Some True"
    by (simp add: resultado_rango_def l)
  have v: "validar_coherencia resultados_limite
       = Inr (resultados_limite\<lparr> validacion := (validacion resultados_limite)
            \<lparr> coherencia := [''coverage_coherente'' \<mapsto> True,
                              ''provision_rango_valido'' \<mapsto> True] \<rparr> \<rparr>)"
    unfolding validar_coherencia_bien [OF bf nz] rc rr rg co by simp
  have e: "\<not> \<bar>(2808::real) / 450 - 25 / 4\<bar> < 0.01" by simp
  from l(1) l(3) l(5) r1 v e show ?thesis by (intro conjI)
qed

end
